theory Spec2Isabelle
  imports Main
begin

section \<open>Option cells\<close>

text \<open>
  Byte slices and Go strings are both lists of bytes; \<open>string\<close> is \<open>char list\<close> and a
  \<open>char\<close> is one byte.
\<close>

type_synonym bytes = string

definition HasPrefix :: "string \<Rightarrow> string \<Rightarrow> bool" where
  \<comment> \<open>strings.HasPrefix(s, p)\<close>
  "HasPrefix s p = (take (length p) s = p)"

text \<open>
  The cell types are the ones whose struct literals appear in the tests and in json.go:
  \<open>stringOption{option, value}\<close>, \<open>boolOption{option, value}\<close>,
  \<open>uintOption{option, isSet, value}\<close>, \<open>floatOption{option, isSet, value}\<close>,
  \<open>mapOption{option, value map[string]string}\<close>, \<open>sliceOption{option, value []string}\<close>.
\<close>

record stringOption =
  so_option :: string
  so_value :: string

record boolOption =
  bo_option :: string
  bo_value :: bool

record uintOption =
  uo_option :: string
  uo_isSet :: bool
  uo_value :: nat

text \<open>
  The value of a \<open>floatOption\<close> is a float64. Floating point arithmetic is outside the
  model: \<open>fo_value\<close> keeps the value as the text that \<open>Sprintf("%.3f", value)\<close> gives for it.
\<close>

record floatOption =
  fo_option :: string
  fo_isSet :: bool
  fo_value :: string

text \<open>A Go map is a finite partial function; \<open>None\<close> is the nil map.\<close>

record mapOption =
  mo_option :: string
  mo_value :: "(string \<rightharpoonup> string) option"

record sliceOption =
  sl_option :: string
  sl_value :: "string list"

text \<open>
  A \<open>range\<close> over a Go map visits every key once, in an order the run time chooses anew
  for each loop. The choice is the parameter \<open>ord\<close> of every function that ranges over a
  map: \<open>ord m\<close> is the order in which the keys of \<open>m\<close> are visited, and \<open>iterates ord m\<close>
  says that it is an enumeration of the keys of \<open>m\<close>.
\<close>

type_synonym mapIter = "(string \<rightharpoonup> string) \<Rightarrow> string list"

definition iterates :: "mapIter \<Rightarrow> (string \<rightharpoonup> string) \<Rightarrow> bool" where
  "iterates ord m = (distinct (ord m) \<and> set (ord m) = dom m)"

function decimal :: "nat \<Rightarrow> string" where
  \<comment> \<open>the decimal text of an unsigned integer\<close>
  "decimal n =
     (if n < 10 then [char_of (48 + n)] else decimal (n div 10) @ [char_of (48 + n mod 10)])"
  by pat_completeness auto
termination
  by (relation "measure id") auto

declare decimal.simps [simp del]

text \<open>
  Modelled from the spec: \<open>Set\<close>, \<open>Unset\<close> and \<open>Parse\<close> of the cells (options.go is not
  under src/). \<open>Set(value)\<close> marks the cell set and stores the value, \<open>Unset()\<close> clears it,
  and \<open>Parse()\<close> is empty for an unset cell, \<open>[--flag]\<close> for a boolean flag,
  \<open>[--flag, value]\<close> for a single value, one \<open>[--flag, key, value]\<close> triple per entry of
  a map and one \<open>[--flag, item]\<close> pair per item of a list. The tests TestStringOption,
  TestSliceOption, TestMapOption, TestUIntOption, TestFloatOption and TestBoolOption show
  the same fragments. A string cell and a boolean cell have no \<open>isSet\<close> field: they are
  set when the value is non-empty, respectively true.
\<close>

definition stringOption_Set :: "string \<Rightarrow> stringOption \<Rightarrow> stringOption" where
  "stringOption_Set v so = so\<lparr>so_value := v\<rparr>"

definition stringOption_Unset :: "stringOption \<Rightarrow> stringOption" where
  "stringOption_Unset so = so\<lparr>so_value := []\<rparr>"

definition stringOption_Parse :: "stringOption \<Rightarrow> string list" where
  "stringOption_Parse so =
     (if so_value so = [] then [] else [''--'' @ so_option so, so_value so])"

definition boolOption_Set :: "bool \<Rightarrow> boolOption \<Rightarrow> boolOption" where
  "boolOption_Set v bo = bo\<lparr>bo_value := v\<rparr>"

definition boolOption_Parse :: "boolOption \<Rightarrow> string list" where
  "boolOption_Parse bo = (if bo_value bo then [''--'' @ bo_option bo] else [])"

definition uintOption_Set :: "nat \<Rightarrow> uintOption \<Rightarrow> uintOption" where
  "uintOption_Set v uo = uo\<lparr>uo_isSet := True, uo_value := v\<rparr>"

definition uintOption_Parse :: "uintOption \<Rightarrow> string list" where
  "uintOption_Parse uo =
     (if uo_isSet uo then [''--'' @ uo_option uo, decimal (uo_value uo)] else [])"

definition floatOption_Set :: "string \<Rightarrow> floatOption \<Rightarrow> floatOption" where
  "floatOption_Set v fo = fo\<lparr>fo_isSet := True, fo_value := v\<rparr>"

definition floatOption_Parse :: "floatOption \<Rightarrow> string list" where
  "floatOption_Parse fo =
     (if fo_isSet fo then [''--'' @ fo_option fo, fo_value fo] else [])"

definition mapOption_Set :: "string \<Rightarrow> string \<Rightarrow> mapOption \<Rightarrow> mapOption" where
  "mapOption_Set k v mo =
     mo\<lparr>mo_value := Some ((case mo_value mo of None \<Rightarrow> Map.empty | Some m \<Rightarrow> m)(k \<mapsto> v))\<rparr>"

fun mapTriples :: "string \<Rightarrow> (string \<rightharpoonup> string) \<Rightarrow> string list \<Rightarrow> string list" where
  "mapTriples flag m [] = []"
| "mapTriples flag m (k # ks) =
     (case m k of
        None \<Rightarrow> mapTriples flag m ks
      | Some v \<Rightarrow> [''--'' @ flag, k, v] @ mapTriples flag m ks)"

definition mapOption_Parse :: "mapIter \<Rightarrow> mapOption \<Rightarrow> string list" where
  "mapOption_Parse ord mo =
     (case mo_value mo of
        None \<Rightarrow> []
      | Some m \<Rightarrow> mapTriples (mo_option mo) m (ord m))"

definition sliceOption_Set :: "string \<Rightarrow> sliceOption \<Rightarrow> sliceOption" where
  "sliceOption_Set v sl = sl\<lparr>sl_value := sl_value sl @ [v]\<rparr>"

fun slicePairs :: "string \<Rightarrow> string list \<Rightarrow> string list" where
  "slicePairs flag [] = []"
| "slicePairs flag (v # vs) = [''--'' @ flag, v] @ slicePairs flag vs"

definition sliceOption_Parse :: "sliceOption \<Rightarrow> string list" where
  "sliceOption_Parse sl = slicePairs (sl_option sl) (sl_value sl)"

text \<open>A cell behind the interface that a group's \<open>Args\<close> walks.\<close>

datatype argParser =
    StringOpt stringOption
  | UintOpt uintOption
  | FloatOpt floatOption
  | BoolOpt boolOption
  | MapOpt mapOption
  | SliceOpt sliceOption

fun Parse :: "mapIter \<Rightarrow> argParser \<Rightarrow> string list" where
  "Parse ord (StringOpt c) = stringOption_Parse c"
| "Parse ord (UintOpt c) = uintOption_Parse c"
| "Parse ord (FloatOpt c) = floatOption_Parse c"
| "Parse ord (BoolOpt c) = boolOption_Parse c"
| "Parse ord (MapOpt c) = mapOption_Parse ord c"
| "Parse ord (SliceOpt c) = sliceOption_Parse c"

fun optsToArgs :: "mapIter \<Rightarrow> argParser list \<Rightarrow> string list" where
  \<comment> \<open>the fragments of the cells of a group, in the order the cells are declared\<close>
  "optsToArgs ord [] = []"
| "optsToArgs ord (c # cs) = Parse ord c @ optsToArgs ord cs"

section \<open>Option groups\<close>

text \<open>
  Modelled from the spec: the option groups and their \<open>Args\<close> (options.go is not under
  src/). A group is a struct of cells, and its \<open>Args\<close> concatenates the fragments of the
  cells in declaration order. The structs below hold the fields that the code, the tests
  and the comments under src/ name together with their flags; the other fields of the
  structs are not part of the model. The order of the fields is the order in which the
  expected argument strings of the tests list the flags (expectedArgString,
  TestUnitOptions): the fields are sorted by name, so that the margins come before the
  page sizes. No field of the outline group is named under src/: that group is the list
  of its cells in declaration order.
\<close>

record globalOptions =
  Dpi :: uintOption
  MarginBottom :: uintOption
  MarginBottomUnit :: stringOption
  MarginLeft :: uintOption
  MarginLeftUnit :: stringOption
  MarginRight :: uintOption
  MarginRightUnit :: stringOption
  MarginTopUnit :: stringOption
  PageHeightUnit :: stringOption
  PageSize :: stringOption
  PageWidthUnit :: stringOption

definition newGlobalOptions :: globalOptions where
  "newGlobalOptions =
     \<lparr>Dpi = \<lparr>uo_option = ''dpi'', uo_isSet = False, uo_value = 0\<rparr>,
      MarginBottom = \<lparr>uo_option = ''margin-bottom'', uo_isSet = False, uo_value = 0\<rparr>,
      MarginBottomUnit = \<lparr>so_option = ''margin-bottom'', so_value = []\<rparr>,
      MarginLeft = \<lparr>uo_option = ''margin-left'', uo_isSet = False, uo_value = 0\<rparr>,
      MarginLeftUnit = \<lparr>so_option = ''margin-left'', so_value = []\<rparr>,
      MarginRight = \<lparr>uo_option = ''margin-right'', uo_isSet = False, uo_value = 0\<rparr>,
      MarginRightUnit = \<lparr>so_option = ''margin-right'', so_value = []\<rparr>,
      MarginTopUnit = \<lparr>so_option = ''margin-top'', so_value = []\<rparr>,
      PageHeightUnit = \<lparr>so_option = ''page-height'', so_value = []\<rparr>,
      PageSize = \<lparr>so_option = ''page-size'', so_value = []\<rparr>,
      PageWidthUnit = \<lparr>so_option = ''page-width'', so_value = []\<rparr>\<rparr>"

definition globalOptions_Args :: "globalOptions \<Rightarrow> string list" where
  "globalOptions_Args g =
     uintOption_Parse (Dpi g) @
     uintOption_Parse (MarginBottom g) @
     stringOption_Parse (MarginBottomUnit g) @
     uintOption_Parse (MarginLeft g) @
     stringOption_Parse (MarginLeftUnit g) @
     uintOption_Parse (MarginRight g) @
     stringOption_Parse (MarginRightUnit g) @
     stringOption_Parse (MarginTopUnit g) @
     stringOption_Parse (PageHeightUnit g) @
     stringOption_Parse (PageSize g) @
     stringOption_Parse (PageWidthUnit g)"

type_synonym outlineOptions = "argParser list"

definition outlineOptions_Args :: "mapIter \<Rightarrow> outlineOptions \<Rightarrow> string list" where
  "outlineOptions_Args ord ol = optsToArgs ord ol"

record pageOptions =
  Allow :: sliceOption
  CustomHeader :: mapOption
  DisableSmartShrinking :: boolOption
  EnableLocalFileAccess :: boolOption
  UserStyleSheet :: stringOption
  ViewportSize :: stringOption
  Zoom :: floatOption

definition newPageOptions :: pageOptions where
  "newPageOptions =
     \<lparr>Allow = \<lparr>sl_option = ''allow'', sl_value = []\<rparr>,
      CustomHeader = \<lparr>mo_option = ''custom-header'', mo_value = None\<rparr>,
      DisableSmartShrinking = \<lparr>bo_option = ''disable-smart-shrinking'', bo_value = False\<rparr>,
      EnableLocalFileAccess = \<lparr>bo_option = ''enable-local-file-access'', bo_value = False\<rparr>,
      UserStyleSheet = \<lparr>so_option = ''user-style-sheet'', so_value = []\<rparr>,
      ViewportSize = \<lparr>so_option = ''viewport-size'', so_value = []\<rparr>,
      Zoom = \<lparr>fo_option = ''zoom'', fo_isSet = False, fo_value = []\<rparr>\<rparr>"

definition pageOptions_Args :: "mapIter \<Rightarrow> pageOptions \<Rightarrow> string list" where
  "pageOptions_Args ord po =
     sliceOption_Parse (Allow po) @
     mapOption_Parse ord (CustomHeader po) @
     boolOption_Parse (DisableSmartShrinking po) @
     boolOption_Parse (EnableLocalFileAccess po) @
     stringOption_Parse (UserStyleSheet po) @
     stringOption_Parse (ViewportSize po) @
     floatOption_Parse (Zoom po)"

record headerAndFooterOptions =
  FooterHTML :: stringOption
  HeaderHTML :: stringOption
  HeaderSpacing :: floatOption
  Replace :: mapOption

definition newHeaderAndFooterOptions :: headerAndFooterOptions where
  "newHeaderAndFooterOptions =
     \<lparr>FooterHTML = \<lparr>so_option = ''footer-html'', so_value = []\<rparr>,
      HeaderHTML = \<lparr>so_option = ''header-html'', so_value = []\<rparr>,
      HeaderSpacing = \<lparr>fo_option = ''header-spacing'', fo_isSet = False, fo_value = []\<rparr>,
      Replace = \<lparr>mo_option = ''replace'', mo_value = None\<rparr>\<rparr>"

definition headerAndFooterOptions_Args :: "mapIter \<Rightarrow> headerAndFooterOptions \<Rightarrow> string list" where
  "headerAndFooterOptions_Args ord hf =
     stringOption_Parse (FooterHTML hf) @
     stringOption_Parse (HeaderHTML hf) @
     floatOption_Parse (HeaderSpacing hf) @
     mapOption_Parse ord (Replace hf)"

record tocOptions =
  DisableDottedLines :: boolOption

definition newTocOptions :: tocOptions where
  "newTocOptions = \<lparr>DisableDottedLines = \<lparr>bo_option = ''disable-dotted-lines'', bo_value = False\<rparr>\<rparr>"

definition tocOptions_Args :: "tocOptions \<Rightarrow> string list" where
  "tocOptions_Args t = boolOption_Parse (DisableDottedLines t)"

section \<open>Pages\<close>

record PageOptions =
  PO_pageOptions :: pageOptions
  PO_headerAndFooterOptions :: headerAndFooterOptions

definition PageOptions_Args :: "mapIter \<Rightarrow> PageOptions \<Rightarrow> string list" where
  "PageOptions_Args ord po =
     [] @ pageOptions_Args ord (PO_pageOptions po) @
     headerAndFooterOptions_Args ord (PO_headerAndFooterOptions po)"

definition NewPageOptions :: PageOptions where
  "NewPageOptions =
     \<lparr>PO_pageOptions = newPageOptions,
      PO_headerAndFooterOptions = newHeaderAndFooterOptions\<rparr>"

text \<open>
  Errors are values. Each constructor stands for one message format of the source; a
  wrapped error is an argument.
\<close>

datatype error =
    OsError string
  | DuplicateArgument string
  | ReadMarkdownFailed string error
  | ScanMarkdownFailed error
  | ReadContentFailed string error
  | UnknownProviderType
  | UnsupportedValue string
  | UnmarshalFailed string
  | CreateGeneratorFailed error
  | InvalidInputFile nat
  | MissingBase64PageData nat
  | Base64DecodeFailed nat error
  | MissingInputPath nat
  | UnknownPageType string nat
  | WithStderr string error

text \<open>
  An \<open>io.Reader\<close> that a page hands out is the reader object the caller gave to
  \<open>NewPageReader\<close> (named by its address in the store of reader objects), a fresh
  \<open>bytes.Reader\<close> over a byte slice, or an \<open>errorReader\<close>.
\<close>

datatype ioReader =
    CallerReader nat
  | BytesReader bytes
  | ErrorReader error

record MarkdownPage =
  InputPath :: string
  SkipFirstH1H2 :: bool
  MP_PageOptions :: PageOptions
  htmlCache :: "bytes option"
  readErr :: "error option"

text \<open>
  The three implementations of \<open>PageProvider\<close>. The \<open>Input\<close> of a \<open>PageReader\<close> is an
  interface value: \<open>None\<close> is nil, \<open>Some a\<close> the reader object at address \<open>a\<close>.
\<close>

datatype PageProvider =
    Page string PageOptions
  | PageReader "nat option" PageOptions
  | Markdown MarkdownPage

fun Options :: "PageProvider \<Rightarrow> PageOptions" where
  "Options (Page inp po) = po"
| "Options (PageReader inp po) = po"
| "Options (Markdown mp) = MP_PageOptions mp"

fun setOptions :: "PageOptions \<Rightarrow> PageProvider \<Rightarrow> PageProvider" where
  \<comment> \<open>a write through the pointer that \<open>Options()\<close> returns\<close>
  "setOptions po' (Page inp po) = Page inp po'"
| "setOptions po' (PageReader inp po) = PageReader inp po'"
| "setOptions po' (Markdown mp) = Markdown (mp\<lparr>MP_PageOptions := po'\<rparr>)"

fun InputFile :: "PageProvider \<Rightarrow> string" where
  "InputFile (Page inp po) = inp"
| "InputFile (PageReader inp po) = ''-''"
| "InputFile (Markdown mp) = ''-''"

fun PageProvider_Args :: "mapIter \<Rightarrow> PageProvider \<Rightarrow> string list" where
  "PageProvider_Args ord (Page inp po) = PageOptions_Args ord po"
| "PageProvider_Args ord (PageReader inp po) = PageOptions_Args ord po"
| "PageProvider_Args ord (Markdown mp) = PageOptions_Args ord (MP_PageOptions mp)"

definition NewPage :: "string \<Rightarrow> PageProvider" where
  "NewPage input = Page input NewPageOptions"

definition NewPageReader :: "nat option \<Rightarrow> PageProvider" where
  "NewPageReader input = PageReader input NewPageOptions"

definition NewMarkdownPage :: "string \<Rightarrow> PageProvider" where
  "NewMarkdownPage inputPath =
     Markdown \<lparr>InputPath = inputPath, SkipFirstH1H2 = False, MP_PageOptions = NewPageOptions,
       htmlCache = None, readErr = None\<rparr>"

section \<open>The document and its argument vector\<close>

record cover =
  cover_Input :: string
  cover_pageOptions :: pageOptions

record toc =
  Include :: bool
  toc_pageOptions :: pageOptions
  toc_tocOptions :: tocOptions
  toc_headerAndFooterOptions :: headerAndFooterOptions

text \<open>
  The pages of a document are pointers to page objects in the source, and the value of a
  map cell is a reference to a map object. The model keeps the state of the page object
  behind each entry of the sequence, and the content of the map object behind each cell,
  as values. Where a function writes to a page object or to a map object, the entries of
  the sequence that point to this page object, and the cells that hold this map object,
  are arguments of the model, and the write reaches each of them.
\<close>

record PDFGenerator =
  pdfg_globalOptions :: globalOptions
  pdfg_outlineOptions :: outlineOptions
  Cover :: cover
  TOC :: toc
  OutputFile :: string
  userStyleSheetPath :: string
  headerHTMLPath :: string
  footerHTMLPath :: string
  replace :: mapOption
  binPath :: string
  outbuf :: bytes
  outWriter :: "nat option"
  stdErr :: "nat option"
  pages :: "PageProvider list"

fun appendPages :: "mapIter \<Rightarrow> string list \<Rightarrow> PageProvider list \<Rightarrow> string list" where
  \<comment> \<open>the loop over \<open>pdfg.pages\<close> of \<open>Args\<close>\<close>
  "appendPages ord args [] = args"
| "appendPages ord args (page # ps) =
     appendPages ord (((args @ [''page'']) @ [InputFile page]) @ PageProvider_Args ord page) ps"

definition PDFGenerator_Args :: "mapIter \<Rightarrow> PDFGenerator \<Rightarrow> string list" where
  "PDFGenerator_Args ord pdfg =
     (let args = [] @ globalOptions_Args (pdfg_globalOptions pdfg);
          args = args @ outlineOptions_Args ord (pdfg_outlineOptions pdfg);
          args = (if cover_Input (Cover pdfg) \<noteq> []
                  then ((args @ [''cover'']) @ [cover_Input (Cover pdfg)]) @
                       pageOptions_Args ord (cover_pageOptions (Cover pdfg))
                  else args);
          args = (if Include (TOC pdfg)
                  then (((args @ [''toc'']) @ pageOptions_Args ord (toc_pageOptions (TOC pdfg))) @
                        tocOptions_Args (toc_tocOptions (TOC pdfg))) @
                       headerAndFooterOptions_Args ord (toc_headerAndFooterOptions (TOC pdfg))
                  else args);
          args = appendPages ord args (pages pdfg)
      in if OutputFile pdfg \<noteq> [] then args @ [OutputFile pdfg] else args @ [''-''])"

definition NewPDFPreparer :: PDFGenerator where
  "NewPDFPreparer =
     \<lparr>pdfg_globalOptions = newGlobalOptions,
      pdfg_outlineOptions = [],
      Cover = \<lparr>cover_Input = [], cover_pageOptions = newPageOptions\<rparr>,
      TOC = \<lparr>Include = False, toc_pageOptions = newPageOptions, toc_tocOptions = newTocOptions,
        toc_headerAndFooterOptions = newHeaderAndFooterOptions\<rparr>,
      OutputFile = [],
      userStyleSheetPath = [],
      headerHTMLPath = [],
      footerHTMLPath = [],
      replace = \<lparr>mo_option = ''replace'', mo_value = None\<rparr>,
      binPath = [],
      outbuf = [],
      outWriter = None,
      stdErr = None,
      pages = []\<rparr>"

section \<open>Adding a page\<close>

fun copyMissing ::
  "(string \<rightharpoonup> string) \<Rightarrow> (string \<rightharpoonup> string) \<Rightarrow> string list \<Rightarrow> (string \<rightharpoonup> string)" where
  \<comment> \<open>the loop \<open>for k, v := range pdfg.replace.value\<close> of \<open>AddPage\<close>, over the keys as visited\<close>
  "copyMissing gm pm [] = pm"
| "copyMissing gm pm (k # ks) =
     (case gm k of
        None \<Rightarrow> copyMissing gm pm ks
      | Some v \<Rightarrow> (case pm k of
                    Some w \<Rightarrow> copyMissing gm pm ks
                  | None \<Rightarrow> copyMissing gm (pm(k \<mapsto> v)) ks))"

definition applyStyleSheet :: "string \<Rightarrow> PageOptions \<Rightarrow> PageOptions" where
  "applyStyleSheet path opts =
     (if path \<noteq> [] \<and> so_value (UserStyleSheet (PO_pageOptions opts)) = []
      then opts\<lparr>PO_pageOptions := (PO_pageOptions opts)
             \<lparr>UserStyleSheet := stringOption_Set path (UserStyleSheet (PO_pageOptions opts))\<rparr>\<rparr>
      else opts)"

definition applyHeader :: "string \<Rightarrow> PageOptions \<Rightarrow> PageOptions" where
  "applyHeader path opts =
     (if path \<noteq> [] \<and> so_value (HeaderHTML (PO_headerAndFooterOptions opts)) = []
      then opts\<lparr>PO_headerAndFooterOptions := (PO_headerAndFooterOptions opts)
             \<lparr>HeaderHTML := stringOption_Set path (HeaderHTML (PO_headerAndFooterOptions opts))\<rparr>\<rparr>
      else opts)"

definition applyFooter :: "string \<Rightarrow> PageOptions \<Rightarrow> PageOptions" where
  "applyFooter path opts =
     (if path \<noteq> [] \<and> so_value (FooterHTML (PO_headerAndFooterOptions opts)) = []
      then opts\<lparr>PO_headerAndFooterOptions := (PO_headerAndFooterOptions opts)
             \<lparr>FooterHTML := stringOption_Set path (FooterHTML (PO_headerAndFooterOptions opts))\<rparr>\<rparr>
      else opts)"

definition applyReplace :: "mapIter \<Rightarrow> mapOption \<Rightarrow> PageOptions \<Rightarrow> PageOptions" where
  "applyReplace ord global opts =
     (case mo_value global of
        None \<Rightarrow> opts
      | Some gm \<Rightarrow>
          (let pm = (case mo_value (Replace (PO_headerAndFooterOptions opts)) of
                       None \<Rightarrow> Map.empty
                     | Some m \<Rightarrow> m)
           in opts\<lparr>PO_headerAndFooterOptions := (PO_headerAndFooterOptions opts)
                \<lparr>Replace := (Replace (PO_headerAndFooterOptions opts))
                   \<lparr>mo_value := Some (copyMissing gm pm (ord gm))\<rparr>\<rparr>\<rparr>))"

text \<open>
  \<open>AddPage(p)\<close> merges the defaults into the options of the page object \<open>p\<close> through
  the pointer that \<open>p.Options()\<close> returns, and then appends the pointer \<open>p\<close> to
  \<open>pdfg.pages\<close>. \<open>held\<close> lists the positions of \<open>pdfg.pages\<close> that already point to
  the page object \<open>p\<close>; it is empty for a page object that is new to the document, as
  in every call of the tests and of \<open>NewPDFGeneratorFromJSON\<close>. The entries at these
  positions show the merged options as well, since they are the same object.

  The loop over the global placeholders writes into the map object of the placeholder
  cell of \<open>p\<close>, unless that cell is nil, in which case it gets a new map object first.
  Cells that were copied from one another (\<open>p2.PageOptions = p1.PageOptions\<close>) hold one
  map object. \<open>shared\<close> lists the map cells of the document, after \<open>p\<close> is appended,
  that hold the map object of the placeholder cell of \<open>p\<close> apart from that cell itself;
  it is empty unless cells were copied. Each of them shows the entries that the loop
  writes.
\<close>

fun writeThrough :: "nat list \<Rightarrow> PageProvider \<Rightarrow> PageProvider list \<Rightarrow> PageProvider list" where
  \<comment> \<open>the state \<open>p\<close> of a page object, seen at every position that points to it\<close>
  "writeThrough [] p ps = ps"
| "writeThrough (i # held) p ps = writeThrough held p (ps[i := p])"

datatype mapCell =
    OutlineCell nat
  | CoverCustomHeader
  | TocCustomHeader
  | TocReplace
  | PageCustomHeader nat
  | PageReplace nat

fun putOutline :: "(string \<rightharpoonup> string) \<Rightarrow> argParser \<Rightarrow> argParser" where
  "putOutline m (MapOpt c) = MapOpt (c\<lparr>mo_value := Some m\<rparr>)"
| "putOutline m c = c"

definition putCustomHeader :: "(string \<rightharpoonup> string) \<Rightarrow> pageOptions \<Rightarrow> pageOptions" where
  "putCustomHeader m po = po\<lparr>CustomHeader := (CustomHeader po)\<lparr>mo_value := Some m\<rparr>\<rparr>"

definition putReplace ::
  "(string \<rightharpoonup> string) \<Rightarrow> headerAndFooterOptions \<Rightarrow> headerAndFooterOptions" where
  "putReplace m hf = hf\<lparr>Replace := (Replace hf)\<lparr>mo_value := Some m\<rparr>\<rparr>"

definition pageCustomHeader :: "(string \<rightharpoonup> string) \<Rightarrow> PageProvider \<Rightarrow> PageProvider" where
  "pageCustomHeader m q =
     setOptions ((Options q)\<lparr>PO_pageOptions := putCustomHeader m (PO_pageOptions (Options q))\<rparr>) q"

definition pageReplace :: "(string \<rightharpoonup> string) \<Rightarrow> PageProvider \<Rightarrow> PageProvider" where
  "pageReplace m q =
     setOptions ((Options q)\<lparr>PO_headerAndFooterOptions :=
       putReplace m (PO_headerAndFooterOptions (Options q))\<rparr>) q"

fun writeMap :: "(string \<rightharpoonup> string) \<Rightarrow> mapCell \<Rightarrow> PDFGenerator \<Rightarrow> PDFGenerator" where
  \<comment> \<open>the content \<open>m\<close> of a map object, seen in a cell that holds it; a position that the
      document does not have names no cell\<close>
  "writeMap m (OutlineCell i) d =
     (if i < length (pdfg_outlineOptions d)
      then d\<lparr>pdfg_outlineOptions :=
             (pdfg_outlineOptions d)[i := putOutline m (pdfg_outlineOptions d ! i)]\<rparr>
      else d)"
| "writeMap m CoverCustomHeader d =
     d\<lparr>Cover := (Cover d)\<lparr>cover_pageOptions := putCustomHeader m (cover_pageOptions (Cover d))\<rparr>\<rparr>"
| "writeMap m TocCustomHeader d =
     d\<lparr>TOC := (TOC d)\<lparr>toc_pageOptions := putCustomHeader m (toc_pageOptions (TOC d))\<rparr>\<rparr>"
| "writeMap m TocReplace d =
     d\<lparr>TOC := (TOC d)\<lparr>toc_headerAndFooterOptions :=
            putReplace m (toc_headerAndFooterOptions (TOC d))\<rparr>\<rparr>"
| "writeMap m (PageCustomHeader i) d =
     (if i < length (pages d) then d\<lparr>pages := (pages d)[i := pageCustomHeader m (pages d ! i)]\<rparr>
      else d)"
| "writeMap m (PageReplace i) d =
     (if i < length (pages d) then d\<lparr>pages := (pages d)[i := pageReplace m (pages d ! i)]\<rparr>
      else d)"

definition AddPage ::
  "mapIter \<Rightarrow> nat list \<Rightarrow> mapCell list \<Rightarrow> PageProvider \<Rightarrow> PDFGenerator \<Rightarrow> PDFGenerator" where
  "AddPage ord held shared p pdfg =
     (let opts = Options p;
          opts = applyStyleSheet (userStyleSheetPath pdfg) opts;
          opts = applyHeader (headerHTMLPath pdfg) opts;
          opts = applyFooter (footerHTMLPath pdfg) opts;
          opts = applyReplace ord (replace pdfg) opts;
          q = setOptions opts p;
          d = pdfg\<lparr>pages := writeThrough held q (pages pdfg) @ [q]\<rparr>
      in case (mo_value (replace pdfg),
               mo_value (Replace (PO_headerAndFooterOptions (Options p)))) of
           (Some gm, Some pm) \<Rightarrow> fold (writeMap (copyMissing gm pm (ord gm))) shared d
         | _ \<Rightarrow> d)"

definition SetPages :: "PageProvider list \<Rightarrow> PDFGenerator \<Rightarrow> PDFGenerator" where
  "SetPages p pdfg = pdfg\<lparr>pages := p\<rparr>"

definition ResetPages :: "PDFGenerator \<Rightarrow> PDFGenerator" where
  "ResetPages pdfg = pdfg\<lparr>pages := []\<rparr>"

definition SetUserStyleSheet :: "string \<Rightarrow> PDFGenerator \<Rightarrow> PDFGenerator" where
  "SetUserStyleSheet path pdfg = pdfg\<lparr>userStyleSheetPath := path\<rparr>"

definition SetHeaderHTML :: "string \<Rightarrow> PDFGenerator \<Rightarrow> PDFGenerator" where
  "SetHeaderHTML path pdfg = pdfg\<lparr>headerHTMLPath := path\<rparr>"

definition SetFooterHTML :: "string \<Rightarrow> PDFGenerator \<Rightarrow> PDFGenerator" where
  "SetFooterHTML path pdfg = pdfg\<lparr>footerHTMLPath := path\<rparr>"

definition SetReplace :: "string \<Rightarrow> string \<Rightarrow> PDFGenerator \<Rightarrow> PDFGenerator" where
  "SetReplace key val pdfg = pdfg\<lparr>replace := mapOption_Set key val (replace pdfg)\<rparr>"

definition SetCover :: "string \<Rightarrow> PDFGenerator \<Rightarrow> PDFGenerator" where
  "SetCover path pdfg = pdfg\<lparr>Cover := (Cover pdfg)\<lparr>cover_Input := path\<rparr>\<rparr>"

section \<open>The check for duplicate flags\<close>

fun checkDuplicates :: "string list \<Rightarrow> string list \<Rightarrow> error option" where
  \<comment> \<open>the loop of \<open>checkDuplicateFlags\<close>; \<open>options\<close> are the flags seen so far\<close>
  "checkDuplicates options [] = None"
| "checkDuplicates options (arg # args) =
     (if HasPrefix arg ''--''
      then (if arg \<in> set options then Some (DuplicateArgument arg)
            else checkDuplicates (options @ [arg]) args)
      else checkDuplicates options args)"

definition checkDuplicateFlags :: "PDFGenerator \<Rightarrow> error option" where
  "checkDuplicateFlags pdfg = checkDuplicates [] (globalOptions_Args (pdfg_globalOptions pdfg))"

section \<open>The derived-markup page\<close>

text \<open>
  \<open>strings.TrimSpace\<close> removes the leading and the trailing white space of a string, as
  Unicode defines it. On the bytes of a string the white-space characters are the six
  ASCII ones and the UTF-8 encodings of U+0085, U+00A0, U+1680, U+2000 to U+200A, U+2028,
  U+2029, U+202F, U+205F and U+3000.
\<close>

definition spaceRunes :: "string list" where
  "spaceRunes =
     [[CHR 0x09], [CHR 0x0A], [CHR 0x0B], [CHR 0x0C], [CHR 0x0D], [CHR 0x20],
      [CHR 0xC2, CHR 0x85], [CHR 0xC2, CHR 0xA0],
      [CHR 0xE1, CHR 0x9A, CHR 0x80],
      [CHR 0xE2, CHR 0x80, CHR 0x80], [CHR 0xE2, CHR 0x80, CHR 0x81],
      [CHR 0xE2, CHR 0x80, CHR 0x82], [CHR 0xE2, CHR 0x80, CHR 0x83],
      [CHR 0xE2, CHR 0x80, CHR 0x84], [CHR 0xE2, CHR 0x80, CHR 0x85],
      [CHR 0xE2, CHR 0x80, CHR 0x86], [CHR 0xE2, CHR 0x80, CHR 0x87],
      [CHR 0xE2, CHR 0x80, CHR 0x88], [CHR 0xE2, CHR 0x80, CHR 0x89],
      [CHR 0xE2, CHR 0x80, CHR 0x8A],
      [CHR 0xE2, CHR 0x80, CHR 0xA8], [CHR 0xE2, CHR 0x80, CHR 0xA9],
      [CHR 0xE2, CHR 0x80, CHR 0xAF],
      [CHR 0xE2, CHR 0x81, CHR 0x9F],
      [CHR 0xE3, CHR 0x80, CHR 0x80]]"

fun leadingRune :: "string list \<Rightarrow> string \<Rightarrow> nat" where
  \<comment> \<open>the length of the first of the given byte sequences that the string starts with, or 0\<close>
  "leadingRune [] s = 0"
| "leadingRune (r # rs) s =
     (if r \<noteq> [] \<and> HasPrefix s r then length r else leadingRune rs s)"

lemma leadingRune_le: "leadingRune rs s \<le> length s"
proof (induction rs)
  case Nil
  then show ?case by simp
next
  case (Cons r rs)
  have "length r \<le> length s" if "take (length r) s = r"
    using that by (metis length_take min.cobounded1)
  with Cons show ?case by (simp add: HasPrefix_def)
qed

function trimRunes :: "string list \<Rightarrow> string \<Rightarrow> string" where
  "trimRunes rs s = (if leadingRune rs s = 0 then s else trimRunes rs (drop (leadingRune rs s) s))"
  by pat_completeness auto
termination
proof (relation "measure (\<lambda>(rs, s). length s)")
  show "wf (measure (\<lambda>(rs, s). length s))" by simp
next
  fix rs :: "string list" and s :: string
  assume "leadingRune rs s \<noteq> 0"
  moreover have "leadingRune rs s \<le> length s" by (rule leadingRune_le)
  ultimately show "((rs, drop (leadingRune rs s) s), (rs, s)) \<in> measure (\<lambda>(rs, s). length s)"
    by simp
qed

declare trimRunes.simps [simp del]

definition TrimSpace :: "string \<Rightarrow> string" where
  "TrimSpace s = rev (trimRunes (map rev spaceRunes) (rev (trimRunes spaceRunes s)))"

text \<open>
  A \<open>bufio.Scanner\<close> with the default split function: the tokens are the lines of the
  data without their end-of-line marker, a line feed with one optional carriage return
  before it. The text after the last line feed is a line when it is not empty. A line of
  \<open>MaxScanTokenSize\<close> (64 * 1024) bytes or more ends the scan.
\<close>

definition newline :: char where
  "newline = CHR 0x0A"

fun rawLines :: "bytes \<Rightarrow> bytes \<Rightarrow> bytes list" where
  "rawLines cur [] = (if cur = [] then [] else [cur])"
| "rawLines cur (c # cs) = (if c = newline then cur # rawLines [] cs else rawLines (cur @ [c]) cs)"

definition dropCR :: "bytes \<Rightarrow> bytes" where
  "dropCR l = (if l \<noteq> [] \<and> last l = CHR 0x0D then butlast l else l)"

definition scanLines :: "bytes \<Rightarrow> string list" where
  "scanLines data = map dropCR (takeWhile (\<lambda>l. length l < 65536) (rawLines [] data))"

fun skipScan :: "string list \<Rightarrow> nat \<Rightarrow> bool \<Rightarrow> nat option" where
  \<comment> \<open>the scanner loop of \<open>Reader\<close>: the byte offset at which a \<open>break\<close> set \<open>skipped\<close>,
      \<open>None\<close> when the loop ends with \<open>skipped\<close> false\<close>
  "skipScan [] byteOffset foundH1 = None"
| "skipScan (line # ls) byteOffset foundH1 =
     (let trimmedLine = TrimSpace line;
          lineLen = length line + 1
      in if \<not> foundH1 \<and> HasPrefix trimmedLine ''# '' then skipScan ls (byteOffset + lineLen) True
         else if foundH1 \<and> HasPrefix trimmedLine ''## '' then Some (byteOffset + lineLen)
         else if foundH1 \<and> trimmedLine \<noteq> [] then Some byteOffset
         else if foundH1 \<and> trimmedLine = [] then skipScan ls (byteOffset + lineLen) foundH1
         else if \<not> foundH1 then skipScan ls (byteOffset + lineLen) foundH1
         else None)"

text \<open>
  A call either returns or panics; the slice expression \<open>mdBytesAll[byteOffset:]\<close> panics
  when the offset is beyond the length of the slice.
\<close>

datatype 'a go = Panics | Returns 'a

definition mdBytesToParse :: "bool \<Rightarrow> bytes \<Rightarrow> bytes go" where
  \<comment> \<open>the bytes that \<open>Reader\<close> hands to the markdown parser. The loop is left by a \<open>break\<close>
      only after a line was scanned, so \<open>scanner.Err()\<close> is nil when \<open>skipped\<close> is true.\<close>
  "mdBytesToParse skipFirstH1H2 mdBytesAll =
     (if skipFirstH1H2
      then (case skipScan (scanLines mdBytesAll) 0 False of
              None \<Rightarrow> Returns mdBytesAll
            | Some byteOffset \<Rightarrow>
                if byteOffset \<le> length mdBytesAll then Returns (drop byteOffset mdBytesAll)
                else Panics)
      else Returns mdBytesAll)"

text \<open>
  What a call reads from outside the program: the outcome of \<open>os.ReadFile\<close> for each
  path, and the markdown library's conversion of markdown bytes to HTML.
\<close>

record env =
  readFile :: "string \<Rightarrow> error + bytes"
  toHTML :: "bytes \<Rightarrow> bytes"

definition htmlOpen :: bytes where
  "htmlOpen = ''<!DOCTYPE html><html><head><meta charset='' @ [CHR 0x22] @ ''utf-8'' @
     [CHR 0x22] @ ''><title></title></head><body>''"

definition htmlClose :: bytes where
  "htmlClose = ''</body></html>''"

definition MarkdownPage_Reader :: "env \<Rightarrow> MarkdownPage \<Rightarrow> (ioReader \<times> MarkdownPage) go" where
  "MarkdownPage_Reader e mp =
     (case (htmlCache mp, readErr mp) of
        (_, Some err) \<Rightarrow> Returns (ErrorReader err, mp)
      | (Some html, None) \<Rightarrow> Returns (BytesReader html, mp)
      | (None, None) \<Rightarrow>
          (case readFile e (InputPath mp) of
             Inl err \<Rightarrow>
               Returns (ErrorReader (ReadMarkdownFailed (InputPath mp) err),
                 mp\<lparr>readErr := Some (ReadMarkdownFailed (InputPath mp) err)\<rparr>)
           | Inr mdBytesAll \<Rightarrow>
               (case mdBytesToParse (SkipFirstH1H2 mp) mdBytesAll of
                  Panics \<Rightarrow> Panics
                | Returns mdBytes \<Rightarrow>
                    Returns (BytesReader (htmlOpen @ toHTML e mdBytes @ htmlClose),
                      mp\<lparr>htmlCache := Some (htmlOpen @ toHTML e mdBytes @ htmlClose)\<rparr>))))"

fun Reader :: "env \<Rightarrow> PageProvider \<Rightarrow> (ioReader option \<times> PageProvider) go" where
  \<comment> \<open>\<open>Reader()\<close> of the interface, with the page as the call leaves it\<close>
  "Reader e (Page inp po) = Returns (None, Page inp po)"
| "Reader e (PageReader inp po) = Returns (map_option CallerReader inp, PageReader inp po)"
| "Reader e (Markdown mp) =
     (case MarkdownPage_Reader e mp of
        Panics \<Rightarrow> Panics
      | Returns (r, mp') \<Rightarrow> Returns (Some r, Markdown mp'))"

section \<open>Reader objects\<close>

text \<open>
  A reader object that a caller hands to \<open>NewPageReader\<close> holds the bytes it has yet to
  deliver and the condition that ends it: the end of the input (\<open>None\<close>) or an error.
  Reading moves the bytes out of the object; nothing refills it. The objects live in a
  heap, so that two references to one object see the same state; \<open>nextAddr\<close> is the
  address the next new object gets.
\<close>

record stream =
  pending :: bytes
  failure :: "error option"

record heap =
  cells :: "nat \<Rightarrow> stream"
  nextAddr :: nat

definition alloc :: "stream \<Rightarrow> heap \<Rightarrow> nat \<times> heap" where
  "alloc s h = (nextAddr h, h\<lparr>cells := (cells h)(nextAddr h := s), nextAddr := Suc (nextAddr h)\<rparr>)"

definition drain :: "nat \<Rightarrow> heap \<Rightarrow> heap" where
  "drain a h = h\<lparr>cells := (cells h)(a := (cells h a)\<lparr>pending := []\<rparr>)\<rparr>"

fun ReadAll :: "ioReader \<Rightarrow> heap \<Rightarrow> (error + bytes) \<times> heap" where
  \<comment> \<open>\<open>io.ReadAll\<close>: everything up to the end of the input, or the error that stops the read\<close>
  "ReadAll (CallerReader a) h =
     (case failure (cells h a) of
        None \<Rightarrow> (Inr (pending (cells h a)), drain a h)
      | Some err \<Rightarrow> (Inl err, drain a h))"
| "ReadAll (BytesReader b) h = (Inr b, h)"
| "ReadAll (ErrorReader err) h = (Inl err, h)"

section \<open>The build\<close>

datatype writer = OutBuf | ErrBuf | CallerWriter nat

record Cmd =
  cmd_Path :: string
  cmd_Args :: "string list"
  cmd_Stdin :: "ioReader option"
  cmd_Stdout :: writer
  cmd_Stderr :: writer

text \<open>
  What \<open>cmd.Run()\<close> and the context report once the external process has run: the error
  of the run, the error of the context, the bytes the process wrote to its standard
  output and the text it wrote to its standard error.
\<close>

record procResult =
  runErr :: "error option"
  ctxErr :: "error option"
  stdoutBytes :: bytes
  stderrText :: string

type_synonym process = "Cmd \<Rightarrow> heap \<Rightarrow> procResult \<times> heap"

fun findStdin :: "env \<Rightarrow> PageProvider list \<Rightarrow> (ioReader option \<times> PageProvider list) go" where
  \<comment> \<open>the loop of \<open>run\<close> that sets \<open>cmd.Stdin\<close>; \<open>Reader()\<close> is called once for the test and
      once more for the assignment\<close>
  "findStdin e [] = Returns (None, [])"
| "findStdin e (page # ps) =
     (case Reader e page of
        Panics \<Rightarrow> Panics
      | Returns (None, page1) \<Rightarrow>
          (case findStdin e ps of
             Panics \<Rightarrow> Panics
           | Returns (stdin, ps') \<Rightarrow> Returns (stdin, page1 # ps'))
      | Returns (Some r, page1) \<Rightarrow>
          (case Reader e page1 of
             Panics \<Rightarrow> Panics
           | Returns (stdin, page2) \<Rightarrow> Returns (stdin, page2 # ps)))"

definition runError :: "writer \<Rightarrow> procResult \<Rightarrow> error option" where
  \<comment> \<open>the error that \<open>run\<close> returns after \<open>cmd.Run()\<close>\<close>
  "runError errW res =
     (case runErr res of
        None \<Rightarrow> None
      | Some err \<Rightarrow>
          (case ctxErr res of
             Some ctxe \<Rightarrow> Some ctxe
           | None \<Rightarrow>
               if errW = ErrBuf \<and> TrimSpace (stderrText res) \<noteq> []
               then Some (WithStderr (stderrText res) err)
               else Some err))"

text \<open>
  \<open>run\<close> returns its error, the document and the heap as the call leaves them, and the
  commands it has started: none, or the one it built.
\<close>

definition run ::
  "process \<Rightarrow> env \<Rightarrow> mapIter \<Rightarrow> PDFGenerator \<Rightarrow> heap \<Rightarrow>
     (error option \<times> PDFGenerator \<times> heap \<times> Cmd list) go" where
  "run proc e ord pdfg h =
     (case checkDuplicateFlags pdfg of
        Some err \<Rightarrow> Returns (Some err, pdfg, h, [])
      | None \<Rightarrow>
          (let args = PDFGenerator_Args ord pdfg;
               errW = (case stdErr pdfg of None \<Rightarrow> ErrBuf | Some w \<Rightarrow> CallerWriter w);
               outW = (case outWriter pdfg of None \<Rightarrow> OutBuf | Some w \<Rightarrow> CallerWriter w);
               pdfg1 = (case outWriter pdfg of None \<Rightarrow> pdfg\<lparr>outbuf := []\<rparr> | Some w \<Rightarrow> pdfg)
           in case findStdin e (pages pdfg1) of
                Panics \<Rightarrow> Panics
              | Returns (stdin, ps) \<Rightarrow>
                  (let cmd = \<lparr>cmd_Path = binPath pdfg1, cmd_Args = args, cmd_Stdin = stdin,
                              cmd_Stdout = outW, cmd_Stderr = errW\<rparr>;
                       (res, h') = proc cmd h;
                       pdfg2 = pdfg1\<lparr>pages := ps\<rparr>;
                       pdfg3 = (if outW = OutBuf then pdfg2\<lparr>outbuf := stdoutBytes res\<rparr>
                                else pdfg2)
                   in Returns (runError errW res, pdfg3, h', [cmd]))))"

definition Create ::
  "process \<Rightarrow> env \<Rightarrow> mapIter \<Rightarrow> PDFGenerator \<Rightarrow> heap \<Rightarrow>
     (error option \<times> PDFGenerator \<times> heap \<times> Cmd list) go" where
  "Create proc e ord pdfg h = run proc e ord pdfg h"

text \<open>
  \<open>NewPDFGenerator\<close> looks for the executable. The search reads the process-wide cache,
  the search path and the environment; its outcome is the parameter \<open>found\<close>.
\<close>

definition NewPDFGenerator :: "error + string \<Rightarrow> PDFGenerator \<times> error option" where
  "NewPDFGenerator found =
     (case found of
        Inl err \<Rightarrow> (NewPDFPreparer, Some err)
      | Inr path \<Rightarrow> (NewPDFPreparer\<lparr>binPath := path\<rparr>, None))"

section \<open>The interchange codec\<close>

text \<open>
  The standard library's base64 and JSON codecs are not part of the repository. A base64
  text is named by the bytes it encodes: \<open>Base64 b\<close> is the standard encoding of \<open>b\<close>,
  the empty text for the empty \<open>b\<close> only, and \<open>NotBase64 s\<close> is a text that does not
  decode. A JSON text is named by the \<open>jsonPDFGenerator\<close> that decoding it gives: the
  \<open>MarshalJSON\<close> and \<open>UnmarshalJSON\<close> methods of the cells copy every field of a cell
  (\<open>option\<close>, \<open>value\<close>, and \<open>isSet\<close> where there is one), and the exported fields of
  the groups are the cells.
\<close>

datatype base64 = Base64 bytes | NotBase64 string

definition EncodeToString :: "bytes \<Rightarrow> base64" where
  "EncodeToString b = Base64 b"

fun DecodeString :: "base64 \<Rightarrow> error + bytes" where
  "DecodeString (Base64 b) = Inr b"
| "DecodeString (NotBase64 s) = Inl (OsError ''illegal base64 data'')"

record jsonPage =
  jp_Type :: string
  jp_PageOptions :: PageOptions
  jp_InputFile :: string
  jp_InputPath :: string
  jp_Base64PageData :: base64

record jsonPDFGenerator =
  j_GlobalOptions :: globalOptions
  j_OutlineOptions :: outlineOptions
  j_Cover :: cover
  j_TOC :: toc
  j_Pages :: "jsonPage list"

datatype jsonText = JSON jsonPDFGenerator | Malformed string

text \<open>
  The decoder gives back strings that are valid UTF-8 only, so that \<open>JSON j\<close> names a
  text only when the strings of \<open>j\<close> are valid; \<open>NewPDFGeneratorFromJSON\<close> below reads
  the value off the name of the text.

  \<open>json.Marshal\<close> does not write every value as it is. It writes a string as valid
  UTF-8: the encoder walks the string with \<open>utf8.DecodeRuneInString\<close> and writes U+FFFD
  for each byte that does not start a valid encoding. \<open>runeLen s\<close> is the length of
  the valid encoding at the start of \<open>s\<close>, 0 when there is none, following the table of
  first bytes and the accept ranges of the package \<open>unicode/utf8\<close>; \<open>coerceUTF8 s\<close> is
  the string that the decoder gives back for the text of \<open>s\<close>.
\<close>

definition byteOf :: "char \<Rightarrow> nat" where
  "byteOf c = of_char c"

definition accepts :: "nat \<Rightarrow> char \<Rightarrow> bool" where
  \<comment> \<open>the second byte that may follow the first byte \<open>b\<close> of an encoding\<close>
  "accepts b c =
     ((if b = 0xE0 then 0xA0 else if b = 0xF0 then 0x90 else 0x80) \<le> byteOf c \<and>
      byteOf c \<le> (if b = 0xED then 0x9F else if b = 0xF4 then 0x8F else 0xBF))"

definition isCont :: "char \<Rightarrow> bool" where
  \<comment> \<open>a third or fourth byte of an encoding\<close>
  "isCont c = (0x80 \<le> byteOf c \<and> byteOf c \<le> 0xBF)"

fun runeLen :: "string \<Rightarrow> nat" where
  "runeLen [] = 0"
| "runeLen (c # cs) =
     (if byteOf c < 0x80 then 1
      else if 0xC2 \<le> byteOf c \<and> byteOf c \<le> 0xDF
      then (if 1 \<le> length cs \<and> accepts (byteOf c) (cs ! 0) then 2 else 0)
      else if 0xE0 \<le> byteOf c \<and> byteOf c \<le> 0xEF
      then (if 2 \<le> length cs \<and> accepts (byteOf c) (cs ! 0) \<and> isCont (cs ! 1) then 3 else 0)
      else if 0xF0 \<le> byteOf c \<and> byteOf c \<le> 0xF4
      then (if 3 \<le> length cs \<and> accepts (byteOf c) (cs ! 0) \<and> isCont (cs ! 1) \<and>
               isCont (cs ! 2)
            then 4 else 0)
      else 0)"

definition replacementChar :: string where
  \<comment> \<open>the UTF-8 encoding of U+FFFD\<close>
  "replacementChar = [CHR 0xEF, CHR 0xBF, CHR 0xBD]"

function coerceUTF8 :: "string \<Rightarrow> string" where
  "coerceUTF8 s =
     (if s = [] then []
      else if runeLen s = 0 then replacementChar @ coerceUTF8 (tl s)
      else take (runeLen s) s @ coerceUTF8 (drop (runeLen s) s))"
  by pat_completeness auto
termination
  by (relation "measure length") auto

declare coerceUTF8.simps [simp del]

function validUTF8 :: "string \<Rightarrow> bool" where
  \<comment> \<open>\<open>utf8.ValidString\<close>\<close>
  "validUTF8 s =
     (if s = [] then True
      else if runeLen s = 0 then False
      else validUTF8 (drop (runeLen s) s))"
  by pat_completeness auto
termination
  by (relation "measure length") auto

declare validUTF8.simps [simp del]

text \<open>
  The encoder writes the entries of a map sorted by their keys, compared byte by byte,
  and the decoder stores them in this order: where the keys of several entries become
  the same string, the entry written last is the one that stays.
\<close>

fun bytesLess :: "string \<Rightarrow> string \<Rightarrow> bool" where
  "bytesLess [] [] = False"
| "bytesLess [] (y # ys) = True"
| "bytesLess (x # xs) [] = False"
| "bytesLess (x # xs) (y # ys) = (byteOf x < byteOf y \<or> (x = y \<and> bytesLess xs ys))"

definition lastKey :: "string set \<Rightarrow> string" where
  "lastKey S = (THE k. k \<in> S \<and> (\<forall>k' \<in> S. k' = k \<or> bytesLess k' k))"

definition coerceMap :: "(string \<rightharpoonup> string) \<Rightarrow> (string \<rightharpoonup> string)" where
  "coerceMap m =
     (\<lambda>k'. if \<exists>k. m k \<noteq> None \<and> coerceUTF8 k = k'
           then map_option coerceUTF8 (m (lastKey {k. m k \<noteq> None \<and> coerceUTF8 k = k'}))
           else None)"

text \<open>The value that the decoder gives back for the text of a cell, a group, a page record.\<close>

definition coerce_stringOption :: "stringOption \<Rightarrow> stringOption" where
  "coerce_stringOption c =
     \<lparr>so_option = coerceUTF8 (so_option c), so_value = coerceUTF8 (so_value c)\<rparr>"

definition coerce_boolOption :: "boolOption \<Rightarrow> boolOption" where
  "coerce_boolOption c = \<lparr>bo_option = coerceUTF8 (bo_option c), bo_value = bo_value c\<rparr>"

definition coerce_uintOption :: "uintOption \<Rightarrow> uintOption" where
  "coerce_uintOption c =
     \<lparr>uo_option = coerceUTF8 (uo_option c), uo_isSet = uo_isSet c, uo_value = uo_value c\<rparr>"

definition coerce_floatOption :: "floatOption \<Rightarrow> floatOption" where
  "coerce_floatOption c =
     \<lparr>fo_option = coerceUTF8 (fo_option c), fo_isSet = fo_isSet c, fo_value = fo_value c\<rparr>"

definition coerce_mapOption :: "mapOption \<Rightarrow> mapOption" where
  "coerce_mapOption c =
     \<lparr>mo_option = coerceUTF8 (mo_option c), mo_value = map_option coerceMap (mo_value c)\<rparr>"

definition coerce_sliceOption :: "sliceOption \<Rightarrow> sliceOption" where
  "coerce_sliceOption c =
     \<lparr>sl_option = coerceUTF8 (sl_option c), sl_value = map coerceUTF8 (sl_value c)\<rparr>"

fun coerce_cell :: "argParser \<Rightarrow> argParser" where
  "coerce_cell (StringOpt c) = StringOpt (coerce_stringOption c)"
| "coerce_cell (UintOpt c) = UintOpt (coerce_uintOption c)"
| "coerce_cell (FloatOpt c) = FloatOpt (coerce_floatOption c)"
| "coerce_cell (BoolOpt c) = BoolOpt (coerce_boolOption c)"
| "coerce_cell (MapOpt c) = MapOpt (coerce_mapOption c)"
| "coerce_cell (SliceOpt c) = SliceOpt (coerce_sliceOption c)"

definition coerce_globalOptions :: "globalOptions \<Rightarrow> globalOptions" where
  "coerce_globalOptions g =
     \<lparr>Dpi = coerce_uintOption (Dpi g),
      MarginBottom = coerce_uintOption (MarginBottom g),
      MarginBottomUnit = coerce_stringOption (MarginBottomUnit g),
      MarginLeft = coerce_uintOption (MarginLeft g),
      MarginLeftUnit = coerce_stringOption (MarginLeftUnit g),
      MarginRight = coerce_uintOption (MarginRight g),
      MarginRightUnit = coerce_stringOption (MarginRightUnit g),
      MarginTopUnit = coerce_stringOption (MarginTopUnit g),
      PageHeightUnit = coerce_stringOption (PageHeightUnit g),
      PageSize = coerce_stringOption (PageSize g),
      PageWidthUnit = coerce_stringOption (PageWidthUnit g)\<rparr>"

definition coerce_pageOptions :: "pageOptions \<Rightarrow> pageOptions" where
  "coerce_pageOptions po =
     \<lparr>Allow = coerce_sliceOption (Allow po),
      CustomHeader = coerce_mapOption (CustomHeader po),
      DisableSmartShrinking = coerce_boolOption (DisableSmartShrinking po),
      EnableLocalFileAccess = coerce_boolOption (EnableLocalFileAccess po),
      UserStyleSheet = coerce_stringOption (UserStyleSheet po),
      ViewportSize = coerce_stringOption (ViewportSize po),
      Zoom = coerce_floatOption (Zoom po)\<rparr>"

definition coerce_headerAndFooterOptions ::
  "headerAndFooterOptions \<Rightarrow> headerAndFooterOptions" where
  "coerce_headerAndFooterOptions hf =
     \<lparr>FooterHTML = coerce_stringOption (FooterHTML hf),
      HeaderHTML = coerce_stringOption (HeaderHTML hf),
      HeaderSpacing = coerce_floatOption (HeaderSpacing hf),
      Replace = coerce_mapOption (Replace hf)\<rparr>"

definition coerce_tocOptions :: "tocOptions \<Rightarrow> tocOptions" where
  "coerce_tocOptions t = \<lparr>DisableDottedLines = coerce_boolOption (DisableDottedLines t)\<rparr>"

definition coerce_PageOptions :: "PageOptions \<Rightarrow> PageOptions" where
  "coerce_PageOptions po =
     \<lparr>PO_pageOptions = coerce_pageOptions (PO_pageOptions po),
      PO_headerAndFooterOptions = coerce_headerAndFooterOptions (PO_headerAndFooterOptions po)\<rparr>"

definition coerce_cover :: "cover \<Rightarrow> cover" where
  "coerce_cover c =
     \<lparr>cover_Input = coerceUTF8 (cover_Input c),
      cover_pageOptions = coerce_pageOptions (cover_pageOptions c)\<rparr>"

definition coerce_toc :: "toc \<Rightarrow> toc" where
  "coerce_toc t =
     \<lparr>Include = Include t,
      toc_pageOptions = coerce_pageOptions (toc_pageOptions t),
      toc_tocOptions = coerce_tocOptions (toc_tocOptions t),
      toc_headerAndFooterOptions =
        coerce_headerAndFooterOptions (toc_headerAndFooterOptions t)\<rparr>"

definition coerce_jsonPage :: "jsonPage \<Rightarrow> jsonPage" where
  "coerce_jsonPage jp =
     \<lparr>jp_Type = coerceUTF8 (jp_Type jp),
      jp_PageOptions = coerce_PageOptions (jp_PageOptions jp),
      jp_InputFile = coerceUTF8 (jp_InputFile jp),
      jp_InputPath = coerceUTF8 (jp_InputPath jp),
      jp_Base64PageData = jp_Base64PageData jp\<rparr>"

definition coerce_jsonPDFGenerator :: "jsonPDFGenerator \<Rightarrow> jsonPDFGenerator" where
  "coerce_jsonPDFGenerator j =
     \<lparr>j_GlobalOptions = coerce_globalOptions (j_GlobalOptions j),
      j_OutlineOptions = map coerce_cell (j_OutlineOptions j),
      j_Cover = coerce_cover (j_Cover j),
      j_TOC = coerce_toc (j_TOC j),
      j_Pages = map coerce_jsonPage (j_Pages j)\<rparr>"

text \<open>
  \<open>json.Marshal\<close> refuses a float64 that is NaN or infinite with an
  \<open>UnsupportedValueError\<close>, for a cell that is set and for one that is not. These are
  the values whose \<open>%.3f\<close> text is \<open>NaN\<close>, \<open>+Inf\<close> or \<open>-Inf\<close>. The floats of an
  interchange value are listed in the order in which the encoder reaches them; the first
  one that it refuses is the one the error reports.
\<close>

definition nonFinite :: "string \<Rightarrow> bool" where
  "nonFinite v = (v = ''NaN'' \<or> v = ''+Inf'' \<or> v = ''-Inf'')"

fun floats_cell :: "argParser \<Rightarrow> string list" where
  "floats_cell (FloatOpt c) = [fo_value c]"
| "floats_cell c = []"

definition floats_PageOptions :: "PageOptions \<Rightarrow> string list" where
  "floats_PageOptions po =
     [fo_value (Zoom (PO_pageOptions po)),
      fo_value (HeaderSpacing (PO_headerAndFooterOptions po))]"

definition floats_groups :: "outlineOptions \<Rightarrow> cover \<Rightarrow> toc \<Rightarrow> string list" where
  "floats_groups ol c t =
     concat (map floats_cell ol) @
     [fo_value (Zoom (cover_pageOptions c)),
      fo_value (Zoom (toc_pageOptions t)),
      fo_value (HeaderSpacing (toc_headerAndFooterOptions t))]"

definition floats_json :: "jsonPDFGenerator \<Rightarrow> string list" where
  "floats_json j =
     floats_groups (j_OutlineOptions j) (j_Cover j) (j_TOC j) @
     concat (map floats_PageOptions (map jp_PageOptions (j_Pages j)))"

definition Marshal :: "jsonPDFGenerator \<Rightarrow> error + jsonText" where
  \<comment> \<open>\<open>json.Marshal(jpdf)\<close>\<close>
  "Marshal j =
     (case filter nonFinite (floats_json j) of
        [] \<Rightarrow> Inr (JSON (coerce_jsonPDFGenerator j))
      | v # vs \<Rightarrow> Inl (UnsupportedValue v))"

definition embedContent ::
  "ioReader option \<Rightarrow> jsonPage \<Rightarrow> heap \<Rightarrow> (error + jsonPage) \<times> heap" where
  \<comment> \<open>the part of the loop of \<open>ToJSON\<close> that reads \<open>pageContentReader\<close>\<close>
  "embedContent pageContentReader jp h =
     (case pageContentReader of
        None \<Rightarrow> (Inr jp, h)
      | Some r \<Rightarrow>
          (case ReadAll r h of
             (Inl err, h') \<Rightarrow> (Inl (ReadContentFailed (jp_Type jp) err), h')
           | (Inr buf, h') \<Rightarrow> (Inr (jp\<lparr>jp_Base64PageData := EncodeToString buf\<rparr>), h')))"

fun pageToJSON ::
  "env \<Rightarrow> PageProvider \<Rightarrow> heap \<Rightarrow> ((error + jsonPage) \<times> PageProvider \<times> heap) go" where
  "pageToJSON e (Page inp po) h =
     (case embedContent None
             \<lparr>jp_Type = ''page'', jp_PageOptions = po, jp_InputFile = InputFile (Page inp po),
               jp_InputPath = [], jp_Base64PageData = Base64 []\<rparr> h of
        (r, h') \<Rightarrow> Returns (r, Page inp po, h'))"
| "pageToJSON e (PageReader inp po) h =
     (case Reader e (PageReader inp po) of
        Panics \<Rightarrow> Panics
      | Returns (pageContentReader, p') \<Rightarrow>
          (case embedContent pageContentReader
                  \<lparr>jp_Type = ''reader'', jp_PageOptions = po,
                    jp_InputFile = InputFile (PageReader inp po),
                    jp_InputPath = [], jp_Base64PageData = Base64 []\<rparr> h of
             (r, h') \<Rightarrow> Returns (r, p', h')))"
| "pageToJSON e (Markdown mp) h =
     (case Reader e (Markdown mp) of
        Panics \<Rightarrow> Panics
      | Returns (pageContentReader, p') \<Rightarrow>
          (case embedContent pageContentReader
                  \<lparr>jp_Type = ''markdown'', jp_PageOptions = MP_PageOptions mp,
                    jp_InputFile = InputFile (Markdown mp),
                    jp_InputPath = InputPath mp, jp_Base64PageData = Base64 []\<rparr> h of
             (r, h') \<Rightarrow> Returns (r, p', h')))"

fun pagesToJSON ::
  "env \<Rightarrow> PageProvider list \<Rightarrow> heap \<Rightarrow>
     ((error + jsonPage list) \<times> PageProvider list \<times> heap) go" where
  \<comment> \<open>the loop of \<open>ToJSON\<close> over the pages; an error ends it\<close>
  "pagesToJSON e [] h = Returns (Inr [], [], h)"
| "pagesToJSON e (p # ps) h =
     (case pageToJSON e p h of
        Panics \<Rightarrow> Panics
      | Returns (Inl err, p', h') \<Rightarrow> Returns (Inl err, p' # ps, h')
      | Returns (Inr jp, p', h') \<Rightarrow>
          (case pagesToJSON e ps h' of
             Panics \<Rightarrow> Panics
           | Returns (Inl err, ps', h'') \<Rightarrow> Returns (Inl err, p' # ps', h'')
           | Returns (Inr jps, ps', h'') \<Rightarrow> Returns (Inr (jp # jps), p' # ps', h'')))"

definition ToJSON ::
  "env \<Rightarrow> PDFGenerator \<Rightarrow> heap \<Rightarrow> ((error + jsonText) \<times> PDFGenerator \<times> heap) go" where
  "ToJSON e pdfg h =
     (case pagesToJSON e (pages pdfg) h of
        Panics \<Rightarrow> Panics
      | Returns (Inl err, ps, h') \<Rightarrow> Returns (Inl err, pdfg\<lparr>pages := ps\<rparr>, h')
      | Returns (Inr jps, ps, h') \<Rightarrow>
          Returns (Marshal \<lparr>j_GlobalOptions = pdfg_globalOptions pdfg,
                             j_OutlineOptions = pdfg_outlineOptions pdfg,
                             j_Cover = Cover pdfg,
                             j_TOC = TOC pdfg,
                             j_Pages = jps\<rparr>,
                   pdfg\<lparr>pages := ps\<rparr>, h'))"

definition pageFromJSON ::
  "mapIter \<Rightarrow> nat \<Rightarrow> jsonPage \<Rightarrow> PDFGenerator \<Rightarrow> heap \<Rightarrow> (error + PDFGenerator) \<times> heap" where
  \<comment> \<open>the body of the loop of \<open>NewPDFGeneratorFromJSON\<close> for page \<open>i\<close>\<close>
  "pageFromJSON ord i p pdfg h =
     (if jp_Type p = ''page''
      then (if jp_InputFile p = [] \<or> jp_InputFile p = ''-'' then (Inl (InvalidInputFile i), h)
            else (Inr (AddPage ord [] [] (Page (jp_InputFile p) (jp_PageOptions p)) pdfg), h))
      else if jp_Type p = ''reader''
      then (if jp_Base64PageData p = Base64 [] then (Inl (MissingBase64PageData i), h)
            else (case DecodeString (jp_Base64PageData p) of
                    Inl err \<Rightarrow> (Inl (Base64DecodeFailed i err), h)
                  | Inr buf \<Rightarrow>
                      (case alloc \<lparr>pending = buf, failure = None\<rparr> h of
                         (a, h') \<Rightarrow>
                           (Inr (AddPage ord [] [] (PageReader (Some a) (jp_PageOptions p)) pdfg), h'))))
      else if jp_Type p = ''markdown''
      then (if jp_InputPath p = [] then (Inl (MissingInputPath i), h)
            else (Inr (AddPage ord [] []
                    (Markdown \<lparr>InputPath = jp_InputPath p, SkipFirstH1H2 = False,
                       MP_PageOptions = jp_PageOptions p, htmlCache = None, readErr = None\<rparr>)
                    pdfg), h))
      else (Inl (UnknownPageType (jp_Type p) i), h))"

fun pagesFromJSON ::
  "mapIter \<Rightarrow> nat \<Rightarrow> jsonPage list \<Rightarrow> PDFGenerator \<Rightarrow> heap \<Rightarrow> (error + PDFGenerator) \<times> heap" where
  "pagesFromJSON ord i [] pdfg h = (Inr pdfg, h)"
| "pagesFromJSON ord i (p # ps) pdfg h =
     (case pageFromJSON ord i p pdfg h of
        (Inl err, h') \<Rightarrow> (Inl err, h')
      | (Inr pdfg', h') \<Rightarrow> pagesFromJSON ord (Suc i) ps pdfg' h')"

definition NewPDFGeneratorFromJSON ::
  "error + string \<Rightarrow> mapIter \<Rightarrow> jsonText \<Rightarrow> heap \<Rightarrow> (error + PDFGenerator) \<times> heap" where
  "NewPDFGeneratorFromJSON found ord text h =
     (case text of
        Malformed msg \<Rightarrow> (Inl (UnmarshalFailed msg), h)
      | JSON jp \<Rightarrow>
          (case NewPDFGenerator found of
             (pdfg, Some err) \<Rightarrow> (Inl (CreateGeneratorFailed err), h)
           | (pdfg, None) \<Rightarrow>
               pagesFromJSON ord 0 (j_Pages jp)
                 (pdfg\<lparr>TOC := j_TOC jp, Cover := j_Cover jp,
                    pdfg_globalOptions := j_GlobalOptions jp,
                    pdfg_outlineOptions := j_OutlineOptions jp\<rparr>) h))"

definition roundTripArgs ::
  "error + string \<Rightarrow> env \<Rightarrow> mapIter \<Rightarrow> PDFGenerator \<Rightarrow> heap \<Rightarrow> (error + string list) go" where
  \<comment> \<open>\<open>Args()\<close> of \<open>NewPDFGeneratorFromJSON(ToJSON(d))\<close>, or the error of either call;
      \<open>ord\<close> is the order of the loops over maps in the rebuilt document\<close>
  "roundTripArgs found e ord pdfg h =
     (case ToJSON e pdfg h of
        Panics \<Rightarrow> Panics
      | Returns (Inl err, pdfg', h') \<Rightarrow> Returns (Inl err)
      | Returns (Inr text, pdfg', h') \<Rightarrow>
          (case NewPDFGeneratorFromJSON found ord text h' of
             (Inl err, h'') \<Rightarrow> Returns (Inl err)
           | (Inr pdfg'', h'') \<Rightarrow> Returns (Inr (PDFGenerator_Args ord pdfg''))))"

section \<open>Notions of the properties and concrete inputs\<close>

text \<open>
  The flags of the global group, as \<open>checkDuplicateFlags\<close> selects them, and the inputs at
  which the properties below are evaluated: an iteration that visits no key (right for
  empty maps), a file system without files, a heap of exhausted readers, a process that
  succeeds, and the documents of TestDuplicateOptions and of a flag repeated in a page
  group.
\<close>

definition globalFlags :: "PDFGenerator \<Rightarrow> string list" where
  "globalFlags pdfg =
     filter (\<lambda>arg. HasPrefix arg ''--'') (globalOptions_Args (pdfg_globalOptions pdfg))"

definition noKeys :: mapIter where
  "noKeys m = []"

definition noFiles :: env where
  "noFiles = \<lparr>readFile = (\<lambda>path. Inl (OsError ''no such file'')), toHTML = (\<lambda>b. b)\<rparr>"

definition emptyHeap :: heap where
  "emptyHeap = \<lparr>cells = (\<lambda>a. \<lparr>pending = [], failure = None\<rparr>), nextAddr = 0\<rparr>"

definition pdfProcess :: process where
  "pdfProcess cmd h =
     (\<lparr>runErr = None, ctxErr = None, stdoutBytes = ''%PDF-'', stderrText = []\<rparr>, h)"

definition duplicateOptionsDoc :: PDFGenerator where
  "duplicateOptionsDoc =
     AddPage noKeys [] [] (NewPage ''https://www.google.com'')
       (NewPDFPreparer\<lparr>pdfg_globalOptions := newGlobalOptions
          \<lparr>MarginRight := uintOption_Set 1 (MarginRight newGlobalOptions),
           MarginRightUnit := stringOption_Set ''1cm'' (MarginRightUnit newGlobalOptions)\<rparr>\<rparr>)"

definition repeatedPageFlagDoc :: PDFGenerator where
  "repeatedPageFlagDoc =
     AddPage noKeys [] []
       (Page ''https://www.google.com''
          (NewPageOptions\<lparr>PO_pageOptions := newPageOptions
             \<lparr>Allow := sliceOption_Set ''/usr/local/images''
                (sliceOption_Set ''/usr/local/html'' (Allow newPageOptions)),
              UserStyleSheet := \<lparr>so_option = ''margin-right'', so_value = ''1cm''\<rparr>\<rparr>\<rparr>))
       (NewPDFPreparer\<lparr>pdfg_globalOptions := newGlobalOptions
          \<lparr>MarginRightUnit := stringOption_Set ''1cm'' (MarginRightUnit newGlobalOptions)\<rparr>\<rparr>)"

text \<open>
  The merge of the global defaults into a page, stated slot by slot, and a document with
  global defaults together with a page that has a footer and placeholders of its own.
\<close>

definition mergedDefault :: "string \<Rightarrow> string \<Rightarrow> string" where
  \<comment> \<open>the value of a slot after the merge: the global default when it is configured and
      the page's own value is unset, the page's own value otherwise\<close>
  "mergedDefault global own = (if global \<noteq> [] \<and> own = [] then global else own)"

definition mergedReplace ::
  "(string \<rightharpoonup> string) option \<Rightarrow> (string \<rightharpoonup> string) option \<Rightarrow> (string \<rightharpoonup> string) option" where
  \<comment> \<open>the placeholder map after the merge: the page's entries, and the global entries
      whose keys the page does not have\<close>
  "mergedReplace global own =
     (case global of
        None \<Rightarrow> own
      | Some gm \<Rightarrow>
          Some (\<lambda>k. case (case own of None \<Rightarrow> None | Some pm \<Rightarrow> pm k) of
                      Some v \<Rightarrow> Some v
                    | None \<Rightarrow> gm k))"

definition mergedOptions :: "PDFGenerator \<Rightarrow> PageOptions \<Rightarrow> PageOptions" where
  "mergedOptions pdfg opts =
     opts\<lparr>PO_pageOptions := (PO_pageOptions opts)
        \<lparr>UserStyleSheet := (UserStyleSheet (PO_pageOptions opts))
           \<lparr>so_value := mergedDefault (userStyleSheetPath pdfg)
              (so_value (UserStyleSheet (PO_pageOptions opts)))\<rparr>\<rparr>,
      PO_headerAndFooterOptions := (PO_headerAndFooterOptions opts)
        \<lparr>HeaderHTML := (HeaderHTML (PO_headerAndFooterOptions opts))
           \<lparr>so_value := mergedDefault (headerHTMLPath pdfg)
              (so_value (HeaderHTML (PO_headerAndFooterOptions opts)))\<rparr>,
         FooterHTML := (FooterHTML (PO_headerAndFooterOptions opts))
           \<lparr>so_value := mergedDefault (footerHTMLPath pdfg)
              (so_value (FooterHTML (PO_headerAndFooterOptions opts)))\<rparr>,
         Replace := (Replace (PO_headerAndFooterOptions opts))
           \<lparr>mo_value := mergedReplace (mo_value (replace pdfg))
              (mo_value (Replace (PO_headerAndFooterOptions opts)))\<rparr>\<rparr>\<rparr>"

definition mergedPage :: "PDFGenerator \<Rightarrow> PageProvider \<Rightarrow> PageProvider" where
  \<comment> \<open>the page object after the merge: kind, locator, reader object, markdown path, flag
      and cache as before, the options merged\<close>
  "mergedPage pdfg p =
     (case p of
        Page inp po \<Rightarrow> Page inp (mergedOptions pdfg po)
      | PageReader inp po \<Rightarrow> PageReader inp (mergedOptions pdfg po)
      | Markdown mp \<Rightarrow>
          Markdown \<lparr>InputPath = InputPath mp, SkipFirstH1H2 = SkipFirstH1H2 mp,
            MP_PageOptions = mergedOptions pdfg (MP_PageOptions mp),
            htmlCache = htmlCache mp, readErr = readErr mp\<rparr>)"

definition authorFirst :: mapIter where
  "authorFirst m = [''author'']"

definition themedDoc :: PDFGenerator where
  "themedDoc =
     SetReplace ''author'' ''Your Name''
       (SetFooterHTML ''footer.html'' (SetUserStyleSheet ''theme.css'' NewPDFPreparer))"

definition ownFooterPage :: PageProvider where
  "ownFooterPage =
     Page ''report.html''
       (NewPageOptions\<lparr>PO_headerAndFooterOptions := newHeaderAndFooterOptions
          \<lparr>FooterHTML := stringOption_Set ''own.html'' (FooterHTML newHeaderAndFooterOptions),
           Replace := mapOption_Set ''author'' ''Me''
             (mapOption_Set ''section'' ''Intro'' (Replace newHeaderAndFooterOptions))\<rparr>\<rparr>)"

text \<open>
  A page object that is added to a document, and added again after a header default has
  been configured: the two entries of the sequence are one object.
\<close>

definition plainPageDoc :: PDFGenerator where
  "plainPageDoc = AddPage noKeys [] [] (NewPage ''a.html'') NewPDFPreparer"

definition sharedPageDoc :: PDFGenerator where
  "sharedPageDoc =
     AddPage noKeys [0] [] (pages plainPageDoc ! 0) (SetHeaderHTML ''header.html'' plainPageDoc)"

text \<open>
  Two page objects whose placeholder cells hold one map object (the options of the one
  were copied to the other), the second added after a global placeholder has been set.
\<close>

definition sectionPage :: "string \<Rightarrow> PageProvider" where
  "sectionPage input =
     Page input
       (NewPageOptions\<lparr>PO_headerAndFooterOptions := newHeaderAndFooterOptions
          \<lparr>Replace := mapOption_Set ''section'' ''Intro'' (Replace newHeaderAndFooterOptions)\<rparr>\<rparr>)"

definition sharedMapDoc :: PDFGenerator where
  "sharedMapDoc =
     AddPage authorFirst [] [PageReplace 0] (sectionPage ''two.html'')
       (SetReplace ''author'' ''Your Name''
          (AddPage noKeys [] [] (sectionPage ''one.html'') NewPDFPreparer))"

text \<open>
  The document of the scenario with the letter page size, and the documents with a map
  option of two entries and of one entry. \<open>docMaps\<close> lists the maps that \<open>Args\<close> ranges
  over.
\<close>

definition letterDoc :: PDFGenerator where
  "letterDoc =
     AddPage noKeys [] [] (NewPage ''https://example.com'')
       (NewPDFPreparer\<lparr>pdfg_globalOptions := newGlobalOptions
          \<lparr>PageSize := stringOption_Set ''Letter'' (PageSize newGlobalOptions),
           MarginTopUnit := stringOption_Set ''25mm'' (MarginTopUnit newGlobalOptions)\<rparr>\<rparr>)"

definition mapOf :: "mapOption \<Rightarrow> (string \<rightharpoonup> string) list" where
  "mapOf mo = (case mo_value mo of None \<Rightarrow> [] | Some m \<Rightarrow> [m])"

fun cellMaps :: "argParser \<Rightarrow> (string \<rightharpoonup> string) list" where
  "cellMaps (MapOpt c) = mapOf c"
| "cellMaps c = []"

definition PageOptionsMaps :: "PageOptions \<Rightarrow> (string \<rightharpoonup> string) list" where
  "PageOptionsMaps po =
     mapOf (CustomHeader (PO_pageOptions po)) @ mapOf (Replace (PO_headerAndFooterOptions po))"

definition docMaps :: "PDFGenerator \<Rightarrow> (string \<rightharpoonup> string) list" where
  "docMaps pdfg =
     concat (map cellMaps (pdfg_outlineOptions pdfg)) @
     (if cover_Input (Cover pdfg) \<noteq> [] then mapOf (CustomHeader (cover_pageOptions (Cover pdfg)))
      else []) @
     (if Include (TOC pdfg)
      then mapOf (CustomHeader (toc_pageOptions (TOC pdfg))) @
           mapOf (Replace (toc_headerAndFooterOptions (TOC pdfg)))
      else []) @
     concat (map (\<lambda>p. PageOptionsMaps (Options p)) (pages pdfg))"

definition headersPage :: "(string \<rightharpoonup> string) \<Rightarrow> PageProvider" where
  "headersPage m =
     Page ''https://www.google.com''
       (NewPageOptions\<lparr>PO_pageOptions := newPageOptions
          \<lparr>CustomHeader := (CustomHeader newPageOptions)\<lparr>mo_value := Some m\<rparr>\<rparr>\<rparr>)"

definition twoHeadersDoc :: PDFGenerator where
  "twoHeadersDoc =
     AddPage noKeys [] [] (headersPage [''X-AppKey'' \<mapsto> ''abcdef'', ''X-Trace'' \<mapsto> ''on''])
       NewPDFPreparer"

definition oneHeaderDoc :: PDFGenerator where
  "oneHeaderDoc = AddPage noKeys [] [] (headersPage [''X-AppKey'' \<mapsto> ''abcdef'']) NewPDFPreparer"

definition appKeyFirst :: mapIter where
  "appKeyFirst m = [''X-AppKey'', ''X-Trace'']"

definition appKeyLast :: mapIter where
  "appKeyLast m = [''X-Trace'', ''X-AppKey'']"

definition appKeyOnly :: mapIter where
  "appKeyOnly m = [''X-AppKey'']"

definition appKeyIfSet :: mapIter where
  "appKeyIfSet m = (if m ''X-AppKey'' = None then [] else [''X-AppKey''])"

text \<open>
  The readers that successive calls of \<open>Reader()\<close> on a derived-markup page return, the
  call \<open>i\<close> made with the file system and the converter \<open>es ! i\<close>; and a file system
  with one markdown file.
\<close>

fun laterReaders :: "env list \<Rightarrow> MarkdownPage \<Rightarrow> ioReader list go" where
  "laterReaders [] mp = Returns []"
| "laterReaders (e # es) mp =
     (case MarkdownPage_Reader e mp of
        Panics \<Rightarrow> Panics
      | Returns (r, mp') \<Rightarrow>
          (case laterReaders es mp' of
             Panics \<Rightarrow> Panics
           | Returns rs \<Rightarrow> Returns (r # rs)))"

definition helloFiles :: env where
  "helloFiles =
     \<lparr>readFile = (\<lambda>path. if path = ''hello.md'' then Inr ''# Hello''
                          else Inl (OsError ''no such file'')),
      toHTML = (\<lambda>b. ''<h1>Hello</h1>'')\<rparr>"

definition helloPage :: MarkdownPage where
  "helloPage =
     \<lparr>InputPath = ''hello.md'', SkipFirstH1H2 = False, MP_PageOptions = NewPageOptions,
      htmlCache = None, readErr = None\<rparr>"

text \<open>
  A document with two stream pages, whose reader objects are at the addresses 0 and 1 of
  the heap.
\<close>

definition twoStreamsDoc :: PDFGenerator where
  "twoStreamsDoc =
     AddPage noKeys [] [] (NewPageReader (Some 1))
       (AddPage noKeys [] [] (NewPageReader (Some 0)) NewPDFPreparer)"

definition twoStreamsHeap :: heap where
  "twoStreamsHeap =
     \<lparr>cells = (\<lambda>a. if a = 0 then \<lparr>pending = ''<h1>first</h1>'', failure = None\<rparr>
                   else if a = 1 then \<lparr>pending = ''<h1>second</h1>'', failure = None\<rparr>
                   else \<lparr>pending = [], failure = None\<rparr>),
      nextAddr = 2\<rparr>"


definition isH2 :: "string \<Rightarrow> bool" where
  "isH2 line = HasPrefix (TrimSpace line) ''## ''"

definition isBlank :: "string \<Rightarrow> bool" where
  "isBlank line = (TrimSpace line = [])"

definition joinLines :: "string list \<Rightarrow> bytes" where
  "joinLines ls = concat (map (\<lambda>l. l @ [newline]) ls)"



text \<open>
  The addresses of the reader objects of the stream pages of a page sequence, and the
  pages whose content a further serialization reads without a change of state: a
  derived-markup page with its converted HTML in the cache, any other page.
\<close>

fun pageAddr :: "PageProvider \<Rightarrow> nat list" where
  "pageAddr (PageReader (Some a) po) = [a]"
| "pageAddr p = []"

definition streamAddrs :: "PageProvider list \<Rightarrow> nat list" where
  "streamAddrs ps = concat (map pageAddr ps)"


text \<open>
  The pages that the codec carries through: a located page whose locator is neither
  empty nor the sentinel \<open>-\<close>, and a stream page whose reader object has content and
  ends without an error. \<open>encodes p jp\<close> says that the page record \<open>jp\<close> is the record
  of such a page \<open>p\<close>, and \<open>sameArgs p q\<close> that two pages have the same locator and the
  same options. Below them, a document with an output file and a document whose page has
  the sentinel as its locator.
\<close>

fun portable :: "heap \<Rightarrow> PageProvider \<Rightarrow> bool" where
  "portable h (Page inp po) = (inp \<noteq> [] \<and> inp \<noteq> ''-'')"
| "portable h (PageReader inp po) =
     (case inp of
        None \<Rightarrow> False
      | Some a \<Rightarrow> pending (cells h a) \<noteq> [] \<and> failure (cells h a) = None)"
| "portable h (Markdown mp) = False"

fun encodes :: "PageProvider \<Rightarrow> jsonPage \<Rightarrow> bool" where
  "encodes (Page inp po) jp =
     (jp_Type jp = ''page'' \<and> jp_InputFile jp = inp \<and> jp_InputPath jp = [] \<and>
      jp_PageOptions jp = po \<and> inp \<noteq> [] \<and> inp \<noteq> ''-'')"
| "encodes (PageReader inp po) jp =
     (jp_Type jp = ''reader'' \<and> jp_InputFile jp = ''-'' \<and> jp_InputPath jp = [] \<and>
      jp_PageOptions jp = po \<and>
      (case jp_Base64PageData jp of Base64 b \<Rightarrow> b \<noteq> [] | NotBase64 s \<Rightarrow> False))"
| "encodes (Markdown mp) jp = False"

definition sameArgs :: "PageProvider \<Rightarrow> PageProvider \<Rightarrow> bool" where
  "sameArgs p q = (InputFile q = InputFile p \<and> Options q = Options p)"

text \<open>
  The documents that the JSON text carries as they are: every string of the interchange
  value (the flags and the values of the cells, the keys and the values of the maps, the
  items of the lists, the locators) is valid UTF-8, and no float is NaN or infinite.
\<close>

definition valid_stringOption :: "stringOption \<Rightarrow> bool" where
  "valid_stringOption c = (validUTF8 (so_option c) \<and> validUTF8 (so_value c))"

definition validMap :: "(string \<rightharpoonup> string) \<Rightarrow> bool" where
  "validMap m = (\<forall>k v. m k = Some v \<longrightarrow> validUTF8 k \<and> validUTF8 v)"

definition valid_mapOption :: "mapOption \<Rightarrow> bool" where
  "valid_mapOption c =
     (validUTF8 (mo_option c) \<and> (case mo_value c of None \<Rightarrow> True | Some m \<Rightarrow> validMap m))"

definition valid_sliceOption :: "sliceOption \<Rightarrow> bool" where
  "valid_sliceOption c = (validUTF8 (sl_option c) \<and> list_all validUTF8 (sl_value c))"

fun valid_cell :: "argParser \<Rightarrow> bool" where
  "valid_cell (StringOpt c) = valid_stringOption c"
| "valid_cell (UintOpt c) = validUTF8 (uo_option c)"
| "valid_cell (FloatOpt c) = validUTF8 (fo_option c)"
| "valid_cell (BoolOpt c) = validUTF8 (bo_option c)"
| "valid_cell (MapOpt c) = valid_mapOption c"
| "valid_cell (SliceOpt c) = valid_sliceOption c"

definition valid_globalOptions :: "globalOptions \<Rightarrow> bool" where
  "valid_globalOptions g =
     (validUTF8 (uo_option (Dpi g)) \<and>
      validUTF8 (uo_option (MarginBottom g)) \<and>
      valid_stringOption (MarginBottomUnit g) \<and>
      validUTF8 (uo_option (MarginLeft g)) \<and>
      valid_stringOption (MarginLeftUnit g) \<and>
      validUTF8 (uo_option (MarginRight g)) \<and>
      valid_stringOption (MarginRightUnit g) \<and>
      valid_stringOption (MarginTopUnit g) \<and>
      valid_stringOption (PageHeightUnit g) \<and>
      valid_stringOption (PageSize g) \<and>
      valid_stringOption (PageWidthUnit g))"

definition valid_pageOptions :: "pageOptions \<Rightarrow> bool" where
  "valid_pageOptions po =
     (valid_sliceOption (Allow po) \<and>
      valid_mapOption (CustomHeader po) \<and>
      validUTF8 (bo_option (DisableSmartShrinking po)) \<and>
      validUTF8 (bo_option (EnableLocalFileAccess po)) \<and>
      valid_stringOption (UserStyleSheet po) \<and>
      valid_stringOption (ViewportSize po) \<and>
      validUTF8 (fo_option (Zoom po)))"

definition valid_headerAndFooterOptions :: "headerAndFooterOptions \<Rightarrow> bool" where
  "valid_headerAndFooterOptions hf =
     (valid_stringOption (FooterHTML hf) \<and>
      valid_stringOption (HeaderHTML hf) \<and>
      validUTF8 (fo_option (HeaderSpacing hf)) \<and>
      valid_mapOption (Replace hf))"

definition valid_PageOptions :: "PageOptions \<Rightarrow> bool" where
  "valid_PageOptions po =
     (valid_pageOptions (PO_pageOptions po) \<and>
      valid_headerAndFooterOptions (PO_headerAndFooterOptions po))"

fun valid_page :: "PageProvider \<Rightarrow> bool" where
  "valid_page (Page inp po) = (validUTF8 inp \<and> valid_PageOptions po)"
| "valid_page (PageReader inp po) = valid_PageOptions po"
| "valid_page (Markdown mp) = (validUTF8 (InputPath mp) \<and> valid_PageOptions (MP_PageOptions mp))"

definition validStrings :: "PDFGenerator \<Rightarrow> bool" where
  "validStrings pdfg =
     (valid_globalOptions (pdfg_globalOptions pdfg) \<and>
      list_all valid_cell (pdfg_outlineOptions pdfg) \<and>
      validUTF8 (cover_Input (Cover pdfg)) \<and>
      valid_pageOptions (cover_pageOptions (Cover pdfg)) \<and>
      valid_pageOptions (toc_pageOptions (TOC pdfg)) \<and>
      validUTF8 (bo_option (DisableDottedLines (toc_tocOptions (TOC pdfg)))) \<and>
      valid_headerAndFooterOptions (toc_headerAndFooterOptions (TOC pdfg)) \<and>
      list_all valid_page (pages pdfg))"

definition finiteFloats :: "PDFGenerator \<Rightarrow> bool" where
  "finiteFloats pdfg =
     list_all (\<lambda>v. \<not> nonFinite v)
       (floats_groups (pdfg_outlineOptions pdfg) (Cover pdfg) (TOC pdfg) @
        concat (map floats_PageOptions (map Options (pages pdfg))))"

definition outputFileDoc :: PDFGenerator where
  "outputFileDoc =
     (AddPage noKeys [] [] (NewPage ''a.html'') NewPDFPreparer)\<lparr>OutputFile := ''out.pdf''\<rparr>"

definition sentinelPageDoc :: PDFGenerator where
  "sentinelPageDoc = AddPage noKeys [] [] (NewPage ''-'') NewPDFPreparer"

definition mixedDoc :: PDFGenerator where
  "mixedDoc = AddPage noKeys [] [] (headersPage [''X-AppKey'' \<mapsto> ''abcdef'']) twoStreamsDoc"

text \<open>
  A document whose page has a locator that is not valid UTF-8 (the byte 0xFF), and its
  locator as the JSON text carries it; a document whose page has the zoom NaN.
\<close>

definition invalidLocatorDoc :: PDFGenerator where
  "invalidLocatorDoc = AddPage noKeys [] [] (NewPage [CHR ''a'', CHR 0xFF]) NewPDFPreparer"

definition nanZoomDoc :: PDFGenerator where
  "nanZoomDoc =
     AddPage noKeys [] []
       (Page ''a.html''
          (NewPageOptions\<lparr>PO_pageOptions := newPageOptions
             \<lparr>Zoom := floatOption_Set ''NaN'' (Zoom newPageOptions)\<rparr>\<rparr>))
       NewPDFPreparer"

section \<open>The order of the argument vector\<close>

lemma appendPages_concat:
  "appendPages ord args ps =
     args @ concat (map (\<lambda>p. ''page'' # InputFile p # PageProvider_Args ord p) ps)"
  by (induction ps arbitrary: args) simp_all

lemma PDFGenerator_Args_flat:
  "PDFGenerator_Args ord pdfg =
     globalOptions_Args (pdfg_globalOptions pdfg) @
     outlineOptions_Args ord (pdfg_outlineOptions pdfg) @
     (if cover_Input (Cover pdfg) \<noteq> []
      then ''cover'' # cover_Input (Cover pdfg) #
           pageOptions_Args ord (cover_pageOptions (Cover pdfg))
      else []) @
     (if Include (TOC pdfg)
      then ''toc'' # pageOptions_Args ord (toc_pageOptions (TOC pdfg)) @
           tocOptions_Args (toc_tocOptions (TOC pdfg)) @
           headerAndFooterOptions_Args ord (toc_headerAndFooterOptions (TOC pdfg))
      else []) @
     concat (map (\<lambda>p. ''page'' # InputFile p # PageProvider_Args ord p) (pages pdfg)) @
     [if OutputFile pdfg \<noteq> [] then OutputFile pdfg else ''-'']"
  by (simp add: PDFGenerator_Args_def Let_def appendPages_concat)

text \<open>
  C1. \<open>Args()\<close> lists, in this order: the arguments of the global group; those of the
  outline group; when the cover locator is non-empty, the token \<open>cover\<close>, the locator and
  the cover's page arguments; when the table of contents is included, the token \<open>toc\<close>,
  its layout arguments, its own arguments and its header and footer arguments; for each
  page in insertion order the token \<open>page\<close>, the page's locator and the page's arguments;
  and last one output token, the output file if it is non-empty and \<open>-\<close> otherwise.
\<close>

theorem Args_component_order:
  "PDFGenerator_Args ord pdfg =
     globalOptions_Args (pdfg_globalOptions pdfg) @
     outlineOptions_Args ord (pdfg_outlineOptions pdfg) @
     (if cover_Input (Cover pdfg) \<noteq> []
      then ''cover'' # cover_Input (Cover pdfg) #
           pageOptions_Args ord (cover_pageOptions (Cover pdfg))
      else []) @
     (if Include (TOC pdfg)
      then ''toc'' # pageOptions_Args ord (toc_pageOptions (TOC pdfg)) @
           tocOptions_Args (toc_tocOptions (TOC pdfg)) @
           headerAndFooterOptions_Args ord (toc_headerAndFooterOptions (TOC pdfg))
      else []) @
     concat (map (\<lambda>p. ''page'' # InputFile p # PageProvider_Args ord p) (pages pdfg)) @
     [if OutputFile pdfg \<noteq> [] then OutputFile pdfg else ''-'']"
  by (rule PDFGenerator_Args_flat)

section \<open>The duplicate-flag check\<close>

lemma checkDuplicates_None:
  "distinct options \<Longrightarrow>
   (checkDuplicates options args = None) =
     distinct (options @ filter (\<lambda>arg. HasPrefix arg ''--'') args)"
  by (induction args arbitrary: options) auto

lemma checkDuplicates_Some:
  "checkDuplicates options args = Some err \<Longrightarrow>
   \<exists>flag. err = DuplicateArgument flag \<and> HasPrefix flag ''--'' \<and>
     2 \<le> count_list (options @ filter (\<lambda>arg. HasPrefix arg ''--'') args) flag"
proof (induction args arbitrary: options)
  case Nil
  then show ?case by simp
next
  case (Cons arg args)
  show ?case
  proof (cases "HasPrefix arg ''--''")
    case False
    with Cons show ?thesis by simp
  next
    case flag: True
    show ?thesis
    proof (cases "arg \<in> set options")
      case True
      then have "count_list options arg \<noteq> 0"
        by (simp add: count_list_0_iff)
      then have one: "1 \<le> count_list options arg"
        by simp
      from True flag Cons.prems have err: "err = DuplicateArgument arg"
        by simp
      have "count_list (options @ filter (\<lambda>arg. HasPrefix arg ''--'') (arg # args)) arg =
          count_list options arg + Suc (count_list (filter (\<lambda>arg. HasPrefix arg ''--'') args) arg)"
        using flag by simp
      with one have "2 \<le> count_list (options @ filter (\<lambda>arg. HasPrefix arg ''--'') (arg # args)) arg"
        by linarith
      with err flag show ?thesis by blast
    next
      case False
      with flag Cons.prems have "checkDuplicates (options @ [arg]) args = Some err" by simp
      from Cons.IH [OF this] obtain f where f: "err = DuplicateArgument f" "HasPrefix f ''--''"
        "2 \<le> count_list ((options @ [arg]) @ filter (\<lambda>arg. HasPrefix arg ''--'') args) f"
        by blast
      have "(options @ [arg]) @ filter (\<lambda>arg. HasPrefix arg ''--'') args =
          options @ filter (\<lambda>arg. HasPrefix arg ''--'') (arg # args)"
        using flag by simp
      with f show ?thesis by metis
    qed
  qed
qed

lemma run_check_fails:
  "checkDuplicateFlags pdfg = Some err \<Longrightarrow> run proc e ord pdfg h = Returns (Some err, pdfg, h, [])"
  by (simp add: run_def)

lemma run_check_passes:
  assumes "checkDuplicateFlags pdfg = None" and "run proc e ord pdfg h = Returns r"
  shows "length (snd (snd (snd r))) = 1"
  using assms
  by (auto simp: run_def Let_def split: go.splits prod.splits option.splits)

text \<open>
  C2. The check passes exactly when the tokens of the global group's arguments that
  begin with \<open>--\<close> are pairwise different. When it fails, the error names a flag that
  occurs at least twice among them, and the build returns this error with the document
  (its output buffer included) and the heap as they were, and without a command
  started. When it passes, a build that returns has started its command. The outline
  group, the cover, the table of contents and the pages have no part in the check.
\<close>

theorem run_checks_global_flags_only:
  "(checkDuplicateFlags pdfg = None) = distinct (globalFlags pdfg) \<and>
   (\<forall>err. checkDuplicateFlags pdfg = Some err \<longrightarrow>
      (\<exists>flag. err = DuplicateArgument flag \<and> HasPrefix flag ''--'' \<and>
         2 \<le> count_list (globalFlags pdfg) flag) \<and>
      run proc e ord pdfg h = Returns (Some err, pdfg, h, [])) \<and>
   (checkDuplicateFlags pdfg = None \<longrightarrow>
      (\<forall>r. run proc e ord pdfg h = Returns r \<longrightarrow> length (snd (snd (snd r))) = 1)) \<and>
   checkDuplicateFlags (pdfg\<lparr>pdfg_outlineOptions := ol, Cover := c, TOC := t, pages := ps\<rparr>) =
     checkDuplicateFlags pdfg"
proof (intro conjI allI impI)
  show "(checkDuplicateFlags pdfg = None) = distinct (globalFlags pdfg)"
    using checkDuplicates_None [of "[]"] by (simp add: checkDuplicateFlags_def globalFlags_def)
next
  fix err assume "checkDuplicateFlags pdfg = Some err"
  then show "\<exists>flag. err = DuplicateArgument flag \<and> HasPrefix flag ''--'' \<and>
         2 \<le> count_list (globalFlags pdfg) flag"
    using checkDuplicates_Some [of "[]"] by (simp add: checkDuplicateFlags_def globalFlags_def)
next
  fix err assume "checkDuplicateFlags pdfg = Some err"
  then show "run proc e ord pdfg h = Returns (Some err, pdfg, h, [])"
    by (rule run_check_fails)
next
  fix r assume "checkDuplicateFlags pdfg = None" "run proc e ord pdfg h = Returns r"
  then show "length (snd (snd (snd r))) = 1" by (rule run_check_passes)
next
  show "checkDuplicateFlags (pdfg\<lparr>pdfg_outlineOptions := ol, Cover := c, TOC := t, pages := ps\<rparr>) =
     checkDuplicateFlags pdfg"
    by (simp add: checkDuplicateFlags_def)
qed

lemma duplicateOptionsDoc_check:
  "checkDuplicateFlags duplicateOptionsDoc = Some (DuplicateArgument ''--margin-right'')"
  by (simp add: checkDuplicateFlags_def duplicateOptionsDoc_def AddPage_def NewPDFPreparer_def
      newGlobalOptions_def globalOptions_Args_def uintOption_Parse_def stringOption_Parse_def
      uintOption_Set_def stringOption_Set_def HasPrefix_def Let_def)

lemma repeatedPageFlagDoc_check: "checkDuplicateFlags repeatedPageFlagDoc = None"
  by (simp add: checkDuplicateFlags_def repeatedPageFlagDoc_def AddPage_def NewPDFPreparer_def
      newGlobalOptions_def globalOptions_Args_def uintOption_Parse_def stringOption_Parse_def
      uintOption_Set_def stringOption_Set_def HasPrefix_def Let_def)

lemma repeatedPageFlagDoc_Args: "PDFGenerator_Args noKeys repeatedPageFlagDoc =
  [''--margin-right'', ''1cm'', ''page'', ''https://www.google.com'',
  ''--allow'', ''/usr/local/html'', ''--allow'', ''/usr/local/images'',
  ''--margin-right'', ''1cm'', ''-'']"
  by (simp add: PDFGenerator_Args_flat repeatedPageFlagDoc_def AddPage_def NewPDFPreparer_def
      newGlobalOptions_def globalOptions_Args_def uintOption_Parse_def stringOption_Parse_def
      uintOption_Set_def stringOption_Set_def Let_def outlineOptions_Args_def
      applyStyleSheet_def applyHeader_def applyFooter_def applyReplace_def
      PageOptions_Args_def pageOptions_Args_def headerAndFooterOptions_Args_def
      NewPageOptions_def newPageOptions_def newHeaderAndFooterOptions_def
      sliceOption_Parse_def sliceOption_Set_def mapOption_Parse_def boolOption_Parse_def
      floatOption_Parse_def)

theorem run_checks_global_flags_only_witness:
  "checkDuplicateFlags duplicateOptionsDoc = Some (DuplicateArgument ''--margin-right'') \<and>
   2 \<le> count_list (globalFlags duplicateOptionsDoc) ''--margin-right'' \<and>
   run pdfProcess noFiles noKeys duplicateOptionsDoc emptyHeap =
     Returns (Some (DuplicateArgument ''--margin-right''), duplicateOptionsDoc, emptyHeap, []) \<and>
   checkDuplicateFlags repeatedPageFlagDoc = None \<and>
   distinct (globalFlags repeatedPageFlagDoc) \<and>
   count_list (PDFGenerator_Args noKeys repeatedPageFlagDoc) ''--margin-right'' = 2 \<and>
   (\<exists>r. run pdfProcess noFiles noKeys repeatedPageFlagDoc emptyHeap = Returns r \<and>
      length (snd (snd (snd r))) = 1)"
proof -
  have d: "checkDuplicateFlags duplicateOptionsDoc = Some (DuplicateArgument ''--margin-right'')"
    by (rule duplicateOptionsDoc_check)
  have r: "checkDuplicateFlags repeatedPageFlagDoc = None"
    by (rule repeatedPageFlagDoc_check)
  have fs: "findStdin noFiles (pages repeatedPageFlagDoc) = Returns (None, pages repeatedPageFlagDoc)"
    by (simp add: repeatedPageFlagDoc_def AddPage_def NewPDFPreparer_def Let_def)
  have ret: "\<exists>r. run pdfProcess noFiles noKeys repeatedPageFlagDoc emptyHeap = Returns r"
    using fs by (simp add: run_def r Let_def pdfProcess_def NewPDFPreparer_def
        repeatedPageFlagDoc_def AddPage_def split: prod.splits option.splits)
  note t1 = run_checks_global_flags_only [of duplicateOptionsDoc pdfProcess noFiles noKeys emptyHeap]
  note t2 = run_checks_global_flags_only [of repeatedPageFlagDoc pdfProcess noFiles noKeys emptyHeap]
  from t1 d have a: "2 \<le> count_list (globalFlags duplicateOptionsDoc) ''--margin-right''"
    by auto
  from t1 d have b: "run pdfProcess noFiles noKeys duplicateOptionsDoc emptyHeap =
     Returns (Some (DuplicateArgument ''--margin-right''), duplicateOptionsDoc, emptyHeap, [])"
    by auto
  from t2 r have c: "distinct (globalFlags repeatedPageFlagDoc)" by auto
  from t2 r ret have e: "\<exists>r. run pdfProcess noFiles noKeys repeatedPageFlagDoc emptyHeap = Returns r \<and>
      length (snd (snd (snd r))) = 1" by auto
  have f: "count_list (PDFGenerator_Args noKeys repeatedPageFlagDoc) ''--margin-right'' = 2"
    by (simp add: repeatedPageFlagDoc_Args)
  from d a b r c e f show ?thesis by blast
qed

section \<open>The merge of the global defaults\<close>

lemma copyMissing_eq:
  "copyMissing gm pm ks =
     (\<lambda>k. case pm k of Some v \<Rightarrow> Some v | None \<Rightarrow> if k \<in> set ks then gm k else None)"
proof (induction ks arbitrary: pm)
  case Nil
  show ?case by (auto split: option.splits)
next
  case (Cons a ks)
  show ?case
  proof (cases "gm a")
    case None
    then show ?thesis by (auto simp: Cons.IH split: option.splits)
  next
    case (Some v)
    then show ?thesis by (cases "pm a") (auto simp: Cons.IH split: option.splits)
  qed
qed

lemma copyMissing_iterates:
  assumes "iterates ord gm"
  shows "copyMissing gm pm (ord gm) = (\<lambda>k. case pm k of Some v \<Rightarrow> Some v | None \<Rightarrow> gm k)"
proof
  fix k
  from assms have "k \<notin> set (ord gm) \<Longrightarrow> gm k = None"
    by (auto simp: iterates_def)
  then show "copyMissing gm pm (ord gm) k = (case pm k of Some v \<Rightarrow> Some v | None \<Rightarrow> gm k)"
    by (auto simp: copyMissing_eq split: option.splits)
qed

lemma applyStyleSheet_eq:
  "applyStyleSheet path opts = opts\<lparr>PO_pageOptions := (PO_pageOptions opts)
     \<lparr>UserStyleSheet := (UserStyleSheet (PO_pageOptions opts))
        \<lparr>so_value := mergedDefault path (so_value (UserStyleSheet (PO_pageOptions opts)))\<rparr>\<rparr>\<rparr>"
  by (simp add: applyStyleSheet_def mergedDefault_def stringOption_Set_def)

lemma applyHeader_eq:
  "applyHeader path opts = opts\<lparr>PO_headerAndFooterOptions := (PO_headerAndFooterOptions opts)
     \<lparr>HeaderHTML := (HeaderHTML (PO_headerAndFooterOptions opts))
        \<lparr>so_value := mergedDefault path (so_value (HeaderHTML (PO_headerAndFooterOptions opts)))\<rparr>\<rparr>\<rparr>"
  by (simp add: applyHeader_def mergedDefault_def stringOption_Set_def)

lemma applyFooter_eq:
  "applyFooter path opts = opts\<lparr>PO_headerAndFooterOptions := (PO_headerAndFooterOptions opts)
     \<lparr>FooterHTML := (FooterHTML (PO_headerAndFooterOptions opts))
        \<lparr>so_value := mergedDefault path (so_value (FooterHTML (PO_headerAndFooterOptions opts)))\<rparr>\<rparr>\<rparr>"
  by (simp add: applyFooter_def mergedDefault_def stringOption_Set_def)

lemma applyReplace_eq:
  assumes "\<forall>gm. mo_value global = Some gm \<longrightarrow> iterates ord gm"
  shows "applyReplace ord global opts = opts\<lparr>PO_headerAndFooterOptions := (PO_headerAndFooterOptions opts)
     \<lparr>Replace := (Replace (PO_headerAndFooterOptions opts))
        \<lparr>mo_value := mergedReplace (mo_value global)
           (mo_value (Replace (PO_headerAndFooterOptions opts)))\<rparr>\<rparr>\<rparr>"
proof (cases "mo_value global")
  case None
  then show ?thesis by (simp add: applyReplace_def mergedReplace_def)
next
  case (Some gm)
  with assms have "iterates ord gm" by simp
  from copyMissing_iterates [OF this] Some show ?thesis
    by (cases "mo_value (Replace (PO_headerAndFooterOptions opts))")
       (simp_all add: applyReplace_def mergedReplace_def Let_def)
qed

lemma writeThrough_length: "length (writeThrough held p ps) = length ps"
  by (induction held arbitrary: ps) simp_all

lemma writeThrough_nth:
  "i < length ps \<Longrightarrow> writeThrough held p ps ! i = (if i \<in> set held then p else ps ! i)"
proof (induction held arbitrary: ps)
  case Nil
  show ?case by simp
next
  case (Cons a held)
  then show ?case by (cases "i = a") simp_all
qed

lemma writeThrough_eq:
  "writeThrough held p ps = map (\<lambda>i. if i \<in> set held then p else ps ! i) [0..<length ps]"
  by (rule nth_equalityI) (simp_all add: writeThrough_length writeThrough_nth)

lemma setOptions_mergedPage:
  "setOptions (mergedOptions pdfg (Options p)) p = mergedPage pdfg p"
  by (cases p) (simp_all add: mergedPage_def)

lemma Options_setOptions: "Options (setOptions po q) = po"
  by (cases q) simp_all

lemma InputFile_setOptions: "InputFile (setOptions po q) = InputFile q"
  by (cases q) simp_all

lemma AddPage_merged:
  assumes "\<forall>gm. mo_value (replace pdfg) = Some gm \<longrightarrow> iterates ord gm"
  shows "AddPage ord held shared p pdfg =
     (case (mo_value (replace pdfg),
            mo_value (Replace (PO_headerAndFooterOptions (Options p))),
            mo_value (Replace (PO_headerAndFooterOptions (Options (mergedPage pdfg p))))) of
        (Some gm, Some pm, Some m) \<Rightarrow>
          fold (writeMap m) shared
            (pdfg\<lparr>pages := writeThrough held (mergedPage pdfg p) (pages pdfg) @ [mergedPage pdfg p]\<rparr>)
      | _ \<Rightarrow> pdfg\<lparr>pages := writeThrough held (mergedPage pdfg p) (pages pdfg) @ [mergedPage pdfg p]\<rparr>)"
proof -
  have q: "setOptions (applyReplace ord (replace pdfg) (applyFooter (footerHTMLPath pdfg)
      (applyHeader (headerHTMLPath pdfg) (applyStyleSheet (userStyleSheetPath pdfg) (Options p))))) p =
      mergedPage pdfg p"
    by (simp add: applyReplace_eq [OF assms] applyFooter_eq applyHeader_eq
        applyStyleSheet_eq mergedOptions_def [symmetric] setOptions_mergedPage)
  have m: "mo_value (Replace (PO_headerAndFooterOptions (Options (mergedPage pdfg p)))) =
      Some (copyMissing gm pm (ord gm))"
    if "mo_value (replace pdfg) = Some gm"
      "mo_value (Replace (PO_headerAndFooterOptions (Options p))) = Some pm" for gm pm
  proof -
    from assms that(1) have "iterates ord gm" by simp
    from copyMissing_iterates [OF this, of pm] that show ?thesis
      by (simp add: setOptions_mergedPage [symmetric] Options_setOptions mergedOptions_def
          mergedReplace_def)
  qed
  show ?thesis
    by (simp add: AddPage_def Let_def q m split: option.splits)
qed

lemma page_write_last:
  assumes "\<And>q. R q \<Longrightarrow> R (f q)" and "ps \<noteq> []" and "R (last ps)"
  shows "R (last (ps[i := f (ps ! i)]))"
proof (cases "i = length ps - 1")
  case True
  with assms(2) have "last (ps[i := f (ps ! i)]) = f (last ps)"
    by (simp add: last_conv_nth)
  with assms(1,3) show ?thesis by simp
next
  case False
  with assms(2) have "last (ps[i := f (ps ! i)]) = last ps"
    by (simp add: last_conv_nth)
  with assms(3) show ?thesis by simp
qed

lemma writeMap_last:
  assumes "\<And>q. R q \<Longrightarrow> R (pageCustomHeader m q)" and "\<And>q. R q \<Longrightarrow> R (pageReplace m q)"
    and "pages d \<noteq> []" and "R (last (pages d))"
  shows "length (pages (writeMap m c d)) = length (pages d) \<and> R (last (pages (writeMap m c d)))"
proof (cases c)
  case (PageCustomHeader i)
  with page_write_last [where R = R and f = "pageCustomHeader m", OF assms(1,3,4), of i] assms(4)
  show ?thesis by simp
next
  case (PageReplace i)
  with page_write_last [where R = R and f = "pageReplace m", OF assms(2,3,4), of i] assms(4)
  show ?thesis by simp
qed (use assms(4) in simp_all)

lemma fold_writeMap_last:
  assumes "\<And>q. R q \<Longrightarrow> R (pageCustomHeader m q)" and "\<And>q. R q \<Longrightarrow> R (pageReplace m q)"
  shows "pages d \<noteq> [] \<Longrightarrow> R (last (pages d)) \<Longrightarrow>
    length (pages (fold (writeMap m) cs d)) = length (pages d) \<and>
    R (last (pages (fold (writeMap m) cs d)))"
proof (induction cs arbitrary: d)
  case Nil
  then show ?case by simp
next
  case (Cons c cs)
  from writeMap_last [where R = R, OF assms Cons.prems, of c]
  have a: "length (pages (writeMap m c d)) = length (pages d)"
    and b: "R (last (pages (writeMap m c d)))" by simp_all
  from a Cons.prems(1) have "pages (writeMap m c d) \<noteq> []" by auto
  from Cons.IH [OF this b] a show ?case by simp
qed

text \<open>
  C3. \<open>AddPage(p)\<close> makes the page sequence longer by one entry, the page object \<open>p\<close>
  at its end. This entry has the locator of \<open>p\<close>, and in its options the value of each
  of the slots user style sheet, header HTML file and footer HTML file is the document's
  global default exactly when that default is non-empty and the page's own value is
  unset, and the page's own value otherwise; the placeholder map holds the page's own
  entries and, of the global entries, those whose keys the page does not have. When no
  other cell holds the map object of the placeholder cell of \<open>p\<close>, nothing of the
  document changes but the page sequence: the new sequence is the old one with the page
  object \<open>p\<close> in its state after the merge at the end, the entries of the old sequence
  as they were, except those that are the page object \<open>p\<close> itself (the positions
  \<open>held\<close>), which show its state after the merge; this state differs from the one
  before in the four slots only. (The loop over the global map visits its keys in the
  order \<open>ord\<close> gives.)
\<close>

theorem AddPage_merges_defaults:
  assumes "\<forall>gm. mo_value (replace pdfg) = Some gm \<longrightarrow> iterates ord gm"
  shows "length (pages (AddPage ord held shared p pdfg)) = Suc (length (pages pdfg)) \<and>
         InputFile (last (pages (AddPage ord held shared p pdfg))) = InputFile p \<and>
         so_value (UserStyleSheet (PO_pageOptions
             (Options (last (pages (AddPage ord held shared p pdfg)))))) =
           (if userStyleSheetPath pdfg \<noteq> [] \<and>
               so_value (UserStyleSheet (PO_pageOptions (Options p))) = []
            then userStyleSheetPath pdfg
            else so_value (UserStyleSheet (PO_pageOptions (Options p)))) \<and>
         so_value (HeaderHTML (PO_headerAndFooterOptions
             (Options (last (pages (AddPage ord held shared p pdfg)))))) =
           (if headerHTMLPath pdfg \<noteq> [] \<and>
               so_value (HeaderHTML (PO_headerAndFooterOptions (Options p))) = []
            then headerHTMLPath pdfg
            else so_value (HeaderHTML (PO_headerAndFooterOptions (Options p)))) \<and>
         so_value (FooterHTML (PO_headerAndFooterOptions
             (Options (last (pages (AddPage ord held shared p pdfg)))))) =
           (if footerHTMLPath pdfg \<noteq> [] \<and>
               so_value (FooterHTML (PO_headerAndFooterOptions (Options p))) = []
            then footerHTMLPath pdfg
            else so_value (FooterHTML (PO_headerAndFooterOptions (Options p)))) \<and>
         mo_value (Replace (PO_headerAndFooterOptions
             (Options (last (pages (AddPage ord held shared p pdfg)))))) =
           (case mo_value (replace pdfg) of
              None \<Rightarrow> mo_value (Replace (PO_headerAndFooterOptions (Options p)))
            | Some gm \<Rightarrow>
                Some (\<lambda>k. case (case mo_value (Replace (PO_headerAndFooterOptions (Options p))) of
                                  None \<Rightarrow> None
                                | Some pm \<Rightarrow> pm k) of
                            Some v \<Rightarrow> Some v
                          | None \<Rightarrow> gm k)) \<and>
         AddPage ord held [] p pdfg =
           pdfg\<lparr>pages :=
             map (\<lambda>i. if i \<in> set held then mergedPage pdfg p else pages pdfg ! i)
               [0..<length (pages pdfg)] @ [mergedPage pdfg p]\<rparr> \<and>
         InputFile (mergedPage pdfg p) = InputFile p \<and>
         Options (mergedPage pdfg p) = mergedOptions pdfg (Options p)"
proof -
  let ?q = "mergedPage pdfg p"
  let ?d = "pdfg\<lparr>pages := writeThrough held ?q (pages pdfg) @ [?q]\<rparr>"
  define R where "R q \<longleftrightarrow>
      InputFile q = InputFile p \<and>
      UserStyleSheet (PO_pageOptions (Options q)) =
        UserStyleSheet (PO_pageOptions (mergedOptions pdfg (Options p))) \<and>
      HeaderHTML (PO_headerAndFooterOptions (Options q)) =
        HeaderHTML (PO_headerAndFooterOptions (mergedOptions pdfg (Options p))) \<and>
      FooterHTML (PO_headerAndFooterOptions (Options q)) =
        FooterHTML (PO_headerAndFooterOptions (mergedOptions pdfg (Options p))) \<and>
      mo_value (Replace (PO_headerAndFooterOptions (Options q))) =
        mo_value (Replace (PO_headerAndFooterOptions (mergedOptions pdfg (Options p))))" for q
  have loc: "InputFile ?q = InputFile p"
    by (cases p) (simp_all add: mergedPage_def)
  have opts: "Options ?q = mergedOptions pdfg (Options p)"
    by (cases p) (simp_all add: mergedPage_def)
  from loc opts have Rq: "R ?q" by (simp add: R_def)
  have base: "pages ?d \<noteq> []" "R (last (pages ?d))" "length (pages ?d) = Suc (length (pages pdfg))"
    using Rq by (simp_all add: writeThrough_length)
  have fin: "length (pages (AddPage ord held shared p pdfg)) = Suc (length (pages pdfg)) \<and>
      R (last (pages (AddPage ord held shared p pdfg)))"
  proof (cases "\<exists>gm pm m. mo_value (replace pdfg) = Some gm \<and>
      mo_value (Replace (PO_headerAndFooterOptions (Options p))) = Some pm \<and>
      mo_value (Replace (PO_headerAndFooterOptions (Options ?q))) = Some m")
    case True
    then obtain gm pm m where w: "mo_value (replace pdfg) = Some gm"
      "mo_value (Replace (PO_headerAndFooterOptions (Options p))) = Some pm"
      "mo_value (Replace (PO_headerAndFooterOptions (Options ?q))) = Some m" by blast
    then have a: "AddPage ord held shared p pdfg = fold (writeMap m) shared ?d"
      by (simp add: AddPage_merged [OF assms])
    have c1: "R (pageCustomHeader m q)" if "R q" for q
      using that
      by (simp add: R_def pageCustomHeader_def putCustomHeader_def Options_setOptions
          InputFile_setOptions)
    have c2: "R (pageReplace m q)" if "R q" for q
      using that w(3)
      by (simp add: R_def pageReplace_def putReplace_def Options_setOptions
          InputFile_setOptions opts)
    from fold_writeMap_last [where R = R, OF c1 c2 base(1,2), of shared] base(3) a
    show ?thesis by simp
  next
    case False
    then have "AddPage ord held shared p pdfg = ?d"
      by (auto simp: AddPage_merged [OF assms] split: option.splits)
    with base show ?thesis by simp
  qed
  then have len: "length (pages (AddPage ord held shared p pdfg)) = Suc (length (pages pdfg))"
    and R: "R (last (pages (AddPage ord held shared p pdfg)))" by simp_all
  from R have l: "InputFile (last (pages (AddPage ord held shared p pdfg))) = InputFile p"
    by (simp add: R_def)
  from R have css: "so_value (UserStyleSheet (PO_pageOptions
        (Options (last (pages (AddPage ord held shared p pdfg)))))) =
      (if userStyleSheetPath pdfg \<noteq> [] \<and>
          so_value (UserStyleSheet (PO_pageOptions (Options p))) = []
       then userStyleSheetPath pdfg
       else so_value (UserStyleSheet (PO_pageOptions (Options p))))"
    by (simp add: R_def mergedOptions_def mergedDefault_def)
  from R have header: "so_value (HeaderHTML (PO_headerAndFooterOptions
        (Options (last (pages (AddPage ord held shared p pdfg)))))) =
      (if headerHTMLPath pdfg \<noteq> [] \<and>
          so_value (HeaderHTML (PO_headerAndFooterOptions (Options p))) = []
       then headerHTMLPath pdfg
       else so_value (HeaderHTML (PO_headerAndFooterOptions (Options p))))"
    by (simp add: R_def mergedOptions_def mergedDefault_def)
  from R have footer: "so_value (FooterHTML (PO_headerAndFooterOptions
        (Options (last (pages (AddPage ord held shared p pdfg)))))) =
      (if footerHTMLPath pdfg \<noteq> [] \<and>
          so_value (FooterHTML (PO_headerAndFooterOptions (Options p))) = []
       then footerHTMLPath pdfg
       else so_value (FooterHTML (PO_headerAndFooterOptions (Options p))))"
    by (simp add: R_def mergedOptions_def mergedDefault_def)
  from R have repl: "mo_value (Replace (PO_headerAndFooterOptions
        (Options (last (pages (AddPage ord held shared p pdfg)))))) =
      (case mo_value (replace pdfg) of
         None \<Rightarrow> mo_value (Replace (PO_headerAndFooterOptions (Options p)))
       | Some gm \<Rightarrow>
           Some (\<lambda>k. case (case mo_value (Replace (PO_headerAndFooterOptions (Options p))) of
                             None \<Rightarrow> None
                           | Some pm \<Rightarrow> pm k) of
                       Some v \<Rightarrow> Some v
                     | None \<Rightarrow> gm k))"
    by (simp add: R_def mergedOptions_def mergedReplace_def)
  have frame: "AddPage ord held [] p pdfg =
      pdfg\<lparr>pages :=
        map (\<lambda>i. if i \<in> set held then mergedPage pdfg p else pages pdfg ! i)
          [0..<length (pages pdfg)] @ [mergedPage pdfg p]\<rparr>"
    by (simp add: AddPage_merged [OF assms] writeThrough_eq split: option.splits)
  from len l css header footer repl frame loc opts show ?thesis by blast
qed

lemma themedDoc_fields:
  "mo_value (replace themedDoc) = Some [''author'' \<mapsto> ''Your Name'']"
  "pages themedDoc = []" "userStyleSheetPath themedDoc = ''theme.css''"
  "headerHTMLPath themedDoc = []" "footerHTMLPath themedDoc = ''footer.html''"
  by (simp_all add: themedDoc_def SetReplace_def SetFooterHTML_def SetUserStyleSheet_def
      NewPDFPreparer_def mapOption_Set_def)

lemma plainPageDoc_pages: "pages plainPageDoc = [NewPage ''a.html'']"
  by (simp add: plainPageDoc_def AddPage_def NewPage_def NewPDFPreparer_def Let_def
      applyStyleSheet_def applyHeader_def applyFooter_def applyReplace_def)

lemma single_last: "length xs = Suc 0 \<Longrightarrow> map f xs = [f (last xs)]"
  by (cases xs) simp_all

lemma sharedMapDoc_pages:
  "map InputFile (pages sharedMapDoc) = [''one.html'', ''two.html'']"
  "map (\<lambda>q. map_option (\<lambda>m. (m ''author'', m ''section''))
          (mo_value (Replace (PO_headerAndFooterOptions (Options q)))))
     (pages sharedMapDoc) =
     [Some (Some ''Your Name'', Some ''Intro''), Some (Some ''Your Name'', Some ''Intro'')]"
  by (simp_all add: sharedMapDoc_def sectionPage_def AddPage_def Let_def SetReplace_def
      NewPDFPreparer_def applyStyleSheet_def applyHeader_def applyFooter_def applyReplace_def
      mapOption_Set_def authorFirst_def noKeys_def NewPageOptions_def
      newHeaderAndFooterOptions_def pageReplace_def putReplace_def)

theorem AddPage_merges_defaults_witness:
  "iterates authorFirst [''author'' \<mapsto> ''Your Name''] \<and>
   length (pages (AddPage authorFirst [] [] ownFooterPage themedDoc)) = 1 \<and>
   map InputFile (pages (AddPage authorFirst [] [] ownFooterPage themedDoc)) = [''report.html''] \<and>
   map (\<lambda>q. so_value (UserStyleSheet (PO_pageOptions (Options q))))
     (pages (AddPage authorFirst [] [] ownFooterPage themedDoc)) = [''theme.css''] \<and>
   map (\<lambda>q. so_value (FooterHTML (PO_headerAndFooterOptions (Options q))))
     (pages (AddPage authorFirst [] [] ownFooterPage themedDoc)) = [''own.html''] \<and>
   map (\<lambda>q. so_value (HeaderHTML (PO_headerAndFooterOptions (Options q))))
     (pages (AddPage authorFirst [] [] ownFooterPage themedDoc)) = [[]] \<and>
   map (\<lambda>q. map_option (\<lambda>m. (m ''author'', m ''section'', m ''date''))
          (mo_value (Replace (PO_headerAndFooterOptions (Options q)))))
     (pages (AddPage authorFirst [] [] ownFooterPage themedDoc)) =
     [Some (Some ''Me'', Some ''Intro'', None)] \<and>
   map (\<lambda>q. so_value (HeaderHTML (PO_headerAndFooterOptions (Options q))))
     (pages (SetHeaderHTML ''header.html'' plainPageDoc)) = [[]] \<and>
   map (\<lambda>q. so_value (HeaderHTML (PO_headerAndFooterOptions (Options q))))
     (pages sharedPageDoc) = [''header.html'', ''header.html''] \<and>
   map (\<lambda>q. map_option (\<lambda>m. (m ''author'', m ''section''))
          (mo_value (Replace (PO_headerAndFooterOptions (Options q)))))
     (pages sharedMapDoc) =
     [Some (Some ''Your Name'', Some ''Intro''), Some (Some ''Your Name'', Some ''Intro'')]"
proof -
  have it: "iterates authorFirst [''author'' \<mapsto> ''Your Name'']"
    by (simp add: iterates_def authorFirst_def)
  have hyp: "\<forall>gm. mo_value (replace themedDoc) = Some gm \<longrightarrow> iterates authorFirst gm"
    using it by (simp add: themedDoc_fields)
  let ?d = "AddPage authorFirst [] [] ownFooterPage themedDoc"
  note t = AddPage_merges_defaults [OF hyp, of "[]" "[]" ownFooterPage]
  note c1 = conjunct1 and c2 = conjunct2
  have own: "so_value (UserStyleSheet (PO_pageOptions (Options ownFooterPage))) = []"
    "so_value (HeaderHTML (PO_headerAndFooterOptions (Options ownFooterPage))) = []"
    "so_value (FooterHTML (PO_headerAndFooterOptions (Options ownFooterPage))) = ''own.html''"
    "mo_value (Replace (PO_headerAndFooterOptions (Options ownFooterPage))) =
       Some [''section'' \<mapsto> ''Intro'', ''author'' \<mapsto> ''Me'']"
    "InputFile ownFooterPage = ''report.html''"
    by (simp_all add: ownFooterPage_def NewPageOptions_def newPageOptions_def
        newHeaderAndFooterOptions_def stringOption_Set_def mapOption_Set_def)
  have len: "length (pages ?d) = Suc 0"
    using t [THEN c1] by (simp only: themedDoc_fields list.size)
  have loc: "InputFile (last (pages ?d)) = ''report.html''"
    using t [THEN c2, THEN c1] by (simp only: own)
  have css: "so_value (UserStyleSheet (PO_pageOptions (Options (last (pages ?d))))) =
      ''theme.css''"
    using t [THEN c2, THEN c2, THEN c1] by (simp add: own themedDoc_fields)
  have header: "so_value (HeaderHTML (PO_headerAndFooterOptions
      (Options (last (pages ?d))))) = []"
    using t [THEN c2, THEN c2, THEN c2, THEN c1] by (simp add: own themedDoc_fields)
  have footer: "so_value (FooterHTML (PO_headerAndFooterOptions
      (Options (last (pages ?d))))) = ''own.html''"
    using t [THEN c2, THEN c2, THEN c2, THEN c2, THEN c1] by (simp add: own themedDoc_fields)
  have "mo_value (Replace (PO_headerAndFooterOptions (Options (last (pages ?d))))) =
      Some (\<lambda>k. case [''section'' \<mapsto> ''Intro'', ''author'' \<mapsto> ''Me''] k of
                  Some v \<Rightarrow> Some v
                | None \<Rightarrow> [''author'' \<mapsto> ''Your Name''] k)"
    using t [THEN c2, THEN c2, THEN c2, THEN c2, THEN c2, THEN c1]
    by (simp add: own themedDoc_fields)
  then have repl: "map_option (\<lambda>m. (m ''author'', m ''section'', m ''date''))
      (mo_value (Replace (PO_headerAndFooterOptions (Options (last (pages ?d)))))) =
      Some (Some ''Me'', Some ''Intro'', None)"
    by simp
  have before: "map (\<lambda>q. so_value (HeaderHTML (PO_headerAndFooterOptions (Options q))))
      (pages (SetHeaderHTML ''header.html'' plainPageDoc)) = [[]]"
    by (simp add: SetHeaderHTML_def plainPageDoc_pages NewPage_def NewPageOptions_def
        newHeaderAndFooterOptions_def)
  let ?g = "SetHeaderHTML ''header.html'' plainPageDoc"
  have none: "\<forall>gm. mo_value (replace ?g) = Some gm \<longrightarrow> iterates noKeys gm"
    by (simp add: SetHeaderHTML_def plainPageDoc_def AddPage_def NewPDFPreparer_def Let_def)
  have hd: "headerHTMLPath ?g = ''header.html''" "pages ?g = [NewPage ''a.html'']"
    by (simp_all add: SetHeaderHTML_def plainPageDoc_pages)
  note u = AddPage_merges_defaults [OF none, of "[0]" "[]" "NewPage ''a.html''"]
  have two: "pages (AddPage noKeys [0] [] (NewPage ''a.html'') ?g) =
      [mergedPage ?g (NewPage ''a.html''), mergedPage ?g (NewPage ''a.html'')]"
    using u [THEN c2, THEN c2, THEN c2, THEN c2, THEN c2, THEN c2, THEN c1]
    by (simp add: hd)
  have plain: "so_value (HeaderHTML (PO_headerAndFooterOptions (Options (NewPage ''a.html'')))) = []"
    by (simp add: NewPage_def NewPageOptions_def newHeaderAndFooterOptions_def)
  have "so_value (HeaderHTML (PO_headerAndFooterOptions
      (Options (last (pages (AddPage noKeys [0] [] (NewPage ''a.html'') ?g)))))) = ''header.html''"
    using u [THEN c2, THEN c2, THEN c2, THEN c1] by (simp add: hd(1) plain)
  with two have shared: "map (\<lambda>q. so_value (HeaderHTML (PO_headerAndFooterOptions (Options q))))
      (pages sharedPageDoc) = [''header.html'', ''header.html'']"
    by (simp add: sharedPageDoc_def plainPageDoc_pages)
  note one = single_last [OF len]
  from it len loc css footer header repl before shared sharedMapDoc_pages(2)
  show ?thesis by (simp add: one)
qed

section \<open>The letter-size scenario\<close>

lemma letterDoc_Args:
  "PDFGenerator_Args ord letterDoc =
     [''--margin-top'', ''25mm'', ''--page-size'', ''Letter'', ''page'', ''https://example.com'',
      ''-'']"
  by (simp add: PDFGenerator_Args_flat letterDoc_def AddPage_def NewPDFPreparer_def NewPage_def
      newGlobalOptions_def globalOptions_Args_def uintOption_Parse_def stringOption_Parse_def
      stringOption_Set_def Let_def outlineOptions_Args_def
      applyStyleSheet_def applyHeader_def applyFooter_def applyReplace_def
      PageOptions_Args_def pageOptions_Args_def headerAndFooterOptions_Args_def
      NewPageOptions_def newPageOptions_def newHeaderAndFooterOptions_def
      sliceOption_Parse_def mapOption_Parse_def boolOption_Parse_def floatOption_Parse_def)

text \<open>
  C8, as stated, fails: the argument vector of the scenario does not begin with the page
  size. The margin comes first.
\<close>

theorem letter_scenario_counterexample:
  "take 6 (PDFGenerator_Args noKeys letterDoc) \<noteq>
     [''--page-size'', ''Letter'', ''--margin-top'', ''25mm'', ''page'', ''https://example.com'']"
  by (simp add: letterDoc_Args)

text \<open>
  C8, amended. For the document whose only configuration is the page size \<open>Letter\<close>, the
  top margin \<open>25mm\<close> and one located page at \<open>https://example.com\<close>, \<open>Args()\<close> is
  \<open>--margin-top 25mm --page-size Letter page https://example.com -\<close>: the global options
  come in the declaration order of their fields, the margin before the page size, and
  the last element is \<open>-\<close>.
\<close>

theorem letter_scenario_Args:
  "PDFGenerator_Args ord letterDoc =
     [''--margin-top'', ''25mm'', ''--page-size'', ''Letter'', ''page'', ''https://example.com'',
      ''-''] \<and>
   last (PDFGenerator_Args ord letterDoc) = ''-''"
  by (simp add: letterDoc_Args)

section \<open>Determinism of the argument vector\<close>

lemma mapOption_Parse_cong:
  "(\<forall>m \<in> set (mapOf mo). ord1 m = ord2 m) \<Longrightarrow> mapOption_Parse ord1 mo = mapOption_Parse ord2 mo"
  by (cases "mo_value mo") (simp_all add: mapOption_Parse_def mapOf_def)

lemma optsToArgs_cong:
  "(\<forall>m \<in> set (concat (map cellMaps cs)). ord1 m = ord2 m) \<Longrightarrow>
   optsToArgs ord1 cs = optsToArgs ord2 cs"
proof (induction cs)
  case Nil
  show ?case by simp
next
  case (Cons c cs)
  then have "Parse ord1 c = Parse ord2 c"
    by (cases c) (simp_all add: mapOption_Parse_cong)
  with Cons show ?case by simp
qed

lemma pageOptions_Args_cong:
  "(\<forall>m \<in> set (mapOf (CustomHeader po)). ord1 m = ord2 m) \<Longrightarrow>
   pageOptions_Args ord1 po = pageOptions_Args ord2 po"
  by (simp add: pageOptions_Args_def mapOption_Parse_cong)

lemma headerAndFooterOptions_Args_cong:
  "(\<forall>m \<in> set (mapOf (Replace hf)). ord1 m = ord2 m) \<Longrightarrow>
   headerAndFooterOptions_Args ord1 hf = headerAndFooterOptions_Args ord2 hf"
  by (simp add: headerAndFooterOptions_Args_def mapOption_Parse_cong)

lemma PageProvider_Args_cong:
  assumes "\<forall>m \<in> set (PageOptionsMaps (Options p)). ord1 m = ord2 m"
  shows "PageProvider_Args ord1 p = PageProvider_Args ord2 p"
proof -
  have a: "pageOptions_Args ord1 (PO_pageOptions (Options p)) =
      pageOptions_Args ord2 (PO_pageOptions (Options p))"
    using assms by (intro pageOptions_Args_cong) (simp add: PageOptionsMaps_def)
  have b: "headerAndFooterOptions_Args ord1 (PO_headerAndFooterOptions (Options p)) =
      headerAndFooterOptions_Args ord2 (PO_headerAndFooterOptions (Options p))"
    using assms by (intro headerAndFooterOptions_Args_cong) (simp add: PageOptionsMaps_def)
  have "PageOptions_Args ord1 (Options p) = PageOptions_Args ord2 (Options p)"
    by (simp add: PageOptions_Args_def a b)
  then show ?thesis by (cases p) simp_all
qed

lemma pages_Args_cong:
  "(\<forall>m \<in> set (concat (map (\<lambda>p. PageOptionsMaps (Options p)) ps)). ord1 m = ord2 m) \<Longrightarrow>
   concat (map (\<lambda>p. ''page'' # InputFile p # PageProvider_Args ord1 p) ps) =
   concat (map (\<lambda>p. ''page'' # InputFile p # PageProvider_Args ord2 p) ps)"
proof (induction ps)
  case Nil
  show ?case by simp
next
  case (Cons p ps)
  then have "PageProvider_Args ord1 p = PageProvider_Args ord2 p"
    by (intro PageProvider_Args_cong) simp
  with Cons show ?case by simp
qed

lemma PDFGenerator_Args_cong:
  assumes "\<forall>m \<in> set (docMaps pdfg). ord1 m = ord2 m"
  shows "PDFGenerator_Args ord1 pdfg = PDFGenerator_Args ord2 pdfg"
proof -
  have ol: "outlineOptions_Args ord1 (pdfg_outlineOptions pdfg) =
      outlineOptions_Args ord2 (pdfg_outlineOptions pdfg)"
    using assms by (simp add: outlineOptions_Args_def docMaps_def optsToArgs_cong)
  have cv: "cover_Input (Cover pdfg) \<noteq> [] \<Longrightarrow>
      pageOptions_Args ord1 (cover_pageOptions (Cover pdfg)) =
      pageOptions_Args ord2 (cover_pageOptions (Cover pdfg))"
    using assms by (intro pageOptions_Args_cong) (simp add: docMaps_def)
  have t1: "Include (TOC pdfg) \<Longrightarrow>
      pageOptions_Args ord1 (toc_pageOptions (TOC pdfg)) =
      pageOptions_Args ord2 (toc_pageOptions (TOC pdfg))"
    using assms by (intro pageOptions_Args_cong) (simp add: docMaps_def)
  have t2: "Include (TOC pdfg) \<Longrightarrow>
      headerAndFooterOptions_Args ord1 (toc_headerAndFooterOptions (TOC pdfg)) =
      headerAndFooterOptions_Args ord2 (toc_headerAndFooterOptions (TOC pdfg))"
    using assms by (intro headerAndFooterOptions_Args_cong) (simp add: docMaps_def)
  have ps: "concat (map (\<lambda>p. ''page'' # InputFile p # PageProvider_Args ord1 p) (pages pdfg)) =
      concat (map (\<lambda>p. ''page'' # InputFile p # PageProvider_Args ord2 p) (pages pdfg))"
    using assms by (intro pages_Args_cong) (simp add: docMaps_def)
  show ?thesis
    by (simp add: PDFGenerator_Args_flat ol cv t1 t2 ps)
qed

lemma iterates_single:
  assumes "iterates ord1 m" and "iterates ord2 m" and "dom m \<subseteq> {k}"
  shows "ord1 m = ord2 m"
proof -
  have one: "xs = (if k \<in> set xs then [k] else [])" if "distinct xs" "set xs \<subseteq> {k}"
    for xs :: "string list"
  proof (cases xs)
    case Nil
    then show ?thesis by simp
  next
    case (Cons x ys)
    with that have x: "x = k" by simp
    from that Cons x have "set ys \<subseteq> {k}" "k \<notin> set ys" by auto
    then have "ys = []" by (cases ys) auto
    with Cons x show ?thesis by simp
  qed
  from assms have "ord1 m = (if k \<in> dom m then [k] else [])"
    using one [of "ord1 m"] by (simp add: iterates_def)
  moreover from assms have "ord2 m = (if k \<in> dom m then [k] else [])"
    using one [of "ord2 m"] by (simp add: iterates_def)
  ultimately show ?thesis by simp
qed

lemma twoHeadersDoc_Args_first:
  "PDFGenerator_Args appKeyFirst twoHeadersDoc =
     [''page'', ''https://www.google.com'', ''--custom-header'', ''X-AppKey'', ''abcdef'',
      ''--custom-header'', ''X-Trace'', ''on'', ''-'']"
  by (simp add: PDFGenerator_Args_flat twoHeadersDoc_def headersPage_def appKeyFirst_def
      AddPage_def NewPDFPreparer_def
      newGlobalOptions_def globalOptions_Args_def uintOption_Parse_def stringOption_Parse_def
      Let_def outlineOptions_Args_def
      applyStyleSheet_def applyHeader_def applyFooter_def applyReplace_def
      PageOptions_Args_def pageOptions_Args_def headerAndFooterOptions_Args_def
      NewPageOptions_def newPageOptions_def newHeaderAndFooterOptions_def
      sliceOption_Parse_def mapOption_Parse_def boolOption_Parse_def floatOption_Parse_def)

lemma twoHeadersDoc_Args_last:
  "PDFGenerator_Args appKeyLast twoHeadersDoc =
     [''page'', ''https://www.google.com'', ''--custom-header'', ''X-Trace'', ''on'',
      ''--custom-header'', ''X-AppKey'', ''abcdef'', ''-'']"
  by (simp add: PDFGenerator_Args_flat twoHeadersDoc_def headersPage_def appKeyLast_def
      AddPage_def NewPDFPreparer_def
      newGlobalOptions_def globalOptions_Args_def uintOption_Parse_def stringOption_Parse_def
      Let_def outlineOptions_Args_def
      applyStyleSheet_def applyHeader_def applyFooter_def applyReplace_def
      PageOptions_Args_def pageOptions_Args_def headerAndFooterOptions_Args_def
      NewPageOptions_def newPageOptions_def newHeaderAndFooterOptions_def
      sliceOption_Parse_def mapOption_Parse_def boolOption_Parse_def floatOption_Parse_def)

lemma docMaps_twoHeadersDoc:
  "docMaps twoHeadersDoc = [[''X-AppKey'' \<mapsto> ''abcdef'', ''X-Trace'' \<mapsto> ''on'']]"
  by (simp add: docMaps_def twoHeadersDoc_def headersPage_def AddPage_def NewPDFPreparer_def
      Let_def applyStyleSheet_def applyHeader_def applyFooter_def applyReplace_def
      PageOptionsMaps_def mapOf_def NewPageOptions_def newPageOptions_def
      newHeaderAndFooterOptions_def)

lemma docMaps_oneHeaderDoc:
  "docMaps oneHeaderDoc = [[''X-AppKey'' \<mapsto> ''abcdef'']]"
  by (simp add: docMaps_def oneHeaderDoc_def headersPage_def AddPage_def NewPDFPreparer_def
      Let_def applyStyleSheet_def applyHeader_def applyFooter_def applyReplace_def
      PageOptionsMaps_def mapOf_def NewPageOptions_def newPageOptions_def
      newHeaderAndFooterOptions_def)

text \<open>
  C7, as stated, fails. The custom headers of the page of \<open>twoHeadersDoc\<close> have two
  entries; both orders are enumerations of their keys, and the two calls of \<open>Args()\<close>
  that range over the map in these orders return different sequences.
\<close>

theorem Args_two_calls_counterexample:
  "list_all (iterates appKeyFirst) (docMaps twoHeadersDoc) \<and>
   list_all (iterates appKeyLast) (docMaps twoHeadersDoc) \<and>
   PDFGenerator_Args appKeyFirst twoHeadersDoc \<noteq> PDFGenerator_Args appKeyLast twoHeadersDoc"
  by (simp add: docMaps_twoHeadersDoc twoHeadersDoc_Args_first twoHeadersDoc_Args_last
      iterates_def appKeyFirst_def appKeyLast_def) auto

text \<open>
  C7, amended. \<open>Args()\<close> is a function of the document and of the order in which the run
  time ranges over the maps, and returns nothing but the sequence: the document is not
  changed. For a document in which every map-kind option that \<open>Args()\<close> ranges over
  holds at most one entry, two calls return the same sequence whatever the two orders
  are.
\<close>

theorem Args_deterministic_single_entries:
  assumes "\<forall>m \<in> set (docMaps pdfg). iterates ord1 m \<and> iterates ord2 m \<and> (\<exists>k. dom m \<subseteq> {k})"
  shows "PDFGenerator_Args ord1 pdfg = PDFGenerator_Args ord2 pdfg"
proof (rule PDFGenerator_Args_cong, rule ballI)
  fix m assume "m \<in> set (docMaps pdfg)"
  with assms obtain k where "iterates ord1 m" "iterates ord2 m" "dom m \<subseteq> {k}" by blast
  then show "ord1 m = ord2 m" by (rule iterates_single)
qed

theorem Args_deterministic_single_entries_witness:
  "list_all (iterates appKeyOnly) (docMaps oneHeaderDoc) \<and>
   list_all (iterates appKeyIfSet) (docMaps oneHeaderDoc) \<and>
   list_all (\<lambda>m. dom m \<subseteq> {''X-AppKey''}) (docMaps oneHeaderDoc) \<and>
   appKeyOnly Map.empty \<noteq> appKeyIfSet Map.empty \<and>
   PDFGenerator_Args appKeyOnly oneHeaderDoc = PDFGenerator_Args appKeyIfSet oneHeaderDoc"
proof -
  have a: "list_all (iterates appKeyOnly) (docMaps oneHeaderDoc)"
    by (simp add: docMaps_oneHeaderDoc iterates_def appKeyOnly_def)
  have b: "list_all (iterates appKeyIfSet) (docMaps oneHeaderDoc)"
    by (simp add: docMaps_oneHeaderDoc iterates_def appKeyIfSet_def)
  have c: "list_all (\<lambda>m. dom m \<subseteq> {''X-AppKey''}) (docMaps oneHeaderDoc)"
    by (simp add: docMaps_oneHeaderDoc)
  have d: "appKeyOnly Map.empty \<noteq> appKeyIfSet Map.empty"
    by (simp add: appKeyOnly_def appKeyIfSet_def)
  have "\<forall>m \<in> set (docMaps oneHeaderDoc).
      iterates appKeyOnly m \<and> iterates appKeyIfSet m \<and> (\<exists>k. dom m \<subseteq> {k})"
  proof (intro ballI conjI)
    fix m assume m: "m \<in> set (docMaps oneHeaderDoc)"
    from a m show "iterates appKeyOnly m" by (simp add: list_all_iff)
    from b m show "iterates appKeyIfSet m" by (simp add: list_all_iff)
    from c m have "dom m \<subseteq> {''X-AppKey''}" by (simp add: list_all_iff)
    then show "\<exists>k. dom m \<subseteq> {k}" by (rule exI)
  qed
  from Args_deterministic_single_entries [OF this] a b c d show ?thesis by blast
qed

section \<open>The cache of the derived-markup page\<close>

lemma MarkdownPage_Reader_state:
  assumes "MarkdownPage_Reader e mp = Returns (r, mp')"
  shows "(\<exists>err. r = ErrorReader err \<and> readErr mp' = Some err) \<or>
         (\<exists>html. r = BytesReader html \<and> htmlCache mp' = Some html \<and> readErr mp' = None)"
  using assms
  by (auto simp: MarkdownPage_Reader_def split: option.splits sum.splits go.splits)

lemma MarkdownPage_Reader_again:
  assumes "MarkdownPage_Reader e mp = Returns (r, mp')"
  shows "MarkdownPage_Reader e' mp' = Returns (r, mp')"
  using MarkdownPage_Reader_state [OF assms]
  by (auto simp: MarkdownPage_Reader_def split: option.splits)

lemma laterReaders_cached:
  assumes "MarkdownPage_Reader e mp = Returns (r, mp')"
  shows "laterReaders es mp' = Returns (replicate (length es) r)"
proof (induction es)
  case Nil
  show ?case by simp
next
  case (Cons e' es)
  from MarkdownPage_Reader_again [OF assms] have "MarkdownPage_Reader e' mp' = Returns (r, mp')" .
  with Cons show ?case by simp
qed

text \<open>
  C5. When the first call of \<open>Reader()\<close> on a derived-markup page returns, it returns a
  \<open>bytes.Reader\<close> over the converted HTML or an \<open>errorReader\<close> with the error of the read,
  and every later call returns a reader of the same kind with the same bytes,
  respectively the same error, whatever the file system and the converter are at the
  time of the later call: the source is not read and not converted again. Reading the
  reader gives the bytes, respectively the error, at once.
\<close>

theorem Reader_first_call_decides:
  assumes "MarkdownPage_Reader e mp = Returns (r, mp')"
  shows "laterReaders es mp' = Returns (replicate (length es) r) \<and>
         ((\<exists>html. r = BytesReader html \<and> ReadAll r h = (Inr html, h)) \<or>
          (\<exists>err. r = ErrorReader err \<and> ReadAll r h = (Inl err, h)))"
proof
  show "laterReaders es mp' = Returns (replicate (length es) r)"
    using assms by (rule laterReaders_cached)
next
  from MarkdownPage_Reader_state [OF assms]
  show "(\<exists>html. r = BytesReader html \<and> ReadAll r h = (Inr html, h)) \<or>
          (\<exists>err. r = ErrorReader err \<and> ReadAll r h = (Inl err, h))"
    by auto
qed

lemma helloPage_Reader:
  "MarkdownPage_Reader helloFiles helloPage =
     Returns (BytesReader (htmlOpen @ ''<h1>Hello</h1>'' @ htmlClose),
       helloPage\<lparr>htmlCache := Some (htmlOpen @ ''<h1>Hello</h1>'' @ htmlClose)\<rparr>)"
  by (simp add: MarkdownPage_Reader_def helloFiles_def helloPage_def mdBytesToParse_def)

lemma helloPage_Reader_fails:
  "MarkdownPage_Reader noFiles helloPage =
     Returns (ErrorReader (ReadMarkdownFailed ''hello.md'' (OsError ''no such file'')),
       helloPage\<lparr>readErr := Some (ReadMarkdownFailed ''hello.md'' (OsError ''no such file''))\<rparr>)"
  by (simp add: MarkdownPage_Reader_def noFiles_def helloPage_def)

theorem Reader_first_call_decides_witness:
  "laterReaders [noFiles, helloFiles]
     (helloPage\<lparr>htmlCache := Some (htmlOpen @ ''<h1>Hello</h1>'' @ htmlClose)\<rparr>) =
     Returns [BytesReader (htmlOpen @ ''<h1>Hello</h1>'' @ htmlClose),
              BytesReader (htmlOpen @ ''<h1>Hello</h1>'' @ htmlClose)] \<and>
   laterReaders [helloFiles, noFiles]
     (helloPage\<lparr>readErr := Some (ReadMarkdownFailed ''hello.md'' (OsError ''no such file''))\<rparr>) =
     Returns [ErrorReader (ReadMarkdownFailed ''hello.md'' (OsError ''no such file'')),
              ErrorReader (ReadMarkdownFailed ''hello.md'' (OsError ''no such file''))] \<and>
   ReadAll (ErrorReader (ReadMarkdownFailed ''hello.md'' (OsError ''no such file''))) emptyHeap =
     (Inl (ReadMarkdownFailed ''hello.md'' (OsError ''no such file'')), emptyHeap)"
  using Reader_first_call_decides [OF helloPage_Reader, of "[noFiles, helloFiles]" emptyHeap]
    Reader_first_call_decides [OF helloPage_Reader_fails, of "[helloFiles, noFiles]" emptyHeap]
  by simp

section \<open>The standard input of the build\<close>








section \<open>The heading block of a derived-markup page\<close>

lemmas eval_md = TrimSpace_def trimRunes.simps spaceRunes_def HasPrefix_def scanLines_def
  dropCR_def newline_def mdBytesToParse_def Let_def joinLines_def






lemma isBlank_not_isH2: "isBlank l \<Longrightarrow> \<not> isH2 l"
  by (simp add: isBlank_def isH2_def HasPrefix_def)









lemma crlf_source_resumes_inside_heading:
  "mdBytesToParse True
     (''# Title'' @ [CHR 0x0D, newline, CHR 0x0D, newline] @ ''## Subtitle'' @ [CHR 0x0D, newline] @
      ''Body'' @ [CHR 0x0D, newline]) =
   Returns (''e'' @ [CHR 0x0D, newline] @ ''Body'' @ [CHR 0x0D, newline])"
  by (simp add: eval_md)

lemma unterminated_H2_panics:
  "mdBytesToParse True (''# Title'' @ [newline] @ ''## Subtitle'') = Panics"
  by (simp add: eval_md)





section \<open>Serialization drains the stream pages\<close>

lemma drain_cells:
  "cells (drain a h) b = (if b = a then (cells h a)\<lparr>pending := []\<rparr> else cells h b)"
  by (simp add: drain_def)





lemma MarkdownPage_Reader_options:
  assumes "MarkdownPage_Reader e mp = Returns (r, mp')"
  shows "MP_PageOptions mp' = MP_PageOptions mp"
  using assms
  by (auto simp: MarkdownPage_Reader_def split: option.splits sum.splits go.splits)

lemma validUTF8_ascii: "\<forall>c \<in> set s. byteOf c < 0x80 \<Longrightarrow> validUTF8 s"
proof (induction s)
  case Nil
  show ?case by (simp add: validUTF8.simps)
next
  case (Cons c s)
  then show ?case by (simp add: validUTF8.simps [of "c # s"])
qed

lemma coerceUTF8_valid: "validUTF8 s \<Longrightarrow> coerceUTF8 s = s"
proof (induction s rule: validUTF8.induct)
  case (1 s)
  show ?case
  proof (cases "s = []")
    case True
    then show ?thesis by (simp add: coerceUTF8.simps)
  next
    case False
    from "1.prems" False have n: "runeLen s \<noteq> 0"
      by (auto simp: validUTF8.simps [of s] split: if_splits)
    from "1.prems" False n have v: "validUTF8 (drop (runeLen s) s)"
      by (simp add: validUTF8.simps [of s])
    from "1.IH" [OF False n v] have "coerceUTF8 (drop (runeLen s) s) = drop (runeLen s) s" .
    with False n show ?thesis by (simp add: coerceUTF8.simps [of s])
  qed
qed

lemma pageToJSON_record:
  assumes "pageToJSON e p h = Returns (Inr jp, p', h')"
  shows "jp_PageOptions jp = Options p \<and> Options p' = Options p \<and> validUTF8 (jp_Type jp)"
proof (cases p)
  case (Page inp po)
  with assms show ?thesis
    by (auto simp: embedContent_def validUTF8_ascii byteOf_def)
next
  case (PageReader inp po)
  with assms show ?thesis
    by (cases inp)
       (auto simp: embedContent_def validUTF8_ascii byteOf_def split: prod.splits sum.splits)
next
  case (Markdown mp)
  with assms obtain r mp' where r: "MarkdownPage_Reader e mp = Returns (r, mp')"
    and p': "p' = Markdown mp'"
    and emb: "embedContent (Some r)
       \<lparr>jp_Type = ''markdown'', jp_PageOptions = MP_PageOptions mp,
         jp_InputFile = InputFile (Markdown mp), jp_InputPath = InputPath mp,
         jp_Base64PageData = Base64 []\<rparr> h = (Inr jp, h')"
    by (auto split: go.splits prod.splits)
  from emb have "jp_PageOptions jp = MP_PageOptions mp \<and> jp_Type jp = ''markdown''"
    by (auto simp: embedContent_def split: prod.splits sum.splits)
  with MarkdownPage_Reader_options [OF r] Markdown p' show ?thesis
    by (simp add: validUTF8_ascii byteOf_def)
qed

lemma pagesToJSON_record:
  "pagesToJSON e ps h = Returns (Inr jps, ps', h') \<Longrightarrow>
   map jp_PageOptions jps = map Options ps \<and> map Options ps' = map Options ps \<and>
   list_all (\<lambda>jp. validUTF8 (jp_Type jp)) jps"
proof (induction ps arbitrary: h jps ps' h')
  case Nil
  then show ?case by simp
next
  case (Cons p ps)
  from Cons.prems obtain jp p1 h1 jps1 ps1 where
    one: "pageToJSON e p h = Returns (Inr jp, p1, h1)" and
    rest: "pagesToJSON e ps h1 = Returns (Inr jps1, ps1, h')" and
    ps': "ps' = p1 # ps1" and jps: "jps = jp # jps1"
    by (auto split: go.splits prod.splits sum.splits)
  from pageToJSON_record [OF one] Cons.IH [OF rest] ps' jps show ?case by simp
qed

lemma Marshal_Inr:
  "Marshal j = Inr text \<longleftrightarrow>
   filter nonFinite (floats_json j) = [] \<and> text = JSON (coerce_jsonPDFGenerator j)"
  by (auto simp: Marshal_def split: list.splits)









section \<open>The round trip through the interchange codec\<close>

lemma drain_other: "a \<noteq> b \<Longrightarrow> cells (drain a h) b = cells h b"
  by (simp add: drain_cells)

lemma portable_drain:
  "portable h p \<Longrightarrow> a \<notin> set (pageAddr p) \<Longrightarrow> portable (drain a h) p"
proof (cases p)
  case (Page inp po)
  assume "portable h p" then show ?thesis using Page by simp
next
  case (PageReader inp po)
  assume "portable h p" "a \<notin> set (pageAddr p)"
  with PageReader show ?thesis by (cases inp) (simp_all add: drain_cells)
next
  case (Markdown mp)
  assume "portable h p" then show ?thesis using Markdown by simp
qed

lemma pageToJSON_portable:
  assumes "portable h p"
  shows "\<exists>jp. pageToJSON e p h = Returns (Inr jp, p, fold drain (pageAddr p) h) \<and> encodes p jp"
proof (cases p)
  case (Page inp po)
  with assms show ?thesis by (simp add: embedContent_def)
next
  case (PageReader inp po)
  with assms obtain a where "inp = Some a" "pending (cells h a) \<noteq> []" "failure (cells h a) = None"
    by (cases inp) simp_all
  with PageReader show ?thesis by (simp add: embedContent_def EncodeToString_def)
next
  case (Markdown mp)
  with assms show ?thesis by simp
qed

lemma pagesToJSON_portable:
  "list_all (portable h) ps \<Longrightarrow> distinct (streamAddrs ps) \<Longrightarrow>
   \<exists>jps h'. pagesToJSON e ps h = Returns (Inr jps, ps, h') \<and> list_all2 encodes ps jps"
proof (induction ps arbitrary: h)
  case Nil
  show ?case by simp
next
  case (Cons p ps)
  from Cons.prems have p: "portable h p" by simp
  from pageToJSON_portable [OF p] obtain jp where
    jp: "pageToJSON e p h = Returns (Inr jp, p, fold drain (pageAddr p) h)" "encodes p jp"
    by blast
  have rest: "list_all (portable (fold drain (pageAddr p) h)) ps"
  proof (cases "pageAddr p")
    case Nil
    with Cons.prems show ?thesis by simp
  next
    case (Cons a as)
    then have addr: "pageAddr p = [a]" by (cases p rule: pageAddr.cases) simp_all
    have "portable (drain a h) q" if "q \<in> set ps" for q
    proof (rule portable_drain)
      from Cons.prems(1) that show "portable h q" by (simp add: list_all_iff)
      from Cons.prems(2) addr that show "a \<notin> set (pageAddr q)"
        by (auto simp: streamAddrs_def)
    qed
    with addr show ?thesis by (simp add: list_all_iff)
  qed
  from Cons.prems have "distinct (streamAddrs ps)" by (simp add: streamAddrs_def)
  from Cons.IH [OF rest this] obtain jps h' where
    jps: "pagesToJSON e ps (fold drain (pageAddr p) h) = Returns (Inr jps, ps, h')"
      "list_all2 encodes ps jps"
    by blast
  from jp jps have "pagesToJSON e (p # ps) h = Returns (Inr (jp # jps), p # ps, h')" by simp
  with jp jps show ?case by auto
qed

text \<open>The encoder leaves a value whose strings are valid as it is.\<close>

lemma lastKey_single: "lastKey {k} = k"
  unfolding lastKey_def by (rule the_equality) auto

lemma coerceMap_valid:
  assumes "validMap m"
  shows "coerceMap m = m"
proof
  fix k'
  show "coerceMap m k' = m k'"
  proof (cases "m k'")
    case None
    have "\<not> (\<exists>k. m k \<noteq> None \<and> coerceUTF8 k = k')"
    proof
      assume "\<exists>k. m k \<noteq> None \<and> coerceUTF8 k = k'"
      then obtain k v where k: "m k = Some v" "coerceUTF8 k = k'" by auto
      from assms k(1) have "validUTF8 k" by (auto simp: validMap_def)
      then have "coerceUTF8 k = k" by (rule coerceUTF8_valid)
      with k None show False by simp
    qed
    then have "coerceMap m k' = None" unfolding coerceMap_def by (rule if_not_P)
    with None show ?thesis by simp
  next
    case (Some v)
    from assms Some have vk: "validUTF8 k'" and vv: "validUTF8 v" by (auto simp: validMap_def)
    have "{k. m k \<noteq> None \<and> coerceUTF8 k = k'} = {k'}"
    proof (rule set_eqI)
      fix k
      show "k \<in> {k. m k \<noteq> None \<and> coerceUTF8 k = k'} \<longleftrightarrow> k \<in> {k'}"
      proof
        assume "k \<in> {k. m k \<noteq> None \<and> coerceUTF8 k = k'}"
        then obtain w where w: "m k = Some w" "coerceUTF8 k = k'" by auto
        from assms w(1) have "validUTF8 k" by (auto simp: validMap_def)
        then have "coerceUTF8 k = k" by (rule coerceUTF8_valid)
        with w show "k \<in> {k'}" by simp
      next
        assume "k \<in> {k'}"
        with Some coerceUTF8_valid [OF vk] show "k \<in> {k. m k \<noteq> None \<and> coerceUTF8 k = k'}"
          by simp
      qed
    qed
    moreover have "\<exists>k. m k \<noteq> None \<and> coerceUTF8 k = k'"
      using Some coerceUTF8_valid [OF vk] by auto
    ultimately have "coerceMap m k' = map_option coerceUTF8 (m k')"
      unfolding coerceMap_def by (simp only: lastKey_single if_True)
    with Some coerceUTF8_valid [OF vv] show ?thesis by simp
  qed
qed

lemma coerce_stringOption_valid: "valid_stringOption c \<Longrightarrow> coerce_stringOption c = c"
  by (simp add: valid_stringOption_def coerce_stringOption_def coerceUTF8_valid)

lemma coerce_boolOption_valid: "validUTF8 (bo_option c) \<Longrightarrow> coerce_boolOption c = c"
  by (simp add: coerce_boolOption_def coerceUTF8_valid)

lemma coerce_uintOption_valid: "validUTF8 (uo_option c) \<Longrightarrow> coerce_uintOption c = c"
  by (simp add: coerce_uintOption_def coerceUTF8_valid)

lemma coerce_floatOption_valid: "validUTF8 (fo_option c) \<Longrightarrow> coerce_floatOption c = c"
  by (simp add: coerce_floatOption_def coerceUTF8_valid)

lemma coerce_mapOption_valid: "valid_mapOption c \<Longrightarrow> coerce_mapOption c = c"
  by (cases "mo_value c")
     (simp_all add: valid_mapOption_def coerce_mapOption_def coerceUTF8_valid coerceMap_valid)

lemma coerce_sliceOption_valid: "valid_sliceOption c \<Longrightarrow> coerce_sliceOption c = c"
  by (simp add: valid_sliceOption_def coerce_sliceOption_def coerceUTF8_valid list_all_iff
      map_idI)

lemmas coerce_cells_valid = coerce_stringOption_valid coerce_boolOption_valid
  coerce_uintOption_valid coerce_floatOption_valid coerce_mapOption_valid
  coerce_sliceOption_valid

lemma coerce_cell_valid: "valid_cell c \<Longrightarrow> coerce_cell c = c"
  by (cases c) (simp_all add: coerce_cells_valid)

lemma coerce_globalOptions_valid: "valid_globalOptions g \<Longrightarrow> coerce_globalOptions g = g"
  by (simp add: valid_globalOptions_def coerce_globalOptions_def coerce_cells_valid)

lemma coerce_pageOptions_valid: "valid_pageOptions po \<Longrightarrow> coerce_pageOptions po = po"
  by (simp add: valid_pageOptions_def coerce_pageOptions_def coerce_cells_valid)

lemma coerce_headerAndFooterOptions_valid:
  "valid_headerAndFooterOptions hf \<Longrightarrow> coerce_headerAndFooterOptions hf = hf"
  by (simp add: valid_headerAndFooterOptions_def coerce_headerAndFooterOptions_def
      coerce_cells_valid)

lemma coerce_PageOptions_valid: "valid_PageOptions po \<Longrightarrow> coerce_PageOptions po = po"
  by (simp add: valid_PageOptions_def coerce_PageOptions_def coerce_pageOptions_valid
      coerce_headerAndFooterOptions_valid)

lemma pageToJSON_strings:
  assumes "pageToJSON e p h = Returns (Inr jp, p', h')" and "valid_page p"
  shows "coerce_jsonPage jp = jp"
proof -
  have dash: "validUTF8 ''-''" "validUTF8 []"
    by (simp_all add: validUTF8_ascii byteOf_def)
  from pageToJSON_record [OF assms(1)]
  have ty: "validUTF8 (jp_Type jp)" and po: "jp_PageOptions jp = Options p" by simp_all
  have "validUTF8 (jp_InputFile jp) \<and> validUTF8 (jp_InputPath jp) \<and> valid_PageOptions (Options p)"
  proof (cases p)
    case (Page inp po)
    with assms dash show ?thesis by (auto simp: embedContent_def)
  next
    case (PageReader inp po)
    with assms dash show ?thesis
      by (cases inp) (auto simp: embedContent_def split: prod.splits sum.splits)
  next
    case (Markdown mp)
    with assms(1) obtain r where emb: "embedContent (Some r)
         \<lparr>jp_Type = ''markdown'', jp_PageOptions = MP_PageOptions mp,
           jp_InputFile = InputFile (Markdown mp), jp_InputPath = InputPath mp,
           jp_Base64PageData = Base64 []\<rparr> h = (Inr jp, h')"
      by (auto split: go.splits prod.splits)
    then have "jp_InputFile jp = ''-'' \<and> jp_InputPath jp = InputPath mp"
      by (auto simp: embedContent_def split: prod.splits sum.splits)
    with Markdown assms(2) dash show ?thesis by simp
  qed
  with ty po show ?thesis
    by (simp add: coerce_jsonPage_def coerceUTF8_valid coerce_PageOptions_valid)
qed

lemma pagesToJSON_strings:
  "pagesToJSON e ps h = Returns (Inr jps, ps', h') \<Longrightarrow> list_all valid_page ps \<Longrightarrow>
   map coerce_jsonPage jps = jps"
proof (induction ps arbitrary: h jps ps' h')
  case Nil
  then show ?case by simp
next
  case (Cons p ps)
  from Cons.prems(1) obtain jp p1 h1 jps1 ps1 where
    one: "pageToJSON e p h = Returns (Inr jp, p1, h1)" and
    rest: "pagesToJSON e ps h1 = Returns (Inr jps1, ps1, h')" and
    jps: "jps = jp # jps1"
    by (auto split: go.splits prod.splits sum.splits)
  from Cons.prems(2) have "valid_page p" "list_all valid_page ps" by simp_all
  from pageToJSON_strings [OF one this(1)] Cons.IH [OF rest this(2)] jps show ?case by simp
qed

text \<open>
  The serialization of a document whose strings are valid and whose floats are finite
  is the text of its interchange value.
\<close>

lemma ToJSON_valid:
  assumes "pagesToJSON e (pages pdfg) h = Returns (Inr jps, ps, h')"
    and "validStrings pdfg" and "finiteFloats pdfg"
  shows "ToJSON e pdfg h =
           Returns (Inr (JSON \<lparr>j_GlobalOptions = pdfg_globalOptions pdfg,
                                j_OutlineOptions = pdfg_outlineOptions pdfg,
                                j_Cover = Cover pdfg, j_TOC = TOC pdfg, j_Pages = jps\<rparr>),
                    pdfg\<lparr>pages := ps\<rparr>, h')"
proof -
  define j where "j = \<lparr>j_GlobalOptions = pdfg_globalOptions pdfg,
    j_OutlineOptions = pdfg_outlineOptions pdfg, j_Cover = Cover pdfg, j_TOC = TOC pdfg,
    j_Pages = jps\<rparr>"
  from assms(2) have pv: "list_all valid_page (pages pdfg)" by (simp add: validStrings_def)
  note pg = pagesToJSON_strings [OF assms(1) pv]
  from assms(2) have "map coerce_cell (pdfg_outlineOptions pdfg) = pdfg_outlineOptions pdfg"
    by (simp add: validStrings_def list_all_iff coerce_cell_valid map_idI)
  moreover from assms(2) have "coerce_cover (Cover pdfg) = Cover pdfg"
    by (simp add: validStrings_def coerce_cover_def coerceUTF8_valid coerce_pageOptions_valid)
  moreover from assms(2) have "coerce_toc (TOC pdfg) = TOC pdfg"
    by (simp add: validStrings_def coerce_toc_def coerce_tocOptions_def coerce_boolOption_valid
        coerce_pageOptions_valid coerce_headerAndFooterOptions_valid)
  moreover from assms(2) have "coerce_globalOptions (pdfg_globalOptions pdfg) = pdfg_globalOptions pdfg"
    by (simp add: validStrings_def coerce_globalOptions_valid)
  ultimately have co: "coerce_jsonPDFGenerator j = j"
    using pg by (simp add: coerce_jsonPDFGenerator_def j_def)
  from pagesToJSON_record [OF assms(1)]
  have "map jp_PageOptions jps = map Options (pages pdfg)" by simp
  with assms(3) have "filter nonFinite (floats_json j) = []"
    by (simp add: finiteFloats_def floats_json_def j_def filter_empty_conv list_all_iff)
  with co have "Marshal j = Inr (JSON j)" by (simp add: Marshal_Inr)
  with assms(1) show ?thesis by (simp add: ToJSON_def j_def)
qed

lemma AddPage_no_defaults:
  assumes "userStyleSheetPath g = []" and "headerHTMLPath g = []" and "footerHTMLPath g = []"
    and "mo_value (replace g) = None"
  shows "AddPage ord [] [] p g = g\<lparr>pages := pages g @ [p]\<rparr>"
proof -
  have "setOptions (Options p) p = p" by (cases p) simp_all
  with assms show ?thesis
    by (simp add: AddPage_def Let_def applyStyleSheet_def applyHeader_def applyFooter_def
        applyReplace_def)
qed

lemma pageFromJSON_encodes:
  assumes "encodes p jp"
    and "userStyleSheetPath g = []" and "headerHTMLPath g = []" and "footerHTMLPath g = []"
    and "mo_value (replace g) = None"
  shows "\<exists>q h'. pageFromJSON ord i jp g h = (Inr (g\<lparr>pages := pages g @ [q]\<rparr>), h') \<and> sameArgs p q"
proof (cases p)
  case (Page inp po)
  with assms(1) have "pageFromJSON ord i jp g h = (Inr (g\<lparr>pages := pages g @ [p]\<rparr>), h)"
    by (simp add: pageFromJSON_def AddPage_no_defaults [OF assms(2-5)])
  moreover have "sameArgs p p" by (simp add: sameArgs_def)
  ultimately show ?thesis by blast
next
  case (PageReader inp po)
  with assms(1) obtain b where b: "jp_Base64PageData jp = Base64 b" "b \<noteq> []"
    by (cases "jp_Base64PageData jp") simp_all
  from PageReader assms(1) have ty: "jp_Type jp = ''reader''" "jp_PageOptions jp = po" by simp_all
  have "pageFromJSON ord i jp g h =
      (Inr (g\<lparr>pages := pages g @ [PageReader (Some (nextAddr h)) po]\<rparr>),
       snd (alloc \<lparr>pending = b, failure = None\<rparr> h))"
    by (simp add: pageFromJSON_def ty b alloc_def AddPage_no_defaults [OF assms(2-5)])
  moreover have "sameArgs p (PageReader (Some (nextAddr h)) po)"
    by (simp add: sameArgs_def PageReader)
  ultimately show ?thesis by blast
next
  case (Markdown mp)
  with assms(1) show ?thesis by simp
qed

lemma pagesFromJSON_encodes:
  "list_all2 encodes ps jps \<Longrightarrow>
   userStyleSheetPath g = [] \<Longrightarrow> headerHTMLPath g = [] \<Longrightarrow> footerHTMLPath g = [] \<Longrightarrow>
   mo_value (replace g) = None \<Longrightarrow>
   \<exists>qs h'. pagesFromJSON ord i jps g h = (Inr (g\<lparr>pages := pages g @ qs\<rparr>), h') \<and>
     list_all2 sameArgs ps qs"
proof (induction ps jps arbitrary: g h i rule: list_all2_induct)
  case Nil
  have "g\<lparr>pages := pages g @ []\<rparr> = g" by simp
  then show ?case by simp
next
  case (Cons p ps jp jps)
  from pageFromJSON_encodes [OF Cons.hyps(1) Cons.prems, of ord i h] obtain q h1 where
    q: "pageFromJSON ord i jp g h = (Inr (g\<lparr>pages := pages g @ [q]\<rparr>), h1)" "sameArgs p q"
    by blast
  let ?g = "g\<lparr>pages := pages g @ [q]\<rparr>"
  from Cons.prems have "userStyleSheetPath ?g = []" "headerHTMLPath ?g = []"
    "footerHTMLPath ?g = []" "mo_value (replace ?g) = None" by simp_all
  from Cons.IH [OF this, of "Suc i" h1] obtain qs h' where
    qs: "pagesFromJSON ord (Suc i) jps ?g h1 = (Inr (?g\<lparr>pages := pages ?g @ qs\<rparr>), h')"
      "list_all2 sameArgs ps qs"
    by blast
  from q qs have "pagesFromJSON ord i (jp # jps) g h =
      (Inr (g\<lparr>pages := pages g @ (q # qs)\<rparr>), h')" by simp
  with q qs show ?case by auto
qed

lemma page_fragments_sameArgs:
  "list_all2 sameArgs ps qs \<Longrightarrow>
   concat (map (\<lambda>p. ''page'' # InputFile p # PageProvider_Args ord p) qs) =
   concat (map (\<lambda>p. ''page'' # InputFile p # PageProvider_Args ord p) ps)"
proof (induction ps qs rule: list_all2_induct)
  case Nil
  show ?case by simp
next
  case (Cons p ps q qs)
  have "PageProvider_Args ord x = PageOptions_Args ord (Options x)" for x
    by (cases x) simp_all
  with Cons show ?case by (simp add: sameArgs_def)
qed

lemma roundTripArgs_portable:
  assumes "list_all (portable h) (pages pdfg)" and "distinct (streamAddrs (pages pdfg))"
    and "validStrings pdfg" and "finiteFloats pdfg"
  shows "roundTripArgs (Inr path) e ord pdfg h =
           Returns (Inr (PDFGenerator_Args ord (pdfg\<lparr>OutputFile := []\<rparr>)))"
proof -
  from pagesToJSON_portable [OF assms(1,2), of e] obtain jps h' where
    ser: "pagesToJSON e (pages pdfg) h = Returns (Inr jps, pages pdfg, h')" and
    enc: "list_all2 encodes (pages pdfg) jps"
    by blast
  define j where "j = \<lparr>j_GlobalOptions = pdfg_globalOptions pdfg,
    j_OutlineOptions = pdfg_outlineOptions pdfg, j_Cover = Cover pdfg, j_TOC = TOC pdfg,
    j_Pages = jps\<rparr>"
  define g where "g = NewPDFPreparer\<lparr>binPath := path, TOC := j_TOC j, Cover := j_Cover j,
    pdfg_globalOptions := j_GlobalOptions j, pdfg_outlineOptions := j_OutlineOptions j\<rparr>"
  from ToJSON_valid [OF ser assms(3,4)]
  have toj: "ToJSON e pdfg h = Returns (Inr (JSON j), pdfg\<lparr>pages := pages pdfg\<rparr>, h')"
    by (simp add: j_def)
  have g: "userStyleSheetPath g = []" "headerHTMLPath g = []" "footerHTMLPath g = []"
    "mo_value (replace g) = None"
    by (simp_all add: g_def NewPDFPreparer_def)
  have g0: "pages g = []" "OutputFile g = []" "pdfg_globalOptions g = pdfg_globalOptions pdfg"
    "pdfg_outlineOptions g = pdfg_outlineOptions pdfg" "Cover g = Cover pdfg" "TOC g = TOC pdfg"
    by (simp_all add: g_def j_def NewPDFPreparer_def)
  from pagesFromJSON_encodes [OF enc g, of ord 0 h'] obtain qs h'' where
    de: "pagesFromJSON ord 0 jps g h' = (Inr (g\<lparr>pages := pages g @ qs\<rparr>), h'')" and
    same: "list_all2 sameArgs (pages pdfg) qs"
    by blast
  have "j_Pages j = jps" by (simp add: j_def)
  with de have fromj: "NewPDFGeneratorFromJSON (Inr path) ord (JSON j) h' =
      (Inr (g\<lparr>pages := qs\<rparr>), h'')"
    by (simp add: NewPDFGeneratorFromJSON_def NewPDFGenerator_def g_def g0(1) [unfolded g_def])
  have "PDFGenerator_Args ord (g\<lparr>pages := qs\<rparr>) =
      PDFGenerator_Args ord (pdfg\<lparr>OutputFile := []\<rparr>)"
    by (simp add: PDFGenerator_Args_flat g0 page_fragments_sameArgs [OF same])
  with toj fromj show ?thesis by (simp add: roundTripArgs_def)
qed

text \<open>The documents built on the empty document have valid strings and finite floats.\<close>

lemma ascii_literals:
  "validUTF8 []" "validUTF8 ''-''" "validUTF8 ''a.html''" "validUTF8 ''https://www.google.com''"
  "validUTF8 ''X-AppKey''" "validUTF8 ''abcdef''"
  by (simp_all add: validUTF8_ascii byteOf_def)

lemma NewPageOptions_valid: "valid_PageOptions NewPageOptions"
  by (simp add: valid_PageOptions_def valid_pageOptions_def valid_headerAndFooterOptions_def
      valid_stringOption_def valid_mapOption_def valid_sliceOption_def NewPageOptions_def
      newPageOptions_def newHeaderAndFooterOptions_def validUTF8_ascii byteOf_def)

lemma NewPDFPreparer_valid:
  "validStrings (NewPDFPreparer\<lparr>pages := ps\<rparr>) = list_all valid_page ps"
  by (simp add: validStrings_def valid_globalOptions_def valid_pageOptions_def
      valid_headerAndFooterOptions_def valid_stringOption_def valid_mapOption_def
      valid_sliceOption_def NewPDFPreparer_def newGlobalOptions_def newPageOptions_def
      newHeaderAndFooterOptions_def newTocOptions_def validUTF8_ascii byteOf_def)

lemma NewPDFPreparer_finite:
  "finiteFloats (NewPDFPreparer\<lparr>pages := ps\<rparr>) =
     list_all (\<lambda>v. \<not> nonFinite v) (concat (map floats_PageOptions (map Options ps)))"
  by (simp add: finiteFloats_def floats_groups_def nonFinite_def NewPDFPreparer_def
      newPageOptions_def newHeaderAndFooterOptions_def)

lemma NewPageOptions_finite: "list_all (\<lambda>v. \<not> nonFinite v) (floats_PageOptions NewPageOptions)"
  by (simp add: floats_PageOptions_def nonFinite_def NewPageOptions_def newPageOptions_def
      newHeaderAndFooterOptions_def)

lemma plain_doc:
  "AddPage noKeys [] [] p NewPDFPreparer = NewPDFPreparer\<lparr>pages := [p]\<rparr>"
  by (simp add: AddPage_no_defaults NewPDFPreparer_def)

lemma sentinelPageDoc_ToJSON:
  "ToJSON noFiles sentinelPageDoc emptyHeap =
     Returns (Inr (JSON \<lparr>j_GlobalOptions = newGlobalOptions, j_OutlineOptions = [],
                          j_Cover = Cover NewPDFPreparer, j_TOC = TOC NewPDFPreparer,
                          j_Pages = [\<lparr>jp_Type = ''page'', jp_PageOptions = NewPageOptions,
                                      jp_InputFile = ''-'', jp_InputPath = [],
                                      jp_Base64PageData = Base64 []\<rparr>]\<rparr>),
              sentinelPageDoc, emptyHeap)"
proof -
  have d: "sentinelPageDoc = NewPDFPreparer\<lparr>pages := [NewPage ''-'']\<rparr>"
    by (simp add: sentinelPageDoc_def plain_doc)
  have ser: "pagesToJSON noFiles (pages sentinelPageDoc) emptyHeap =
      Returns (Inr [\<lparr>jp_Type = ''page'', jp_PageOptions = NewPageOptions,
                      jp_InputFile = ''-'', jp_InputPath = [],
                      jp_Base64PageData = Base64 []\<rparr>], pages sentinelPageDoc, emptyHeap)"
    by (simp add: d NewPage_def embedContent_def)
  have v: "validStrings sentinelPageDoc"
    by (simp add: d NewPDFPreparer_valid NewPage_def NewPageOptions_valid ascii_literals)
  have f: "finiteFloats sentinelPageDoc"
    using NewPageOptions_finite by (simp add: d NewPDFPreparer_finite NewPage_def)
  from ToJSON_valid [OF ser v f] show ?thesis
    by (simp add: d) (simp add: NewPDFPreparer_def)
qed

lemma roundTripArgs_sentinelPageDoc:
  "roundTripArgs (Inr ''wkhtmltopdf'') noFiles noKeys sentinelPageDoc emptyHeap =
     Returns (Inl (InvalidInputFile 0))"
  by (simp add: roundTripArgs_def sentinelPageDoc_ToJSON NewPDFGeneratorFromJSON_def
      NewPDFGenerator_def pageFromJSON_def)

lemma outputFileDoc_pages: "pages outputFileDoc = [NewPage ''a.html'']"
  by (simp add: outputFileDoc_def plain_doc)

lemma located_page_args:
  "PageProvider_Args ord (NewPage inp) = []"
  by (simp add: NewPage_def PageOptions_Args_def pageOptions_Args_def
      headerAndFooterOptions_Args_def NewPageOptions_def newPageOptions_def
      newHeaderAndFooterOptions_def sliceOption_Parse_def mapOption_Parse_def
      boolOption_Parse_def floatOption_Parse_def stringOption_Parse_def)

lemma stream_page_args:
  "InputFile (NewPageReader inp) = ''-''" "PageProvider_Args ord (NewPageReader inp) = []"
  by (simp_all add: NewPageReader_def PageOptions_Args_def pageOptions_Args_def
      headerAndFooterOptions_Args_def NewPageOptions_def newPageOptions_def
      newHeaderAndFooterOptions_def sliceOption_Parse_def mapOption_Parse_def
      boolOption_Parse_def floatOption_Parse_def stringOption_Parse_def)

lemma outputFileDoc_Args:
  "PDFGenerator_Args ord (outputFileDoc\<lparr>OutputFile := out\<rparr>) =
     [''page'', ''a.html'', if out \<noteq> [] then out else ''-'']"
proof -
  have "InputFile (NewPage ''a.html'') = ''a.html''" by (simp add: NewPage_def)
  then show ?thesis
    by (simp add: PDFGenerator_Args_flat outputFileDoc_pages located_page_args)
       (simp add: outputFileDoc_def AddPage_def NewPDFPreparer_def Let_def
        newGlobalOptions_def globalOptions_Args_def uintOption_Parse_def
        stringOption_Parse_def outlineOptions_Args_def)
qed

lemma outputFileDoc_valid: "validStrings outputFileDoc" "finiteFloats outputFileDoc"
proof -
  have d: "outputFileDoc = NewPDFPreparer\<lparr>pages := [NewPage ''a.html''], OutputFile := ''out.pdf''\<rparr>"
    by (simp add: outputFileDoc_def plain_doc)
  have "validStrings (NewPDFPreparer\<lparr>pages := [NewPage ''a.html'']\<rparr>)"
    by (simp add: NewPDFPreparer_valid NewPage_def NewPageOptions_valid ascii_literals)
  then show "validStrings outputFileDoc" by (simp add: d validStrings_def)
  have "finiteFloats (NewPDFPreparer\<lparr>pages := [NewPage ''a.html'']\<rparr>)"
    using NewPageOptions_finite by (simp add: NewPDFPreparer_finite NewPage_def)
  then show "finiteFloats outputFileDoc" by (simp add: d finiteFloats_def)
qed

text \<open>
  C4, as stated, fails. The output file is not part of the interchange value: the
  document rebuilt from the serialization of \<open>outputFileDoc\<close> ends its argument vector
  with \<open>-\<close>, not with \<open>out.pdf\<close>. And a located page whose locator is the sentinel
  \<open>-\<close> serializes, but the reconstruction refuses it.
\<close>

theorem roundtrip_counterexample:
  "roundTripArgs (Inr ''wkhtmltopdf'') noFiles noKeys outputFileDoc emptyHeap =
     Returns (Inr [''page'', ''a.html'', ''-'']) \<and>
   PDFGenerator_Args noKeys outputFileDoc = [''page'', ''a.html'', ''out.pdf''] \<and>
   roundTripArgs (Inr ''wkhtmltopdf'') noFiles noKeys outputFileDoc emptyHeap \<noteq>
     Returns (Inr (PDFGenerator_Args noKeys outputFileDoc)) \<and>
   roundTripArgs (Inr ''wkhtmltopdf'') noFiles noKeys sentinelPageDoc emptyHeap =
     Returns (Inl (InvalidInputFile 0))"
proof -
  have p: "list_all (portable emptyHeap) (pages outputFileDoc)"
    by (simp add: outputFileDoc_pages NewPage_def)
  have d: "distinct (streamAddrs (pages outputFileDoc))"
    by (simp add: outputFileDoc_pages NewPage_def streamAddrs_def)
  have a: "roundTripArgs (Inr ''wkhtmltopdf'') noFiles noKeys outputFileDoc emptyHeap =
     Returns (Inr [''page'', ''a.html'', ''-''])"
    by (simp add: roundTripArgs_portable [OF p d outputFileDoc_valid] outputFileDoc_Args)
  have "outputFileDoc\<lparr>OutputFile := ''out.pdf''\<rparr> = outputFileDoc"
    by (simp add: outputFileDoc_def)
  with outputFileDoc_Args [of noKeys "''out.pdf''"]
  have b: "PDFGenerator_Args noKeys outputFileDoc = [''page'', ''a.html'', ''out.pdf'']"
    by simp
  from a b roundTripArgs_sentinelPageDoc show ?thesis by simp
qed

text \<open>
  Three more documents for which the round trip does not give back the argument vector.
  The bytes of a locator that are not valid UTF-8 come back as U+FFFD; a float that is
  NaN makes \<open>ToJSON\<close> fail; and with a map of two entries the rebuilt document lists the
  entries in an order of its own.
\<close>

lemma coerce_groups:
  assumes "validStrings (pdfg\<lparr>pages := []\<rparr>)"
  shows "coerce_jsonPDFGenerator
           \<lparr>j_GlobalOptions = pdfg_globalOptions pdfg,
            j_OutlineOptions = pdfg_outlineOptions pdfg,
            j_Cover = Cover pdfg, j_TOC = TOC pdfg, j_Pages = jps\<rparr> =
         \<lparr>j_GlobalOptions = pdfg_globalOptions pdfg,
          j_OutlineOptions = pdfg_outlineOptions pdfg,
          j_Cover = Cover pdfg, j_TOC = TOC pdfg, j_Pages = map coerce_jsonPage jps\<rparr>"
proof -
  from assms have "map coerce_cell (pdfg_outlineOptions pdfg) = pdfg_outlineOptions pdfg"
    by (simp add: validStrings_def list_all_iff coerce_cell_valid map_idI)
  moreover from assms have "coerce_cover (Cover pdfg) = Cover pdfg"
    by (simp add: validStrings_def coerce_cover_def coerceUTF8_valid coerce_pageOptions_valid)
  moreover from assms have "coerce_toc (TOC pdfg) = TOC pdfg"
    by (simp add: validStrings_def coerce_toc_def coerce_tocOptions_def coerce_boolOption_valid
        coerce_pageOptions_valid coerce_headerAndFooterOptions_valid)
  moreover from assms
  have "coerce_globalOptions (pdfg_globalOptions pdfg) = pdfg_globalOptions pdfg"
    by (simp add: validStrings_def coerce_globalOptions_valid)
  ultimately show ?thesis by (simp add: coerce_jsonPDFGenerator_def)
qed

lemma NewPDFPreparer_Args:
  "PDFGenerator_Args ord (NewPDFPreparer\<lparr>binPath := path, pages := ps\<rparr>) =
     concat (map (\<lambda>p. ''page'' # InputFile p # PageProvider_Args ord p) ps) @ [''-'']"
  by (simp add: PDFGenerator_Args_flat)
     (simp add: NewPDFPreparer_def newGlobalOptions_def globalOptions_Args_def
      uintOption_Parse_def stringOption_Parse_def outlineOptions_Args_def)

lemma roundTripArgs_invalidLocatorDoc:
  "PDFGenerator_Args noKeys invalidLocatorDoc = [''page'', [CHR ''a'', CHR 0xFF], ''-'']"
  "roundTripArgs (Inr ''wkhtmltopdf'') noFiles noKeys invalidLocatorDoc emptyHeap =
     Returns (Inr [''page'', [CHR ''a'', CHR 0xEF, CHR 0xBF, CHR 0xBD], ''-''])"
proof -
  have d: "invalidLocatorDoc = NewPDFPreparer\<lparr>pages := [NewPage [CHR ''a'', CHR 0xFF]]\<rparr>"
    by (simp add: invalidLocatorDoc_def plain_doc)
  have i: "InputFile (NewPage inp) = inp" for inp by (simp add: NewPage_def)
  have "NewPDFPreparer\<lparr>binPath := [], pages := ps\<rparr> = NewPDFPreparer\<lparr>pages := ps\<rparr>" for ps
    by (simp add: NewPDFPreparer_def)
  with NewPDFPreparer_Args [where ord = noKeys and path = "[]" and
      ps = "[NewPage [CHR ''a'', CHR 0xFF]]"]
  show "PDFGenerator_Args noKeys invalidLocatorDoc = [''page'', [CHR ''a'', CHR 0xFF], ''-'']"
    by (simp add: d located_page_args i)
  define jp0 where "jp0 = \<lparr>jp_Type = ''page'', jp_PageOptions = NewPageOptions,
    jp_InputFile = [CHR ''a'', CHR 0xFF], jp_InputPath = [], jp_Base64PageData = Base64 []\<rparr>"
  define jp1 where "jp1 = \<lparr>jp_Type = ''page'', jp_PageOptions = NewPageOptions,
    jp_InputFile = [CHR ''a'', CHR 0xEF, CHR 0xBF, CHR 0xBD], jp_InputPath = [],
    jp_Base64PageData = Base64 []\<rparr>"
  let ?j = "\<lambda>jps. \<lparr>j_GlobalOptions = pdfg_globalOptions NewPDFPreparer,
    j_OutlineOptions = pdfg_outlineOptions NewPDFPreparer, j_Cover = Cover NewPDFPreparer,
    j_TOC = TOC NewPDFPreparer, j_Pages = jps\<rparr>"
  have ser: "pagesToJSON noFiles [NewPage [CHR ''a'', CHR 0xFF]] emptyHeap =
      Returns (Inr [jp0], [NewPage [CHR ''a'', CHR 0xFF]], emptyHeap)"
    by (simp add: NewPage_def embedContent_def jp0_def)
  have co: "coerceUTF8 [CHR ''a'', CHR 0xFF] = [CHR ''a'', CHR 0xEF, CHR 0xBF, CHR 0xBD]"
    by (simp add: coerceUTF8.simps byteOf_def replacementChar_def)
  have ty: "validUTF8 ''page''" by (simp add: validUTF8_ascii byteOf_def)
  have cp: "coerce_jsonPage jp0 = jp1"
    by (simp add: coerce_jsonPage_def jp0_def jp1_def co coerceUTF8_valid ty ascii_literals
        coerce_PageOptions_valid NewPageOptions_valid)
  have v: "validStrings (NewPDFPreparer\<lparr>pages := []\<rparr>)"
    by (simp add: NewPDFPreparer_valid)
  have "floats_json (?j [jp0]) =
      floats_groups (pdfg_outlineOptions NewPDFPreparer) (Cover NewPDFPreparer)
        (TOC NewPDFPreparer) @ floats_PageOptions NewPageOptions"
    by (simp add: floats_json_def jp0_def)
  moreover have "finiteFloats (NewPDFPreparer\<lparr>pages := [NewPage []]\<rparr>)"
    using NewPageOptions_finite by (simp add: NewPDFPreparer_finite NewPage_def)
  ultimately have fin: "filter nonFinite (floats_json (?j [jp0])) = []"
    by (simp add: finiteFloats_def NewPage_def filter_empty_conv list_all_iff)
  from fin coerce_groups [OF v, of "[jp0]"] cp
  have "Marshal (?j [jp0]) = Inr (JSON (?j [jp1]))"
    by (simp add: Marshal_Inr)
  with ser have toj: "ToJSON noFiles invalidLocatorDoc emptyHeap =
      Returns (Inr (JSON (?j [jp1])), invalidLocatorDoc, emptyHeap)"
    by (simp add: d ToJSON_def)
  have none: "userStyleSheetPath (NewPDFPreparer\<lparr>binPath := ''wkhtmltopdf''\<rparr>) = []"
    "headerHTMLPath (NewPDFPreparer\<lparr>binPath := ''wkhtmltopdf''\<rparr>) = []"
    "footerHTMLPath (NewPDFPreparer\<lparr>binPath := ''wkhtmltopdf''\<rparr>) = []"
    "mo_value (replace (NewPDFPreparer\<lparr>binPath := ''wkhtmltopdf''\<rparr>)) = None"
    by (simp_all add: NewPDFPreparer_def)
  have nopages: "pages NewPDFPreparer = []" by (simp add: NewPDFPreparer_def)
  have "NewPDFGeneratorFromJSON (Inr ''wkhtmltopdf'') noKeys (JSON (?j [jp1])) emptyHeap =
      (Inr (NewPDFPreparer\<lparr>binPath := ''wkhtmltopdf'',
          pages := [Page [CHR ''a'', CHR 0xEF, CHR 0xBF, CHR 0xBD] NewPageOptions]\<rparr>), emptyHeap)"
    by (simp add: NewPDFGeneratorFromJSON_def NewPDFGenerator_def pageFromJSON_def jp1_def
        AddPage_no_defaults [OF none] nopages)
  with toj NewPDFPreparer_Args [where ord = noKeys and path = "''wkhtmltopdf''" and
      ps = "[NewPage [CHR ''a'', CHR 0xEF, CHR 0xBF, CHR 0xBD]]"]
  show "roundTripArgs (Inr ''wkhtmltopdf'') noFiles noKeys invalidLocatorDoc emptyHeap =
     Returns (Inr [''page'', [CHR ''a'', CHR 0xEF, CHR 0xBF, CHR 0xBD], ''-''])"
    by (simp add: roundTripArgs_def located_page_args i)
       (simp add: NewPage_def)
qed

lemma roundTripArgs_nanZoomDoc:
  "roundTripArgs (Inr ''wkhtmltopdf'') noFiles noKeys nanZoomDoc emptyHeap =
     Returns (Inl (UnsupportedValue ''NaN''))"
proof -
  have d: "nanZoomDoc = NewPDFPreparer\<lparr>pages := [Page ''a.html''
      (NewPageOptions\<lparr>PO_pageOptions := newPageOptions
         \<lparr>Zoom := floatOption_Set ''NaN'' (Zoom newPageOptions)\<rparr>\<rparr>)]\<rparr>"
    by (simp add: nanZoomDoc_def plain_doc)
  show ?thesis
    by (simp add: d roundTripArgs_def ToJSON_def embedContent_def
        Marshal_def floats_json_def floats_groups_def floats_PageOptions_def nonFinite_def
        NewPDFPreparer_def NewPageOptions_def newPageOptions_def newHeaderAndFooterOptions_def
        floatOption_Set_def)
qed

lemma valid_headersPage:
  "validMap m \<Longrightarrow> valid_page (headersPage m)"
  "list_all (\<lambda>v. \<not> nonFinite v) (floats_PageOptions (Options (headersPage m)))"
  by (simp_all add: headersPage_def valid_PageOptions_def valid_pageOptions_def
      valid_headerAndFooterOptions_def valid_stringOption_def valid_mapOption_def
      valid_sliceOption_def NewPageOptions_def newPageOptions_def newHeaderAndFooterOptions_def
      floats_PageOptions_def nonFinite_def validUTF8_ascii byteOf_def)

lemma roundTripArgs_twoHeadersDoc:
  "roundTripArgs (Inr ''wkhtmltopdf'') noFiles appKeyLast twoHeadersDoc emptyHeap =
     Returns (Inr (PDFGenerator_Args appKeyLast twoHeadersDoc))"
  "PDFGenerator_Args appKeyLast twoHeadersDoc \<noteq> PDFGenerator_Args appKeyFirst twoHeadersDoc"
proof -
  let ?m = "[''X-AppKey'' \<mapsto> ''abcdef'', ''X-Trace'' \<mapsto> ''on'']"
  have d: "twoHeadersDoc = NewPDFPreparer\<lparr>pages := [headersPage ?m]\<rparr>"
    by (simp add: twoHeadersDoc_def plain_doc)
  have m: "validMap ?m"
    by (simp add: validMap_def validUTF8_ascii byteOf_def)
  have p: "list_all (portable emptyHeap) (pages twoHeadersDoc)"
    by (simp add: d headersPage_def)
  have a: "distinct (streamAddrs (pages twoHeadersDoc))"
    by (simp add: d headersPage_def streamAddrs_def)
  have v: "validStrings twoHeadersDoc"
    by (simp add: d NewPDFPreparer_valid valid_headersPage(1) [OF m])
  have f: "finiteFloats twoHeadersDoc"
    using valid_headersPage(2) [of ?m] by (simp add: d NewPDFPreparer_finite)
  have "twoHeadersDoc\<lparr>OutputFile := []\<rparr> = twoHeadersDoc"
    by (simp add: d NewPDFPreparer_def)
  with roundTripArgs_portable [OF p a v f, of "''wkhtmltopdf''" noFiles appKeyLast]
  show "roundTripArgs (Inr ''wkhtmltopdf'') noFiles appKeyLast twoHeadersDoc emptyHeap =
     Returns (Inr (PDFGenerator_Args appKeyLast twoHeadersDoc))" by simp
  show "PDFGenerator_Args appKeyLast twoHeadersDoc \<noteq> PDFGenerator_Args appKeyFirst twoHeadersDoc"
    by (simp add: twoHeadersDoc_Args_first twoHeadersDoc_Args_last)
qed

text \<open>
  C4, amended. For every document \<open>d\<close> without an output file whose pages are located
  pages with a locator other than the empty string and \<open>-\<close>, or stream pages whose
  reader objects are different from each other, hold content and end without an error,
  in which every string is valid UTF-8, no float is NaN or infinite and every map that
  \<open>Args()\<close> ranges over holds at most one entry, and when the executable is found,
  \<open>NewPDFGeneratorFromJSON(ToJSON(d))\<close> succeeds and gives a document whose \<open>Args()\<close>
  equals \<open>d.Args()\<close> element for element. The loops of \<open>d.Args()\<close> visit the keys of
  the maps in the order \<open>ord\<close>, the loops in the rebuilt document in the order \<open>ord'\<close>.
\<close>

theorem roundtrip_portable_documents:
  assumes "OutputFile pdfg = []" and "list_all (portable h) (pages pdfg)"
    and "distinct (streamAddrs (pages pdfg))"
    and "validStrings pdfg" and "finiteFloats pdfg"
    and "\<forall>m \<in> set (docMaps pdfg). iterates ord m \<and> iterates ord' m \<and> (\<exists>k. dom m \<subseteq> {k})"
  shows "roundTripArgs (Inr path) e ord' pdfg h = Returns (Inr (PDFGenerator_Args ord pdfg))"
proof -
  from assms(1) have "pdfg\<lparr>OutputFile := []\<rparr> = pdfg" by simp
  with roundTripArgs_portable [OF assms(2-5), of path e ord']
  have "roundTripArgs (Inr path) e ord' pdfg h = Returns (Inr (PDFGenerator_Args ord' pdfg))"
    by simp
  moreover have "PDFGenerator_Args ord' pdfg = PDFGenerator_Args ord pdfg"
  proof (rule PDFGenerator_Args_cong, rule ballI)
    fix m assume "m \<in> set (docMaps pdfg)"
    with assms(6) obtain k where "iterates ord' m" "iterates ord m" "dom m \<subseteq> {k}" by blast
    then show "ord' m = ord m" by (rule iterates_single)
  qed
  ultimately show ?thesis by simp
qed

lemma mixedDoc_eq:
  "mixedDoc = NewPDFPreparer\<lparr>pages := [NewPageReader (Some 0), NewPageReader (Some 1),
     headersPage [''X-AppKey'' \<mapsto> ''abcdef'']]\<rparr>"
proof -
  have t: "twoStreamsDoc =
      NewPDFPreparer\<lparr>pages := [NewPageReader (Some 0), NewPageReader (Some 1)]\<rparr>"
    by (simp add: twoStreamsDoc_def plain_doc AddPage_no_defaults NewPDFPreparer_def)
  show ?thesis
    by (simp add: mixedDoc_def t AddPage_no_defaults NewPDFPreparer_def)
qed

lemma headersPage_Args:
  "InputFile (headersPage m) = ''https://www.google.com''"
  "PageProvider_Args appKeyOnly (headersPage [''X-AppKey'' \<mapsto> ''abcdef'']) =
     [''--custom-header'', ''X-AppKey'', ''abcdef'']"
  by (simp_all add: headersPage_def appKeyOnly_def PageOptions_Args_def pageOptions_Args_def
      headerAndFooterOptions_Args_def NewPageOptions_def newPageOptions_def
      newHeaderAndFooterOptions_def sliceOption_Parse_def mapOption_Parse_def
      boolOption_Parse_def floatOption_Parse_def stringOption_Parse_def)

theorem roundtrip_portable_documents_witness:
  "OutputFile mixedDoc = [] \<and>
   list_all (portable twoStreamsHeap) (pages mixedDoc) \<and>
   streamAddrs (pages mixedDoc) = [0, 1] \<and>
   validStrings mixedDoc \<and> finiteFloats mixedDoc \<and>
   docMaps mixedDoc = [[''X-AppKey'' \<mapsto> ''abcdef'']] \<and>
   iterates appKeyOnly [''X-AppKey'' \<mapsto> ''abcdef''] \<and>
   iterates appKeyIfSet [''X-AppKey'' \<mapsto> ''abcdef''] \<and>
   appKeyOnly Map.empty \<noteq> appKeyIfSet Map.empty \<and>
   PDFGenerator_Args appKeyOnly mixedDoc =
     [''page'', ''-'', ''page'', ''-'', ''page'', ''https://www.google.com'',
      ''--custom-header'', ''X-AppKey'', ''abcdef'', ''-''] \<and>
   roundTripArgs (Inr ''wkhtmltopdf'') noFiles appKeyIfSet mixedDoc twoStreamsHeap =
     Returns (Inr [''page'', ''-'', ''page'', ''-'', ''page'', ''https://www.google.com'',
      ''--custom-header'', ''X-AppKey'', ''abcdef'', ''-''])"
proof -
  let ?m = "[''X-AppKey'' \<mapsto> ''abcdef'']"
  note d = mixedDoc_eq
  have o: "OutputFile mixedDoc = []" by (simp add: d NewPDFPreparer_def)
  have p: "list_all (portable twoStreamsHeap) (pages mixedDoc)"
    by (simp add: d headersPage_def NewPageReader_def twoStreamsHeap_def)
  have s: "streamAddrs (pages mixedDoc) = [0, 1]"
    by (simp add: d headersPage_def NewPageReader_def streamAddrs_def)
  then have a: "distinct (streamAddrs (pages mixedDoc))" by simp
  have m: "validMap ?m" by (simp add: validMap_def validUTF8_ascii byteOf_def)
  have v: "validStrings mixedDoc"
    by (simp add: d NewPDFPreparer_valid valid_headersPage(1) [OF m] NewPageReader_def
        NewPageOptions_valid)
  have f: "finiteFloats mixedDoc"
    using valid_headersPage(2) [of ?m] NewPageOptions_finite
    by (simp add: d NewPDFPreparer_finite NewPageReader_def)
  have dm: "docMaps mixedDoc = [?m]"
    by (simp add: d docMaps_def NewPDFPreparer_def headersPage_def NewPageReader_def
        PageOptionsMaps_def mapOf_def NewPageOptions_def newPageOptions_def
        newHeaderAndFooterOptions_def)
  have i1: "iterates appKeyOnly ?m" by (simp add: iterates_def appKeyOnly_def)
  have i2: "iterates appKeyIfSet ?m" by (simp add: iterates_def appKeyIfSet_def)
  have ne: "appKeyOnly Map.empty \<noteq> appKeyIfSet Map.empty"
    by (simp add: appKeyOnly_def appKeyIfSet_def)
  have "NewPDFPreparer\<lparr>binPath := [], pages := ps\<rparr> = NewPDFPreparer\<lparr>pages := ps\<rparr>" for ps
    by (simp add: NewPDFPreparer_def)
  with NewPDFPreparer_Args [where ord = appKeyOnly and path = "[]" and
      ps = "[NewPageReader (Some 0), NewPageReader (Some 1), headersPage ?m]"]
  have args: "PDFGenerator_Args appKeyOnly mixedDoc =
     [''page'', ''-'', ''page'', ''-'', ''page'', ''https://www.google.com'',
      ''--custom-header'', ''X-AppKey'', ''abcdef'', ''-'']"
    by (simp add: d stream_page_args headersPage_Args)
  have "dom ?m \<subseteq> {''X-AppKey''}" by simp
  then have "\<exists>k. dom ?m \<subseteq> {k}" by (rule exI)
  with i1 i2 dm have maps: "\<forall>m \<in> set (docMaps mixedDoc).
      iterates appKeyOnly m \<and> iterates appKeyIfSet m \<and> (\<exists>k. dom m \<subseteq> {k})"
    by simp
  from roundtrip_portable_documents [OF o p a v f maps, of "''wkhtmltopdf''" noFiles] args
  have rt: "roundTripArgs (Inr ''wkhtmltopdf'') noFiles appKeyIfSet mixedDoc twoStreamsHeap =
     Returns (Inr [''page'', ''-'', ''page'', ''-'', ''page'', ''https://www.google.com'',
      ''--custom-header'', ''X-AppKey'', ''abcdef'', ''-''])"
    by simp
  from o p s v f dm i1 i2 ne args rt show ?thesis by blast
qed

end
